theory Spec2Isabelle
  imports Complex_Main "HOL-Library.Word"
begin

unbundle bit_operations_syntax

section \<open>Data model of mavfwd.c\<close>

text \<open>
  The program is a single C file whose state lives in file-scope variables. The model keeps
  them in one record, field by field under the source's names, together with the parts of
  the environment the code reads (monotonic clock, the three files, the content of local
  arrays that it does not initialise) and the effects it produces (UDP datagrams, serial
  writes, \<^verbatim>\<open>system()\<close> invocations, console diagnostics).
  Console output that is printed only under \<^verbatim>\<open>verbose\<close> is not modelled.
\<close>

type_synonym byte = "8 word"

text \<open>A \<^verbatim>\<open>system()\<close> call: the program named in the command line and its two \<^verbatim>\<open>%d\<close> arguments.\<close>

datatype command = Command string int int

text \<open>The unconditional \<^verbatim>\<open>printf\<close> diagnostics the model records.\<close>

datatype diag =
    BufferOverflowed
  | EmptyMsgFile
  | DroppedReported int
  | NoParsingRaw
  | AggregatePacks int
  | AggregateBytes int
  | RecvfromFailed

text \<open>Abnormal termination of the C program: a failed \<^verbatim>\<open>assert\<close>, or an access outside an array.\<close>

datatype fault = AssertFailed | OutOfBounds

text \<open>
  \<^verbatim>\<open>mavlink_message_t\<close> as far as mavfwd.c reads it: message id, sender, sequence number,
  start marker and payload.
\<close>

record message =
  msgid :: "32 word"
  sysid :: byte
  seq :: byte
  magic :: byte
  payload :: "byte list"

text \<open>
  The MAVLink C library (\<^verbatim>\<open>mavlink/common/mavlink.h\<close>) is not part of mavfwd.c. The functions
  of it that mavfwd.c calls are taken as parameters. \<open>'p\<close> is the library's internal state
  (parse state of channel 0, transmit sequence of channel 1). \<open>parse_char\<close> is
  \<^verbatim>\<open>mavlink_parse_char(MAVLINK_COMM_0, c, &message, &status)\<close>, with \<open>Some\<close> message for
  the result 1. Each RC decoder returns the decoded struct as the sequence of 16-bit words
  that starts at its member \<^verbatim>\<open>chan1_raw\<close>. The packers stand for \<^verbatim>\<open>..._pack_chan\<close> followed
  by \<^verbatim>\<open>mavlink_msg_to_send_buffer\<close>: \<open>statustext_pack p sys text\<close> for severity 4, where
  \<open>text\<close> is the content of the array its pointer argument refers to, and
  \<open>raw_imu_pack p sys temperature\<close> for an otherwise zero \<^verbatim>\<open>RAW_IMU\<close>.
\<close>

record 'p mavlib =
  parse_char :: "'p \<Rightarrow> byte \<Rightarrow> 'p \<times> message option"
  rc_channels_raw_decode :: "message \<Rightarrow> 16 word list"
  rc_channels_override_decode :: "message \<Rightarrow> 16 word list"
  rc_channels_decode :: "message \<Rightarrow> 16 word list"
  statustext_pack :: "'p \<Rightarrow> byte \<Rightarrow> string \<Rightarrow> 'p \<times> byte list"
  raw_imu_pack :: "'p \<Rightarrow> byte \<Rightarrow> real \<Rightarrow> 'p \<times> byte list"

record 'p state =
  ch_count :: "8 word"
  ch :: "16 word list"
  system_id :: byte
  LastWfbSent :: "64 word"
  wait_after_bash :: int
  ChannelPersistPeriodmMS :: int
  aggregate :: int
  monitor_wfb :: bool
  temp :: int
  last_board_temp :: real
  LastTempSent :: "64 word"
  version_shown :: bool
  fc_shown :: bool
  channels :: "16 word list"
  LastStart :: "64 word"
  LastValue :: "64 word"
  NewValue :: "16 word"
  NewValueStart :: "64 word"
  ChannelCmds :: "32 word"
  mavpckts_ttl :: "64 word"
  mavbuf :: "byte list"
  mavbuff_offset :: "32 word"
  mavpckts_count :: "32 word"
  ttl_packets :: int
  ttl_bytes :: int
  mavlink_status :: 'p
  clock :: "nat \<Rightarrow> 64 word"
  ticks :: nat
  msg_file :: "string option"
  wfb_file :: "string list option"
  temp_file :: "string option"
  udp_out :: "byte list list"
  serial_out :: "byte list list"
  commands :: "command list"
  diag_log :: "diag list"
  loop_broken :: bool
  stack :: "nat \<Rightarrow> nat \<Rightarrow> char"
  frames :: nat

text \<open>
  The state at process start: the initialisers of the file-scope variables, \<^verbatim>\<open>last_board_temp\<close>
  as \<^verbatim>\<open>main\<close> sets it, and the environment as given.
\<close>

definition initial_state ::
  "'p \<Rightarrow> (nat \<Rightarrow> 64 word) \<Rightarrow> string option \<Rightarrow> string list option \<Rightarrow> string option \<Rightarrow>
     (nat \<Rightarrow> nat \<Rightarrow> char) \<Rightarrow> 'p state" where
  "initial_state p0 clk mfile wfile tfile stk =
     \<lparr> ch_count = 0, ch = replicate 14 0, system_id = 1, LastWfbSent = 0,
       wait_after_bash = 2000, ChannelPersistPeriodmMS = 2000, aggregate = 1,
       monitor_wfb = False, temp = 0, last_board_temp = - 100, LastTempSent = 0,
       version_shown = False, fc_shown = False, channels = replicate 18 0,
       LastStart = 0, LastValue = 0, NewValue = 0, NewValueStart = 0, ChannelCmds = 0,
       mavpckts_ttl = 0, mavbuf = replicate 2048 0, mavbuff_offset = 0, mavpckts_count = 0,
       ttl_packets = 0, ttl_bytes = 0, mavlink_status = p0,
       clock = clk, ticks = 0, msg_file = mfile, wfb_file = wfile, temp_file = tfile,
       udp_out = [], serial_out = [], commands = [], diag_log = [], loop_broken = False,
       stack = stk, frames = 0 \<rparr>"

subsection \<open>C arithmetic helpers\<close>

text \<open>
  \<^verbatim>\<open>abs\<close> takes an \<^verbatim>\<open>int\<close>. Its argument is converted to 32 bits first (\<open>ucast\<close> of a wider
  unsigned value keeps the low 32 bits); the result is the two's complement negation when
  the sign bit is set, so \<^verbatim>\<open>INT_MIN\<close> is mapped to itself.
\<close>

definition c_abs :: "32 word \<Rightarrow> 32 word" where
  "c_abs x = (if sint x < 0 then - x else x)"

text \<open>\<^verbatim>\<open>abs(a - b)\<close> for two 64-bit unsigned operands, read as the \<^verbatim>\<open>int\<close> it is compared as.\<close>

definition abs_diff :: "64 word \<Rightarrow> 64 word \<Rightarrow> int" where
  "abs_diff a b = sint (c_abs (ucast (a - b)))"

text \<open>\<^verbatim>\<open>abs(t)\<close> of a 64-bit unsigned value stored back into a 64-bit unsigned variable.\<close>

definition abs_u64 :: "64 word \<Rightarrow> 64 word" where
  "abs_u64 t = scast (c_abs (ucast t))"

text \<open>\<^verbatim>\<open>get_current_time_ms\<close>: every call takes the next reading of the monotonic clock.\<close>

definition get_current_time_ms :: "'p state \<Rightarrow> 64 word \<times> 'p state" where
  "get_current_time_ms st = (clock st (ticks st), st\<lparr>ticks := Suc (ticks st)\<rparr>)"

text \<open>
  A local \<^verbatim>\<open>char\<close> array of \<open>n\<close> elements that is declared without an initialiser holds
  whatever the stack holds at that moment. The two arrays whose initial content can reach
  a datagram (\<^verbatim>\<open>msg_buf\<close> of \<^verbatim>\<open>SendInfoToGround\<close> and of \<^verbatim>\<open>SendWfbLogToGround\<close>) take it
  from the environment, a fresh content at every declaration: \<open>stack st k i\<close> is byte \<open>i\<close>
  of the \<open>k\<close>-th of them.
\<close>

definition local_array :: "nat \<Rightarrow> 'p state \<Rightarrow> string \<times> 'p state" where
  "local_array n st = (map (stack st (frames st)) [0..<n], st\<lparr>frames := Suc (frames st)\<rparr>)"

section \<open>Packet inspection: dump_mavlink_packet and get_mavlink_packet\<close>

text \<open>Reading \<^verbatim>\<open>data[i]\<close>; an index outside the buffer handed in is a fault.\<close>

definition rd :: "byte list \<Rightarrow> nat \<Rightarrow> fault + byte" where
  "rd data i = (if i < length data then Inr (data ! i) else Inl OutOfBounds)"

text \<open>
  The header decoding of \<^verbatim>\<open>dump_mavlink_packet\<close>. The local \<^verbatim>\<open>msg_id\<close> is not initialised:
  when the first byte is neither marker it keeps its indeterminate value \<open>junk\<close>.
\<close>

definition header_msg_id :: "32 word \<Rightarrow> byte list \<Rightarrow> fault + 32 word" where
  "header_msg_id junk data =
     (case rd data 0 of Inl e \<Rightarrow> Inl e | Inr m \<Rightarrow>
        if m = 0xFE then (case rd data 5 of Inl e \<Rightarrow> Inl e | Inr b \<Rightarrow> Inr (ucast b))
        else if m = 0xFD then (case rd data 7 of Inl e \<Rightarrow> Inl e | Inr b \<Rightarrow> Inr (ucast b))
        else Inr junk)"

text \<open>The 16-bit value \<^verbatim>\<open>lo | (hi << 8)\<close> of two bytes.\<close>

definition le16 :: "byte \<Rightarrow> byte \<Rightarrow> 16 word" where
  "le16 lo hi = (ucast lo :: 16 word) OR push_bit 8 (ucast hi)"

text \<open>
  The \<^verbatim>\<open>for\<close> loop of \<^verbatim>\<open>dump_mavlink_packet\<close> with \<open>n\<close> iterations left. \<^verbatim>\<open>i\<close> and \<^verbatim>\<open>offset\<close>
  are \<^verbatim>\<open>uint8_t\<close>; \<^verbatim>\<open>offset + 1\<close> and \<^verbatim>\<open>i + 5\<close> are computed in \<^verbatim>\<open>int\<close>. \<^verbatim>\<open>ch\<close> has 14
  elements.
\<close>

fun dump_loop :: "byte list \<Rightarrow> nat \<Rightarrow> 8 word \<Rightarrow> 8 word \<Rightarrow> 'p state \<Rightarrow> fault + 'p state" where
  "dump_loop data 0 i offset st = Inr st"
| "dump_loop data (Suc n) i offset st =
     (case rd data (unat offset) of Inl e \<Rightarrow> Inl e | Inr lo \<Rightarrow>
      (case rd data (unat offset + 1) of Inl e \<Rightarrow> Inl e | Inr hi \<Rightarrow>
        let val = le16 lo hi in
        if \<not> unat i < 14 then Inl OutOfBounds
        else if ch st ! unat i \<noteq> val
        then dump_loop data n (i + 1) (offset + 2)
               (st\<lparr>ch := list_update (ch st) (unat i) val,
                   commands := commands st @ [Command ''channels.sh'' (uint i + 5) (uint val)]\<rparr>)
        else dump_loop data n (i + 1) (offset + 2) st))"

definition dump_mavlink_packet :: "32 word \<Rightarrow> byte list \<Rightarrow> 'p state \<Rightarrow> fault + 'p state" where
  "dump_mavlink_packet junk data st =
     (case header_msg_id junk data of Inl e \<Rightarrow> Inl e | Inr msg_id \<Rightarrow>
        if (msg_id = 65 \<or> msg_id = 35) \<and> ch_count st > 0
        then dump_loop data (unat (ch_count st)) 0 18 st
        else Inr st)"

text \<open>
  \<^verbatim>\<open>get_mavlink_packet\<close> receives a pointer and a count. \<open>in_buffer\<close> is the \<open>buf_len\<close> bytes
  the caller announces and \<open>beyond\<close> the memory that follows them: \<^verbatim>\<open>dump_mavlink_packet\<close>
  is handed the pointer alone and reads at offsets from 18 on whatever the count is, so it
  sees the announced bytes followed by that memory. Its offset is a \<^verbatim>\<open>uint8_t\<close>, so that no
  index above 256 is read and 257 bytes of \<open>beyond\<close> are enough. \<open>packet_len\<close> is the value
  of the out-parameter before the call. The result is the returned flag, the out-parameter
  after the call and the state.
\<close>

definition memory_at :: "byte list \<Rightarrow> (nat \<Rightarrow> byte) \<Rightarrow> byte list" where
  "memory_at in_buffer beyond = in_buffer @ map beyond [0..<257]"

definition get_mavlink_packet ::
  "32 word \<Rightarrow> (nat \<Rightarrow> byte) \<Rightarrow> byte list \<Rightarrow> int \<Rightarrow> 'p state \<Rightarrow> fault + (bool \<times> int \<times> 'p state)" where
  "get_mavlink_packet junk beyond in_buffer packet_len st =
     (let buf_len = int (length in_buffer) in
      if buf_len < 6 then Inr (False, packet_len, st)
      else if \<not> (in_buffer ! 0 = 0xFE \<or> in_buffer ! 0 = 0xFD) then Inl AssertFailed
      else
        let msg_len = in_buffer ! 1;
            packet_len' = (if in_buffer ! 0 = 0xFE then 6 + uint msg_len + 2
                           else 10 + uint msg_len + 2)
        in if buf_len < packet_len' then Inr (False, packet_len', st)
           else (case dump_mavlink_packet junk (memory_at in_buffer beyond) st of
                   Inl e \<Rightarrow> Inl e
                 | Inr st' \<Rightarrow> Inr (True, packet_len', st')))"

text \<open>\<^verbatim>\<open>until_first_fe\<close>: the index of the first marker after position 0, or the length.\<close>

fun until_first_fe_from :: "byte list \<Rightarrow> nat \<Rightarrow> nat \<Rightarrow> nat" where
  "until_first_fe_from data 0 i = i"
| "until_first_fe_from data (Suc n) i =
     (if data ! i = 0xFE \<or> data ! i = 0xFD then i else until_first_fe_from data n (Suc i))"

definition until_first_fe :: "byte list \<Rightarrow> nat" where
  "until_first_fe data = (if length data \<le> 1 then length data
                          else until_first_fe_from data (length data - 1) 1)"


section \<open>RC debounce: ProcessChannels and the message handlers\<close>

text \<open>
  \<^verbatim>\<open>ProcessChannels\<close>. Each \<^verbatim>\<open>get_current_time_ms()\<close> in the source is a clock reading of
  its own. \<^verbatim>\<open>val - NewValue\<close> is computed in \<^verbatim>\<open>int\<close>; \<^verbatim>\<open>val - LastValue\<close> in
  \<^verbatim>\<open>unsigned long\<close> (64 bits here) and then handed to \<^verbatim>\<open>abs\<close>.
\<close>

definition ProcessChannels :: "'p state \<Rightarrow> 'p state" where
  "ProcessChannels st =
     (if ch_count st < 1 \<or> ch_count st > 16 then st
      else
        let (t1, st1) = get_current_time_ms st in
        if abs_diff t1 (LastStart st1) < wait_after_bash st1 then st1
        else
          let val = channels st1 ! (unat (ch_count st1) - 1) in
          if \<bar>uint val - uint (NewValue st1)\<bar> > 32 \<and> ChannelPersistPeriodmMS st1 > 0
          then (let (t2, st2) = get_current_time_ms st1
                in st2\<lparr>NewValue := val, NewValueStart := t2\<rparr>)
          else
            let (t3, st3) = get_current_time_ms st1 in
            if abs_diff t3 (NewValueStart st3) < ChannelPersistPeriodmMS st3 then st3
            else if abs_diff (ucast val) (LastValue st3) < 32 then st3
            else
              let st4 = st3\<lparr>NewValue := val, LastValue := ucast val\<rparr>;
                  (t4, st5) = get_current_time_ms st4;
                  st6 = st5\<lparr>LastStart := t4\<rparr>;
                  st7 = (if ChannelCmds st6 > 0
                         then st6\<lparr>commands := commands st6 @
                                [Command ''/usr/bin/channels.sh'' (uint (ch_count st6)) (uint val)]\<rparr>
                         else st6)
              in st7\<lparr>ChannelCmds := ChannelCmds st7 + 1\<rparr>)"

text \<open>
  \<^verbatim>\<open>memcpy(&channels[0], &rc_channels.chan1_raw, n * sizeof(uint16_t))\<close>: the first \<open>n\<close>
  words of the decoded struct (which has at least \<open>n\<close>) replace the first \<open>n\<close> channels.
\<close>

definition memcpy_channels :: "16 word list \<Rightarrow> 16 word list \<Rightarrow> nat \<Rightarrow> 16 word list" where
  "memcpy_channels dst src n = take n src @ drop n dst"

definition handle_msg_id_rc_channels_raw :: "'p mavlib \<Rightarrow> message \<Rightarrow> 'p state \<Rightarrow> 'p state" where
  "handle_msg_id_rc_channels_raw L m st =
     ProcessChannels (st\<lparr>channels := memcpy_channels (channels st) (rc_channels_raw_decode L m) 8\<rparr>)"

definition handle_msg_id_rc_channels_override :: "'p mavlib \<Rightarrow> message \<Rightarrow> 'p state \<Rightarrow> 'p state" where
  "handle_msg_id_rc_channels_override L m st =
     ProcessChannels (st\<lparr>channels := memcpy_channels (channels st) (rc_channels_override_decode L m) 18\<rparr>)"

definition handle_msg_id_rc_channels :: "'p mavlib \<Rightarrow> message \<Rightarrow> 'p state \<Rightarrow> 'p state" where
  "handle_msg_id_rc_channels L m st =
     ProcessChannels (st\<lparr>channels := memcpy_channels (channels st) (rc_channels_decode L m) 18\<rparr>)"

definition handle_heartbeat :: "message \<Rightarrow> 'p state \<Rightarrow> 'p state" where
  "handle_heartbeat m st = (if fc_shown st then st else st\<lparr>fc_shown := True\<rparr>)"

definition ShowVersionOnce :: "'p state \<Rightarrow> 'p state" where
  "ShowVersionOnce st = (if version_shown st then st else st\<lparr>version_shown := True\<rparr>)"

section \<open>Telemetry producers\<close>

subsection \<open>The C string functions the producers use\<close>

definition isdigit :: "char \<Rightarrow> bool" where
  "isdigit c = (48 \<le> (of_char c :: nat) \<and> (of_char c :: nat) \<le> 57)"

definition isspace :: "char \<Rightarrow> bool" where
  "isspace c = ((of_char c :: nat) = 32 \<or> (9 \<le> (of_char c :: nat) \<and> (of_char c :: nat) \<le> 13))"

fun atoi_digits :: "string \<Rightarrow> int \<Rightarrow> int" where
  "atoi_digits [] a = a"
| "atoi_digits (c # cs) a =
     (if isdigit c then atoi_digits cs (a * 10 + (int (of_char c) - 48)) else a)"

text \<open>\<^verbatim>\<open>atoi\<close>; values beyond the range of \<^verbatim>\<open>int\<close> (undefined in C) are not cut off.\<close>

definition atoi :: "string \<Rightarrow> int" where
  "atoi s = (case dropWhile isspace s of
               [] \<Rightarrow> 0
             | c # cs \<Rightarrow> if c = CHR ''-'' then - atoi_digits cs 0
                         else if c = CHR ''+'' then atoi_digits cs 0
                         else atoi_digits (c # cs) 0)"

fun starts_with :: "string \<Rightarrow> string \<Rightarrow> bool" where
  "starts_with [] hay = True"
| "starts_with (n # ns) [] = False"
| "starts_with (n # ns) (h # hs) = (n = h \<and> starts_with ns hs)"

text \<open>\<^verbatim>\<open>strstr\<close>: the rest of the haystack from the first occurrence of the needle on.\<close>

fun strstr :: "string \<Rightarrow> string \<Rightarrow> string option" where
  "strstr [] needle = (if needle = [] then Some [] else None)"
| "strstr (h # hs) needle =
     (if starts_with needle (h # hs) then Some (h # hs) else strstr hs needle)"

text \<open>The successive results of \<^verbatim>\<open>strtok(buff, " ")\<close>: the maximal runs of non-space characters.\<close>

fun strtok_all :: "string \<Rightarrow> string \<Rightarrow> string list" where
  "strtok_all [] cur = (if cur = [] then [] else [cur])"
| "strtok_all (c # cs) cur =
     (if c = CHR '' '' then (if cur = [] then strtok_all cs [] else cur # strtok_all cs [])
      else strtok_all cs (cur @ [c]))"

fun digits_of :: "nat \<Rightarrow> string" where
  "digits_of n = (if n < 10 then [''0123456789'' ! n]
                  else digits_of (n div 10) @ [''0123456789'' ! (n mod 10)])"

declare digits_of.simps [simp del]

text \<open>\<^verbatim>\<open>%d\<close> of \<^verbatim>\<open>sprintf\<close>.\<close>

definition show_int :: "int \<Rightarrow> string" where
  "show_int i = (if i < 0 then CHR ''-'' # digits_of (nat (- i)) else digits_of (nat i))"

subsection \<open>Operator message, link health, temperature\<close>

text \<open>
  \<^verbatim>\<open>send_msg_to_groundstation\<close>: packs a status text and hands it to \<^verbatim>\<open>sendto\<close> on the
  output socket. \<open>msg_buf\<close> is the content of the array the pointer refers to, of which
  the packer copies the first 50 bytes. A failing \<^verbatim>\<open>sendto\<close> is not observed by the code;
  every call is recorded as one datagram.
\<close>

definition send_msg_to_groundstation :: "'p mavlib \<Rightarrow> string \<Rightarrow> 'p state \<Rightarrow> 'p state" where
  "send_msg_to_groundstation L msg_buf st =
     (case statustext_pack L (mavlink_status st) (system_id st) msg_buf of (p, buffer) \<Rightarrow>
        st\<lparr>mavlink_status := p, udp_out := udp_out st @ [buffer]\<rparr>)"

text \<open>
  \<^verbatim>\<open>Check4MavlinkMsg\<close>: \<open>buffer\<close> is the content of the caller's array before the call;
  \<open>msg_file\<close> is the content of \<^verbatim>\<open>mavlink.msg\<close>, \<open>None\<close> when the file does not exist.
  \<^verbatim>\<open>fread\<close> reads at most \<^verbatim>\<open>MAX_BUFFER_SIZE\<close> = 50 bytes and overwrites as many bytes at
  the start of the array, the rest of which keeps its content: no terminator is written.
  The file is removed after a non-empty read. The result is the flag, the array after the
  call and the state.
\<close>

definition Check4MavlinkMsg :: "string \<Rightarrow> 'p state \<Rightarrow> bool \<times> string \<times> 'p state" where
  "Check4MavlinkMsg buffer st =
     (case msg_file st of
        None \<Rightarrow> (False, buffer, st)
      | Some content \<Rightarrow>
          let bytes = take 50 content;
              buffer' = bytes @ drop (length bytes) buffer
          in if length bytes > 0 then (True, buffer', st\<lparr>msg_file := None\<rparr>)
             else (False, buffer', st\<lparr>diag_log := diag_log st @ [EmptyMsgFile]\<rparr>))"

text \<open>
  \<^verbatim>\<open>SendInfoToGround\<close>: its array \<^verbatim>\<open>msg_buf\<close> of 50 bytes is not initialised, and all of it
  is handed to the packer.
\<close>

definition SendInfoToGround :: "'p mavlib \<Rightarrow> 'p state \<Rightarrow> bool \<times> 'p state" where
  "SendInfoToGround L st =
     (let (msg_buf, st0) = local_array 50 st
      in case Check4MavlinkMsg msg_buf st0 of (ok, msg_buf', st1) \<Rightarrow>
           if \<not> ok then (False, st1) else (True, send_msg_to_groundstation L msg_buf' st1))"

text \<open>
  The line loop of \<^verbatim>\<open>SendWfbLogToGround\<close>: the lines as \<^verbatim>\<open>fgets\<close> returns them, the counter
  \<^verbatim>\<open>maxlinestoparse\<close> and the running total. The result is both variables after the loop.
\<close>

fun wfb_lines :: "string list \<Rightarrow> int \<Rightarrow> int \<Rightarrow> int \<times> int" where
  "wfb_lines [] maxlinestoparse total_dropped_packets = (maxlinestoparse, total_dropped_packets)"
| "wfb_lines (buff # rest) maxlinestoparse total_dropped_packets =
     (if maxlinestoparse > 30 then (maxlinestoparse + 1, 9999)
      else if strstr buff ''packets dropped'' \<noteq> None
      then (case List.find (\<lambda>token. isdigit (hd token)) (strtok_all buff []) of
              Some token \<Rightarrow> wfb_lines rest (maxlinestoparse + 1) (total_dropped_packets + atoi token)
            | None \<Rightarrow> wfb_lines rest (maxlinestoparse + 1) total_dropped_packets)
      else wfb_lines rest (maxlinestoparse + 1) total_dropped_packets)"

text \<open>
  \<^verbatim>\<open>SendWfbLogToGround\<close>: \<open>wfb_file\<close> is \<^verbatim>\<open>wfb.log\<close> as its lines, \<open>None\<close> when it cannot
  be opened. The file is emptied after a report. The array \<^verbatim>\<open>msg_buf\<close> of 200 bytes is not
  initialised; \<^verbatim>\<open>sprintf\<close> writes the text and its terminator at its start.
\<close>

definition SendWfbLogToGround :: "'p mavlib \<Rightarrow> 'p state \<Rightarrow> bool \<times> 'p state" where
  "SendWfbLogToGround L st =
     (if \<not> monitor_wfb st then (False, st)
      else
        let (t1, st1) = get_current_time_ms st in
        if abs_diff t1 (LastWfbSent st1) < 1000 then (False, st1)
        else
          let (t2, st2) = get_current_time_ms st1;
              (msg_buf, st3) = local_array 200 (st2\<lparr>LastWfbSent := abs_u64 t2\<rparr>)
          in case wfb_file st3 of
               None \<Rightarrow> (False, st3)
             | Some lines \<Rightarrow>
                 (case wfb_lines lines 0 0 of (maxlinestoparse, total_dropped_packets) \<Rightarrow>
                    if maxlinestoparse = 0 \<and> total_dropped_packets = 0 then (False, st3)
                    else
                      let st4 = st3\<lparr>wfb_file := Some [],
                                     diag_log := diag_log st3 @ [DroppedReported total_dropped_packets]\<rparr>;
                          report = show_int total_dropped_packets @ '' video pckts dropped!''
                                   @ [CHR 0x0A];
                          msg_buf' = report @ [CHR 0x00] @ drop (length report + 1) msg_buf
                      in (True, send_msg_to_groundstation L msg_buf' st4)))"

text \<open>
  \<^verbatim>\<open>GetTempSigmaStar\<close>: \<open>temp_file\<close> is the first line of the sysfs file, \<open>None\<close> when the
  file is absent. \<^verbatim>\<open>last_board_temp\<close> is a \<^verbatim>\<open>float\<close> in the source and a real number here.
\<close>

definition GetTempSigmaStar :: "'p state \<Rightarrow> int \<times> 'p state" where
  "GetTempSigmaStar st =
     (case temp_file st of
        None \<Rightarrow> (- 100, st)
      | Some buff \<Rightarrow>
          let v = (case strstr buff ''Temperature'' of
                     None \<Rightarrow> - 100
                   | Some temperature_str \<Rightarrow> atoi (drop 12 temperature_str))
          in (v, st\<lparr>last_board_temp := real_of_int v\<rparr>))"

text \<open>
  \<^verbatim>\<open>SendTempToGround(mavbuf)\<close>: the packed message is written to the start of \<^verbatim>\<open>mavbuf\<close>;
  the result is its length (0 when nothing was written).
\<close>

definition SendTempToGround :: "'p mavlib \<Rightarrow> 'p state \<Rightarrow> nat \<times> 'p state" where
  "SendTempToGround L st =
     (let (t1, st1) = get_current_time_ms st in
      if abs_diff t1 (LastTempSent st1) < 1000 then (0, st1)
      else
        let (t2, st2) = get_current_time_ms st1;
            st3 = st2\<lparr>LastTempSent := abs_u64 t2\<rparr>;
            st4 = (if temp st3 = 2
                   then (case GetTempSigmaStar st3 of (v, s) \<Rightarrow> s\<lparr>last_board_temp := real_of_int v\<rparr>)
                   else st3);
            (p, packet) = raw_imu_pack L (mavlink_status st4) (system_id st4) (last_board_temp st4 * 100)
        in (length packet,
            st4\<lparr>mavlink_status := p, mavbuf := packet @ drop (length packet) (mavbuf st4)\<rparr>))"

section \<open>Aggregation: process_mavlink and serial_read_cb\<close>

text \<open>
  The flush branch of \<^verbatim>\<open>process_mavlink\<close>: the first \<^verbatim>\<open>mavbuff_offset\<close> bytes of \<^verbatim>\<open>mavbuf\<close>
  go out as one datagram, both counters are reset, and the three producers are called.
\<close>

definition flush_and_send :: "'p mavlib \<Rightarrow> 'p state \<Rightarrow> 'p state" where
  "flush_and_send L st =
     (let st1 = st\<lparr>udp_out := udp_out st @ [take (unat (mavbuff_offset st)) (mavbuf st)]\<rparr>;
          st2 = st1\<lparr>mavbuff_offset := 0, mavpckts_count := 0\<rparr>;
          st3 = snd (SendInfoToGround L st2);
          st4 = snd (SendWfbLogToGround L st3);
          st5 = (if last_board_temp st4 > - 100
                 then (case SendTempToGround L st4 of (len, s) \<Rightarrow> s\<lparr>mavbuff_offset := of_nat len\<rparr>)
                 else st4)
      in if mavbuff_offset st5 > 0 then st5\<lparr>mavpckts_count := mavpckts_count st5 + 1\<rparr> else st5)"

text \<open>The flush condition, evaluated after \<^verbatim>\<open>mavpckts_count++\<close>; \<^verbatim>\<open>MAVLINK_MSG_ID_ATTITUDE\<close> is 30.\<close>

definition flush_due :: "'p state \<Rightarrow> message \<Rightarrow> bool" where
  "flush_due st m =
     (((aggregate st \<ge> 1 \<and> aggregate st < 50) \<and> uint (mavpckts_count st) \<ge> aggregate st) \<or>
      ((aggregate st > 50 \<and> aggregate st < 2000) \<and> uint (mavbuff_offset st) \<ge> aggregate st) \<or>
      (mavpckts_count st \<ge> 3 \<and> msgid m = 30))"

text \<open>
  What \<^verbatim>\<open>process_mavlink\<close> does once \<^verbatim>\<open>mavlink_parse_char\<close> has returned 1 for a message:
  the \<^verbatim>\<open>switch\<close> on the message id (35 \<^verbatim>\<open>RC_CHANNELS_RAW\<close>, 70 \<^verbatim>\<open>RC_CHANNELS_OVERRIDE\<close>,
  65 \<^verbatim>\<open>RC_CHANNELS\<close>, 0 \<^verbatim>\<open>HEARTBEAT\<close>), then the packet count and the flush decision.
\<close>

definition dispatch :: "'p mavlib \<Rightarrow> message \<Rightarrow> 'p state \<Rightarrow> 'p state" where
  "dispatch L m st =
     (if msgid m = 35 then handle_msg_id_rc_channels_raw L m st
      else if msgid m = 70 then handle_msg_id_rc_channels_override L m st
      else if msgid m = 65 then handle_msg_id_rc_channels L m st
      else if msgid m = 0 then handle_heartbeat m st
      else st)"

definition on_message :: "'p mavlib \<Rightarrow> message \<Rightarrow> 'p state \<Rightarrow> 'p state" where
  "on_message L m st =
     (let st1 = ShowVersionOnce (st\<lparr>mavpckts_ttl := mavpckts_ttl st + 1, system_id := sysid m\<rparr>);
          st2 = dispatch L m st1;
          st3 = st2\<lparr>mavpckts_count := mavpckts_count st2 + 1\<rparr>
      in if aggregate st3 > 0 \<and> flush_due st3 m then flush_and_send L st3 else st3)"

text \<open>
  One iteration of the \<^verbatim>\<open>for\<close> loop of \<^verbatim>\<open>process_mavlink\<close>, for the byte \<^verbatim>\<open>buffer[i]\<close>:
  the overflow test, the store into \<^verbatim>\<open>mavbuf\<close>, the parser.
\<close>

definition overflow_guard :: "'p state \<Rightarrow> 'p state" where
  "overflow_guard st =
     (if mavbuff_offset st > 2000
      then st\<lparr>diag_log := diag_log st @ [BufferOverflowed], mavbuff_offset := 0\<rparr>
      else st)"

definition append_byte :: "byte \<Rightarrow> 'p state \<Rightarrow> 'p state" where
  "append_byte b st =
     st\<lparr>mavbuf := list_update (mavbuf st) (unat (mavbuff_offset st)) b,
        mavbuff_offset := mavbuff_offset st + 1\<rparr>"

definition process_byte :: "'p mavlib \<Rightarrow> 'p state \<Rightarrow> byte \<Rightarrow> 'p state" where
  "process_byte L st b =
     (let st2 = append_byte b (overflow_guard st)
      in case parse_char L (mavlink_status st2) b of
           (p, None) \<Rightarrow> st2\<lparr>mavlink_status := p\<rparr>
         | (p, Some m) \<Rightarrow> on_message L m (st2\<lparr>mavlink_status := p\<rparr>))"

definition process_mavlink :: "'p mavlib \<Rightarrow> 'p state \<Rightarrow> byte list \<Rightarrow> 'p state" where
  "process_mavlink L st buffer = foldl (process_byte L) st buffer"

text \<open>
  \<^verbatim>\<open>serial_read_cb\<close> with \<open>data\<close> the bytes waiting in the input buffer: the loop body runs
  once when there are any, and drains them all.
\<close>

definition serial_read_cb :: "'p mavlib \<Rightarrow> byte list \<Rightarrow> 'p state \<Rightarrow> 'p state" where
  "serial_read_cb L data st =
     (if data = [] then st
      else
        let st1 = st\<lparr>ttl_packets := ttl_packets st + 1,
                     ttl_bytes := ttl_bytes st + int (length data)\<rparr>;
            st2 = (if aggregate st1 = 0 then st1\<lparr>udp_out := udp_out st1 @ [data]\<rparr> else st1)
        in if aggregate st2 > 0 \<or> ch_count st2 > 0 then process_mavlink L st2 data else st2)"

text \<open>The \<^verbatim>\<open>-a\<close> option of \<^verbatim>\<open>main\<close>, for the value \<^verbatim>\<open>atoi(optarg)\<close>.\<close>

definition option_aggregate :: "int \<Rightarrow> 'p state \<Rightarrow> 'p state" where
  "option_aggregate v st =
     (let a = (if v > 2000 then 2000 else v);
          st1 = st\<lparr>aggregate := a\<rparr>
      in if a = 0 then st1\<lparr>diag_log := diag_log st1 @ [NoParsingRaw]\<rparr>
         else if a < 50 then st1\<lparr>diag_log := diag_log st1 @ [AggregatePacks a]\<rparr>
         else if a > 50 then st1\<lparr>diag_log := diag_log st1 @ [AggregateBytes a]\<rparr>
         else st1)"

text \<open>The \<^verbatim>\<open>-c\<close> option of \<^verbatim>\<open>main\<close>: the value is stored in a \<^verbatim>\<open>uint8_t\<close>.\<close>

definition option_channels :: "int \<Rightarrow> 'p state \<Rightarrow> 'p state" where
  "option_channels v st =
     (let (t, st1) = get_current_time_ms (st\<lparr>ch_count := word_of_int v\<rparr>)
      in st1\<lparr>LastStart := t\<rparr>)"

section \<open>A reference instance of the library and sample inputs\<close>

text \<open>
  Modelled from the spec: the functions of the MAVLink C library that mavfwd.c calls
  (\<^verbatim>\<open>mavlink_parse_char\<close>, the RC decoders, the two packers), whose source is not in
  mavfwd.c. The parser follows the Framer of the specification: bytes before a start marker
  are skipped; after a marker the second byte is the payload length, the packet has
  \<open>6 + len + 2\<close> bytes for marker \<open>0xFE\<close> and \<open>10 + len + 2\<close> for \<open>0xFD\<close>, and the fields
  sit at the version-dependent offsets that \<^verbatim>\<open>dump_mavlink_packet\<close> also uses. Checksums
  are not verified, and the packers leave them zero. The theorems below hold for every
  library; this instance serves to evaluate them on concrete inputs.
\<close>

definition frame_char :: "byte list \<Rightarrow> byte \<Rightarrow> byte list \<times> message option" where
  "frame_char acc b =
     (if acc = [] then (if b = 0xFE \<or> b = 0xFD then ([b], None) else ([], None))
      else
        let buf = acc @ [b];
            v1 = (hd buf = 0xFE);
            hdr = (if v1 then 6 else 10)
        in if length buf < hdr + unat (buf ! 1) + 2 then (buf, None)
           else ([], Some \<lparr> msgid = ucast (buf ! (if v1 then 5 else 7)),
                            sysid = buf ! (if v1 then 3 else 5),
                            seq = buf ! (if v1 then 2 else 4),
                            magic = hd buf,
                            payload = take (unat (buf ! 1)) (drop hdr buf) \<rparr>))"

text \<open>The \<open>n\<close> little-endian 16-bit words of the (zero-extended) payload from offset \<open>off\<close>.\<close>

definition payload_words :: "message \<Rightarrow> nat \<Rightarrow> nat \<Rightarrow> 16 word list" where
  "payload_words m off n =
     (let pl = payload m @ replicate 64 0
      in map (\<lambda>k. le16 (pl ! (off + 2 * k)) (pl ! (off + 2 * k + 1))) [0..<n])"

text \<open>A \<^verbatim>\<open>float\<close> converted to \<^verbatim>\<open>int16_t\<close>: truncation towards zero, low 16 bits.\<close>

definition to_int16 :: "real \<Rightarrow> 16 word" where
  "to_int16 x = word_of_int (if x < 0 then - \<lfloor>- x\<rfloor> else \<lfloor>x\<rfloor>)"

definition ref_statustext_pack :: "byte list \<Rightarrow> byte \<Rightarrow> string \<Rightarrow> byte list \<times> byte list" where
  "ref_statustext_pack p sys text =
     (p, [0xFD, 51, 0, 0, 0, sys, 250, 253, 0, 0, 4]
         @ map of_char (take 50 (text @ replicate 50 (CHR 0x00))) @ [0, 0])"

definition ref_raw_imu_pack :: "byte list \<Rightarrow> byte \<Rightarrow> real \<Rightarrow> byte list \<times> byte list" where
  "ref_raw_imu_pack p sys temperature =
     (p, [0xFD, 29, 0, 0, 0, sys, 250, 27, 0, 0] @ replicate 27 0
         @ [ucast (to_int16 temperature), ucast (drop_bit 8 (to_int16 temperature))] @ [0, 0])"

definition ref_lib :: "byte list mavlib" where
  "ref_lib = \<lparr> parse_char = frame_char,
               rc_channels_raw_decode = (\<lambda>m. payload_words m 4 10),
               rc_channels_override_decode = (\<lambda>m. payload_words m 0 19),
               rc_channels_decode = (\<lambda>m. payload_words m 4 19),
               statustext_pack = ref_statustext_pack,
               raw_imu_pack = ref_raw_imu_pack \<rparr>"

text \<open>
  Sample MAVLink 1 packets with their X.25 checksums: a \<^verbatim>\<open>HEARTBEAT\<close> (id 0), an
  \<^verbatim>\<open>ATTITUDE\<close> (id 30) and an \<^verbatim>\<open>RC_CHANNELS_RAW\<close> (id 35) whose first channel is 1500.
\<close>

definition heartbeat_packet :: "byte list" where
  "heartbeat_packet =
     [0xFE, 0x09, 0x00, 0x01, 0x01, 0x00, 0x00, 0x00, 0x00, 0x00, 0x02, 0x03, 0x51, 0x04, 0x03,
      0x7D, 0xDD]"

definition attitude_packet :: "byte list" where
  "attitude_packet =
     [0xFE, 0x1C, 0x03, 0x01, 0x01, 0x1E, 0x10, 0x27, 0x00, 0x00, 0x00, 0x00, 0x00, 0x00,
      0x00, 0x00, 0x00, 0x00, 0x00, 0x00, 0x00, 0x00, 0x00, 0x00, 0x00, 0x00, 0x00, 0x00,
      0x00, 0x00, 0x00, 0x00, 0x00, 0x00, 0x9E, 0x97]"

definition rc_raw_packet :: "byte list" where
  "rc_raw_packet =
     [0xFE, 0x16, 0x01, 0x01, 0x01, 0x23, 0x10, 0x27, 0x00, 0x00, 0xDC, 0x05, 0xDC, 0x05,
      0xE8, 0x03, 0xDC, 0x05, 0xE8, 0x03, 0xE8, 0x03, 0xE8, 0x03, 0xE8, 0x03, 0x00, 0xC8,
      0x65, 0x3B]"

text \<open>
  A process started with the defaults, no files present, the clock as given, and a stack
  that holds the character \<open>#\<close> everywhere.
\<close>

definition start :: "(nat \<Rightarrow> 64 word) \<Rightarrow> byte list state" where
  "start clk = initial_state [] clk None None None (\<lambda>k i. CHR ''#'')"

section \<open>Notions used to state the properties\<close>

text \<open>The 16-bit little-endian value at position \<open>k\<close> of a buffer.\<close>

definition le16_at :: "byte list \<Rightarrow> nat \<Rightarrow> 16 word" where
  "le16_at data k = le16 (data ! k) (data ! (k + 1))"

text \<open>The total length a packet declares: header, payload length (second byte), checksum.\<close>

definition packet_total_len :: "byte list \<Rightarrow> int" where
  "packet_total_len b = (if b ! 0 = 0xFE then 6 else 10) + uint (b ! 1) + 2"

text \<open>
  For positions \<open>a \<le> k < b\<close> of \<^verbatim>\<open>ch\<close>: the commands issued for the positions whose stored
  value differs from the value at offset \<open>18 + 2k\<close> of the buffer, and \<^verbatim>\<open>ch\<close> with these
  values stored.
\<close>

definition rc_cmds :: "byte list \<Rightarrow> 16 word list \<Rightarrow> nat \<Rightarrow> nat \<Rightarrow> command list" where
  "rc_cmds data c a b =
     [Command ''channels.sh'' (int k + 5) (uint (le16_at data (18 + 2 * k))).
        k \<leftarrow> [a ..< b], c ! k \<noteq> le16_at data (18 + 2 * k)]"

definition rc_store :: "byte list \<Rightarrow> 16 word list \<Rightarrow> nat \<Rightarrow> nat \<Rightarrow> 16 word list" where
  "rc_store data c a b = fold (\<lambda>k c. c[k := le16_at data (18 + 2 * k)]) [a ..< b] c"

text \<open>
  The message id at the version-dependent offset of a packet, and the state after the
  channels of an RC packet (id 65 or 35) have been dumped while monitoring is on.
\<close>

definition packet_msg_id :: "byte list \<Rightarrow> 32 word" where
  "packet_msg_id b = ucast (b ! (if b ! 0 = 0xFE then 5 else 7))"

definition rc_dumped :: "byte list \<Rightarrow> 'p state \<Rightarrow> 'p state" where
  "rc_dumped data st =
     (if (packet_msg_id data = 65 \<or> packet_msg_id data = 35) \<and> ch_count st \<noteq> 0
      then st\<lparr>ch := rc_store data (ch st) 0 (unat (ch_count st)),
              commands := commands st @ rc_cmds data (ch st) 0 (unat (ch_count st))\<rparr>
      else st)"

text \<open>The defaults with \<^verbatim>\<open>-c 2\<close>, on a clock that stands at 5000 ms.\<close>

definition monitored :: "byte list state" where
  "monitored = option_channels 2 (start (\<lambda>n. 5000))"

text \<open>
  The conditions under which \<^verbatim>\<open>ProcessChannels\<close> reaches its last part (the commit):
  monitoring is on for a channel from 1 to 16, the waiting time since the last command
  has passed at the first clock reading, the value is not a new candidate, the candidate
  has persisted at the second clock reading, and the value is at least 32 away from the
  last committed one.
\<close>

definition commit_conditions :: "'p state \<Rightarrow> bool" where
  "commit_conditions st =
     (let val = channels st ! (unat (ch_count st) - 1) in
      1 \<le> ch_count st \<and> ch_count st \<le> 16 \<and>
      \<not> abs_diff (clock st (ticks st)) (LastStart st) < wait_after_bash st \<and>
      \<not> (\<bar>uint val - uint (NewValue st)\<bar> > 32 \<and> ChannelPersistPeriodmMS st > 0) \<and>
      \<not> abs_diff (clock st (ticks st + 1)) (NewValueStart st) < ChannelPersistPeriodmMS st \<and>
      \<not> abs_diff (ucast val) (LastValue st) < 32)"

text \<open>
  Channel 1 monitored with no waiting and no persistence time, the channel at \<open>v\<close> and
  \<open>n\<close> commands counted so far.
\<close>

definition settled :: "16 word \<Rightarrow> 32 word \<Rightarrow> byte list state" where
  "settled v n = (start (\<lambda>n. 5000))\<lparr>ch_count := 1, wait_after_bash := 0,
      ChannelPersistPeriodmMS := 0, channels := v # replicate 17 0, ChannelCmds := n\<rparr>"

text \<open>The pending buffer: the first \<^verbatim>\<open>mavbuff_offset\<close> bytes of \<^verbatim>\<open>mavbuf\<close>.\<close>

definition pending :: "'p state \<Rightarrow> byte list" where
  "pending st = take (unat (mavbuff_offset st)) (mavbuf st)"

text \<open>
  \<^verbatim>\<open>-a 2000\<close>, three heartbeats received and an attitude packet received up to its last
  byte.
\<close>

definition before_attitude :: "byte list state" where
  "before_attitude =
     (option_aggregate 2000 (start (\<lambda>n. 5000)))
       \<lparr>version_shown := True, fc_shown := True, mavpckts_ttl := 3,
        mavbuf := heartbeat_packet @ heartbeat_packet @ heartbeat_packet @ butlast attitude_packet
                  @ replicate 1962 0,
        mavbuff_offset := 86, mavpckts_count := 3, mavlink_status := butlast attitude_packet\<rparr>"

text \<open>The message that \<open>attitude_packet\<close> carries.\<close>

definition attitude_msg :: message where
  "attitude_msg = \<lparr> msgid = 30, sysid = 1, seq = 3, magic = 0xFE,
                     payload = [0x10, 0x27, 0x00, 0x00, 0x00, 0x00, 0x00, 0x00, 0x00, 0x00, 0x00, 0x00,
                       0x00, 0x00, 0x00, 0x00, 0x00, 0x00, 0x00, 0x00, 0x00, 0x00, 0x00, 0x00,
                       0x00, 0x00, 0x00, 0x00] \<rparr>"

text \<open>
  Feeding bytes to the parser without any message being completed: the parser state
  afterwards, or \<open>None\<close> if some byte completes a message.
\<close>

fun parse_quiet :: "'p mavlib \<Rightarrow> 'p \<Rightarrow> byte list \<Rightarrow> 'p option" where
  "parse_quiet L p [] = Some p"
| "parse_quiet L p (b # bs) =
     (case parse_char L p b of (p', None) \<Rightarrow> parse_quiet L p' bs | (p', Some m) \<Rightarrow> None)"

text \<open>
  Whether \<^verbatim>\<open>process_mavlink\<close> flushes when message \<open>m\<close> has just been parsed in state \<open>st\<close>:
  the flush test of the source, with the packet counted.
\<close>

definition will_flush :: "'p state \<Rightarrow> message \<Rightarrow> bool" where
  "will_flush st m =
     (aggregate st > 0 \<and> flush_due (st\<lparr>mavpckts_count := mavpckts_count st + 1\<rparr>) m)"

text \<open>The message that \<open>heartbeat_packet\<close> carries.\<close>

definition heartbeat_msg :: message where
  "heartbeat_msg = \<lparr> msgid = 0, sysid = 1, seq = 0, magic = 0xFE,
                      payload = [0x00, 0x00, 0x00, 0x00, 0x02, 0x03, 0x51, 0x04, 0x03] \<rparr>"

text \<open>
  The state in which the overflow test of \<^verbatim>\<open>process_mavlink\<close> leaves the buffer once byte
  \<open>b\<close> is stored and the parser has moved to \<open>p\<close>: diagnostic printed, write index back
  at the start.
\<close>

definition after_overflow :: "'p state \<Rightarrow> byte \<Rightarrow> 'p \<Rightarrow> 'p state" where
  "after_overflow st b p =
     st\<lparr>diag_log := diag_log st @ [BufferOverflowed], mavbuf := (mavbuf st)[0 := b],
        mavbuff_offset := 1, mavlink_status := p\<rparr>"

text \<open>A process started with \<^verbatim>\<open>-a 5\<close>.\<close>

definition lossy :: "byte list state" where
  "lossy = option_aggregate 5 (start (\<lambda>n. 5000))"

text \<open>A state whose buffer holds a heartbeat followed by 1984 zero bytes.\<close>

definition full :: "byte list state" where
  "full = lossy\<lparr>mavbuf := heartbeat_packet @ replicate 2031 0, mavbuff_offset := 2001,
       mavpckts_count := 1\<rparr>"

text \<open>A process started with \<^verbatim>\<open>-a\<close> \<open>a\<close>, and one started with a message waiting in the inbox file.\<close>

definition configured :: "int \<Rightarrow> byte list state" where
  "configured a = option_aggregate a (start (\<lambda>n. 5000))"

definition inbox :: "byte list state" where
  "inbox = initial_state [] (\<lambda>n. 5000) (Some ''hi'') None None (\<lambda>k i. CHR ''#'')"

text \<open>
  A state in which all three producers have something to send (an operator message, a
  drop report in the log, a temperature), and the same state with both rate-limited
  producers stamped 500 ms ago.
\<close>

definition telemetry :: "byte list state" where
  "telemetry = (initial_state [] (\<lambda>n. 5000) (Some ''hi'')
                  (Some [''UDP rxq overflow: 2 packets dropped'']) None (\<lambda>k i. CHR ''#''))
               \<lparr>monitor_wfb := True, last_board_temp := 45\<rparr>"

definition recent :: "byte list state" where
  "recent = telemetry\<lparr>LastWfbSent := 4500, LastTempSent := 4500\<rparr>"

text \<open>The state \<open>telemetry\<close> with one heartbeat pending.\<close>

definition due :: "byte list state" where
  "due = telemetry\<lparr>mavbuf := heartbeat_packet @ replicate 2031 0, mavbuff_offset := 17,
           mavpckts_count := 1\<rparr>"

text \<open>The message that \<open>rc_raw_packet\<close> carries.\<close>

definition rc_raw_msg :: message where
  "rc_raw_msg = \<lparr> msgid = 35, sysid = 1, seq = 1, magic = 0xFE,
      payload = [0x10, 0x27, 0x00, 0x00, 0xDC, 0x05, 0xDC, 0x05, 0xE8, 0x03, 0xDC, 0x05, 0xE8, 0x03,
                 0xE8, 0x03, 0xE8, 0x03, 0xE8, 0x03, 0x00, 0xC8] \<rparr>"

text \<open>
  Raw forwarding (\<^verbatim>\<open>-a 0\<close>) without channel monitoring, and with \<^verbatim>\<open>-c 1\<close> on a clock that
  advances 3000 ms from one reading to the next.
\<close>

definition raw_only :: "byte list state" where
  "raw_only = option_aggregate 0 (start (\<lambda>n. 5000))"

definition watching :: "byte list state" where
  "watching = option_channels 1 (option_aggregate 0 (start (\<lambda>n. 5000 + 3000 * of_nat n)))"

text \<open>
  What the array \<^verbatim>\<open>msg_buf\<close> of \<^verbatim>\<open>SendInfoToGround\<close> holds when a file of content \<open>c\<close> has
  been read into it in state \<open>st\<close> (the first 50 bytes of the file, then what the stack
  held), and what the array of \<^verbatim>\<open>SendWfbLogToGround\<close> holds when \<^verbatim>\<open>sprintf\<close> has written the
  report of \<open>dropped\<close> packets.
\<close>

definition operator_text :: "string \<Rightarrow> 'p state \<Rightarrow> string" where
  "operator_text c st = take 50 c @ drop (length (take 50 c)) (fst (local_array 50 st))"

definition report_text :: "int \<Rightarrow> 'p state \<Rightarrow> string" where
  "report_text dropped st =
     show_int dropped @ '' video pckts dropped!'' @ [CHR 0x0A] @ [CHR 0x00]
     @ drop (length (show_int dropped @ '' video pckts dropped!'' @ [CHR 0x0A]) + 1)
         (fst (local_array 200 st))"

text \<open>
  The states inside the flush branch of \<^verbatim>\<open>process_mavlink\<close>: after the pending buffer has
  been handed to \<^verbatim>\<open>sendto\<close> and the counters are reset, after \<^verbatim>\<open>SendInfoToGround\<close>, and after
  \<^verbatim>\<open>SendWfbLogToGround\<close>.
\<close>

definition after_send :: "'p state \<Rightarrow> 'p state" where
  "after_send st = st\<lparr>udp_out := udp_out st @ [pending st], mavbuff_offset := 0, mavpckts_count := 0\<rparr>"

definition after_info :: "'p mavlib \<Rightarrow> 'p state \<Rightarrow> 'p state" where
  "after_info L st = snd (SendInfoToGround L (after_send st))"

definition after_report :: "'p mavlib \<Rightarrow> 'p state \<Rightarrow> 'p state" where
  "after_report L st = snd (SendWfbLogToGround L (after_info L st))"

text \<open>
  Whether byte \<open>b\<close>, processed in state \<open>st\<close>, completes a message at which
  \<^verbatim>\<open>process_mavlink\<close> flushes; and a run of bytes during which the overflow test never
  fires and no byte flushes.
\<close>

definition flushes :: "'p mavlib \<Rightarrow> 'p state \<Rightarrow> byte \<Rightarrow> bool" where
  "flushes L st b =
     (case parse_char L (mavlink_status st) b of
        (p, None) \<Rightarrow> False
      | (p, Some m) \<Rightarrow> will_flush (append_byte b (overflow_guard st)) m)"

fun steady :: "'p mavlib \<Rightarrow> 'p state \<Rightarrow> byte list \<Rightarrow> bool" where
  "steady L st [] = True"
| "steady L st (b # bs) =
     (\<not> mavbuff_offset st > 2000 \<and> \<not> flushes L st b \<and> steady L (process_byte L st b) bs)"

section \<open>The channel dump\<close>

lemma dump_loop_fault: "dump_loop data n i off st = Inl e \<Longrightarrow> e = OutOfBounds"
  by (induction n arbitrary: i off st) (auto simp: rd_def Let_def split: if_splits sum.splits)

lemma dump_mavlink_packet_fault: "dump_mavlink_packet junk data st = Inl e \<Longrightarrow> e = OutOfBounds"
  by (auto simp: dump_mavlink_packet_def header_msg_id_def rd_def dest: dump_loop_fault
      split: if_splits sum.splits)

lemma rc_cmds_rec:
  "a < b \<Longrightarrow> rc_cmds data c a b =
     (if c ! a \<noteq> le16_at data (18 + 2 * a)
      then [Command ''channels.sh'' (int a + 5) (uint (le16_at data (18 + 2 * a)))] else [])
     @ rc_cmds data c (Suc a) b"
  by (simp add: rc_cmds_def upt_rec[of a b])

lemma rc_cmds_upd: "rc_cmds data (c[a := v]) (Suc a) b = rc_cmds data c (Suc a) b"
proof -
  have "\<And>k. k \<in> set [Suc a ..< b] \<Longrightarrow> c[a := v] ! k = c ! k"
    by simp
  then show ?thesis
    unfolding rc_cmds_def by (intro arg_cong[where f=concat] map_cong) auto
qed

lemma rc_store_rec:
  "a < b \<Longrightarrow> rc_store data c a b = rc_store data (c[a := le16_at data (18 + 2 * a)]) (Suc a) b"
  by (simp add: rc_store_def upt_rec[of a b])

lemma unat_succ8: "unat (i :: 8 word) < 255 \<Longrightarrow> unat (i + 1) = Suc (unat i)"
  by (simp add: unat_word_ariths)

lemma unat_add2_8: "unat (i :: 8 word) < 254 \<Longrightarrow> unat (i + 2) = unat i + 2"
  by (simp add: unat_word_ariths)

text \<open>
  The loop of \<^verbatim>\<open>dump_mavlink_packet\<close> while \<^verbatim>\<open>i\<close> stays inside \<^verbatim>\<open>ch\<close> and the offsets inside
  the buffer: it stores every value and issues one command per changed value.
\<close>

lemma dump_loop_spec:
  assumes "unat i + n \<le> 14" "unat off = 18 + 2 * unat i" "18 + 2 * (unat i + n) \<le> length data"
  shows "dump_loop data n i off st =
     Inr (st\<lparr>ch := rc_store data (ch st) (unat i) (unat i + n),
             commands := commands st @ rc_cmds data (ch st) (unat i) (unat i + n)\<rparr>)"
  using assms
proof (induction n arbitrary: i off st)
  case 0
  then show ?case by (simp add: rc_store_def rc_cmds_def)
next
  case (Suc n)
  let ?i0 = "unat i"
  have s: "unat (i + 1) = Suc ?i0" "unat (off + 2) = 18 + 2 * Suc ?i0"
    using Suc.prems by (simp_all add: unat_succ8 unat_add2_8)
  let ?v = "le16_at data (18 + 2 * ?i0)"
  have r: "rd data (unat off) = Inr (data ! (18 + 2 * ?i0))"
    "rd data (unat off + 1) = Inr (data ! (18 + 2 * ?i0 + 1))"
    using Suc.prems by (simp_all add: rd_def)
  have lt: "?i0 < 14" "?i0 < ?i0 + Suc n" using Suc.prems by simp_all
  have pre: "unat (i + 1) + n \<le> 14" "unat (off + 2) = 18 + 2 * unat (i + 1)"
    "18 + 2 * (unat (i + 1) + n) \<le> length data"
    using Suc.prems s by simp_all
  have e: "Suc ?i0 + n = ?i0 + Suc n" by simp
  show ?case
  proof (cases "ch st ! ?i0 \<noteq> ?v")
    case True
    let ?st1 = "st\<lparr>ch := list_update (ch st) ?i0 ?v,
                   commands := commands st @ [Command ''channels.sh'' (uint i + 5) (uint ?v)]\<rparr>"
    have step: "dump_loop data (Suc n) i off st = dump_loop data n (i + 1) (off + 2) ?st1"
      using True lt unfolding dump_loop.simps r
      by (simp add: le16_at_def Let_def)
    show ?thesis
      unfolding step Suc.IH[OF pre, of ?st1] s e rc_cmds_rec[OF lt(2)] rc_store_rec[OF lt(2)]
      using True by (simp add: rc_cmds_upd)
  next
    case False
    have step: "dump_loop data (Suc n) i off st = dump_loop data n (i + 1) (off + 2) st"
      using False lt unfolding dump_loop.simps r
      by (simp add: le16_at_def Let_def)
    from False have "?v = ch st ! ?i0" by simp
    then have same: "(ch st)[?i0 := ?v] = ch st" by simp
    show ?thesis
      unfolding step Suc.IH[OF pre, of st] s e rc_cmds_rec[OF lt(2)] rc_store_rec[OF lt(2)] same
      using False by simp
  qed
qed

text \<open>
  \<^verbatim>\<open>dump_mavlink_packet\<close> on a packet that starts with a marker, with \<^verbatim>\<open>ch_count\<close> within
  the size of \<^verbatim>\<open>ch\<close> and the offsets inside the memory it is handed.
\<close>

lemma dump_mavlink_packet_spec:
  assumes "unat (ch_count st) \<le> 14" and "46 \<le> length data"
    and "data ! 0 = 0xFE \<or> data ! 0 = 0xFD"
  shows "dump_mavlink_packet junk data st = Inr (rc_dumped data st)"
proof -
  have h: "header_msg_id junk data = Inr (packet_msg_id data)"
    using assms(2,3) by (auto simp: header_msg_id_def rd_def packet_msg_id_def)
  have z: "(0 < ch_count st) = (ch_count st \<noteq> 0)"
    by (simp add: word_gt_0)
  have "dump_loop data (unat (ch_count st)) 0 18 st =
     Inr (st\<lparr>ch := rc_store data (ch st) (unat (0::8 word)) (unat (0::8 word) + unat (ch_count st)),
             commands := commands st @
               rc_cmds data (ch st) (unat (0::8 word)) (unat (0::8 word) + unat (ch_count st))\<rparr>)"
    using assms(1,2) by (intro dump_loop_spec) simp_all
  then show ?thesis
    unfolding dump_mavlink_packet_def h rc_dumped_def z by simp
qed

lemma memory_at_length: "length (memory_at b beyond) = length b + 257"
  by (simp add: memory_at_def)

lemma memory_at_nth: "i < length b \<Longrightarrow> memory_at b beyond ! i = b ! i"
  by (simp add: memory_at_def nth_append)

section \<open>The packet recogniser\<close>

text \<open>
  C9: for a buffer that starts with a marker, \<^verbatim>\<open>get_mavlink_packet\<close> returns normally, and
  the flag it returns is true exactly when the buffer holds at least the declared total
  length, which is \<open>6 + payload_len + 2\<close> for marker \<open>0xFE\<close> and \<open>10 + payload_len + 2\<close>
  for \<open>0xFD\<close> (\<open>packet_total_len\<close>). Whenever the buffer has the 6 header bytes this
  length is what the out-parameter receives; a buffer of fewer than 6 bytes is reported
  incomplete with the out-parameter and the state untouched. An incomplete packet leaves
  the state as it is; for a complete one the RC channels are dumped, which changes the
  state only for an RC packet while monitoring is on. This is stated for \<^verbatim>\<open>ch_count\<close> up to
  14, the size of \<^verbatim>\<open>ch\<close>: beyond it the dump of an RC packet indexes past the array.
\<close>

theorem get_mavlink_packet_length:
  assumes "b \<noteq> []" and "b ! 0 = 0xFE \<or> b ! 0 = 0xFD" and "unat (ch_count st) \<le> 14"
  shows "get_mavlink_packet junk beyond b pl st =
           Inr (packet_total_len b \<le> int (length b),
                if length b < 6 then pl else packet_total_len b,
                if packet_total_len b \<le> int (length b) then rc_dumped (memory_at b beyond) st
                else st)"
proof -
  have "0 \<le> uint (b ! 1)" by simp
  moreover have "6 \<le> (if b ! 0 = 0xFE then 6 else 10::int)" by simp
  ultimately have t: "8 \<le> packet_total_len b"
    unfolding packet_total_len_def by linarith
  show ?thesis
  proof (cases "packet_total_len b \<le> int (length b)")
    case False
    then show ?thesis
      using assms(2) by (auto simp: get_mavlink_packet_def packet_total_len_def Let_def)
  next
    case True
    with t have l: "8 \<le> length b" by linarith
    have m: "memory_at b beyond ! 0 = 0xFE \<or> memory_at b beyond ! 0 = 0xFD"
      using assms(1,2) memory_at_nth[of 0 b beyond] by simp
    have d: "dump_mavlink_packet junk (memory_at b beyond) st = Inr (rc_dumped (memory_at b beyond) st)"
      by (rule dump_mavlink_packet_spec[OF assms(3) _ m]) (simp add: memory_at_length)
    show ?thesis
      using True l assms(2) unfolding get_mavlink_packet_def d
      by (auto simp: packet_total_len_def Let_def)
  qed
qed

text \<open>
  Instances: the 17-byte heartbeat is complete when all of it is in the buffer and
  incomplete, with length 17 reported, when its last byte is missing; its first 5 bytes
  are incomplete and leave the out-parameter at its value 99. With \<^verbatim>\<open>-c 2\<close>, an
  \<^verbatim>\<open>RC_CHANNELS_RAW\<close> packet of 8 bytes with an empty payload is complete, and the dump takes
  the two channel values from the memory behind the buffer, which holds 7 in every byte.
\<close>

theorem get_mavlink_packet_length_witness:
  "heartbeat_packet \<noteq> [] \<and> heartbeat_packet ! 0 = 0xFE \<and>
   unat (ch_count (start (\<lambda>n. 0))) \<le> 14 \<and> unat (ch_count monitored) \<le> 14 \<and>
   get_mavlink_packet 0 (\<lambda>i. 0) heartbeat_packet 0 (start (\<lambda>n. 0))
     = Inr (True, 17, start (\<lambda>n. 0)) \<and>
   get_mavlink_packet 0 (\<lambda>i. 0) (take 16 heartbeat_packet) 0 (start (\<lambda>n. 0))
     = Inr (False, 17, start (\<lambda>n. 0)) \<and>
   get_mavlink_packet 0 (\<lambda>i. 0) (take 5 heartbeat_packet) 99 (start (\<lambda>n. 0))
     = Inr (False, 99, start (\<lambda>n. 0)) \<and>
   get_mavlink_packet 0 (\<lambda>i. 7) [0xFE, 0x00, 0x00, 0x01, 0x01, 0x23, 0x00, 0x00] 0 monitored
     = Inr (True, 8, monitored\<lparr>ch := [1799, 1799] @ replicate 12 0,
              commands := [Command ''channels.sh'' 5 1799, Command ''channels.sh'' 6 1799]\<rparr>)"
proof -
  let ?st = "start (\<lambda>n. 0) :: byte list state"
  let ?rc = "[0xFE, 0x00, 0x00, 0x01, 0x01, 0x23, 0x00, 0x00] :: byte list"
  have c: "unat (ch_count ?st) \<le> 14" "ch_count ?st = 0"
    by (simp_all add: start_def initial_state_def)
  have m: "unat (ch_count monitored) \<le> 14" "unat (ch_count monitored) = 2"
    "ch_count monitored \<noteq> 0" "ch monitored = replicate 14 0" "commands monitored = []"
    by (simp_all add: monitored_def option_channels_def get_current_time_ms_def start_def
        initial_state_def)
  have h: "heartbeat_packet \<noteq> []" "heartbeat_packet ! 0 = 0xFE \<or> heartbeat_packet ! 0 = 0xFD"
    "take 16 heartbeat_packet \<noteq> []"
    "take 16 heartbeat_packet ! 0 = 0xFE \<or> take 16 heartbeat_packet ! 0 = 0xFD"
    "take 5 heartbeat_packet \<noteq> []"
    "take 5 heartbeat_packet ! 0 = 0xFE \<or> take 5 heartbeat_packet ! 0 = 0xFD"
    "?rc \<noteq> []" "?rc ! 0 = 0xFE \<or> ?rc ! 0 = 0xFD"
    by (simp_all add: heartbeat_packet_def)
  have t: "packet_total_len heartbeat_packet = 17" "packet_total_len (take 16 heartbeat_packet) = 17"
    "packet_total_len (take 5 heartbeat_packet) = 17" "packet_total_len ?rc = 8"
    "length heartbeat_packet = 17" "heartbeat_packet ! 0 = 0xFE"
    by (simp_all add: packet_total_len_def heartbeat_packet_def)
  have d0: "rc_dumped data ?st = ?st" for data
    by (simp add: rc_dumped_def c)
  have two: "[0..<2] = [0, Suc 0]"
    by (simp add: upt_rec)
  have v: "le16_at (memory_at ?rc (\<lambda>i. 7)) 18 = 1799" "le16_at (memory_at ?rc (\<lambda>i. 7)) 20 = 1799"
    "packet_msg_id (memory_at ?rc (\<lambda>i. 7)) = 35"
    by (simp_all add: le16_at_def le16_def memory_at_def nth_append packet_msg_id_def)
  have r: "replicate 14 (0::16 word) = [0, 0, 0, 0, 0, 0, 0, 0, 0, 0, 0, 0, 0, 0]"
    "replicate 12 (0::16 word) = [0, 0, 0, 0, 0, 0, 0, 0, 0, 0, 0, 0]"
    by (simp_all add: numeral_eq_Suc)
  have d1: "rc_dumped (memory_at ?rc (\<lambda>i. 7)) monitored =
      monitored\<lparr>ch := [1799, 1799] @ replicate 12 0,
              commands := [Command ''channels.sh'' 5 1799, Command ''channels.sh'' 6 1799]\<rparr>"
    unfolding rc_dumped_def m(2,4,5) rc_store_def rc_cmds_def two
    using m(3) by (simp add: v r)
  show ?thesis
    using h(1) t(6) c(1) m(1)
      get_mavlink_packet_length [OF h(1,2) c(1), of 0 "\<lambda>i. 0" 0]
      get_mavlink_packet_length [OF h(3,4) c(1), of 0 "\<lambda>i. 0" 0]
      get_mavlink_packet_length [OF h(5,6) c(1), of 0 "\<lambda>i. 0" 99]
      get_mavlink_packet_length [OF h(7,8) m(1), of 0 "\<lambda>i. 7" 0]
    unfolding t d0 d1 by (simp add: t(5))
qed

section \<open>RC channels in inbound datagrams\<close>



section \<open>What each function leaves unchanged\<close>

lemma ProcessChannels_keeps:
  "udp_out (ProcessChannels st) = udp_out st"
  "aggregate (ProcessChannels st) = aggregate st"
  "mavbuff_offset (ProcessChannels st) = mavbuff_offset st"
  "mavbuf (ProcessChannels st) = mavbuf st"
  "mavpckts_count (ProcessChannels st) = mavpckts_count st"
  "diag_log (ProcessChannels st) = diag_log st"
  "mavlink_status (ProcessChannels st) = mavlink_status st"
  "msg_file (ProcessChannels st) = msg_file st"
  "wfb_file (ProcessChannels st) = wfb_file st"
  "temp_file (ProcessChannels st) = temp_file st"
  "monitor_wfb (ProcessChannels st) = monitor_wfb st"
  "last_board_temp (ProcessChannels st) = last_board_temp st"
  "temp (ProcessChannels st) = temp st"
  "mavpckts_ttl (ProcessChannels st) = mavpckts_ttl st"
  "system_id (ProcessChannels st) = system_id st"
  "clock (ProcessChannels st) = clock st"
  "ch_count (ProcessChannels st) = ch_count st"
  "LastWfbSent (ProcessChannels st) = LastWfbSent st"
  "LastTempSent (ProcessChannels st) = LastTempSent st"
  "serial_out (ProcessChannels st) = serial_out st"
  "stack (ProcessChannels st) = stack st"
  "frames (ProcessChannels st) = frames st"
  by (simp_all add: ProcessChannels_def get_current_time_ms_def Let_def split: prod.splits)

lemma dispatch_keeps:
  "udp_out (dispatch L m st) = udp_out st"
  "aggregate (dispatch L m st) = aggregate st"
  "mavbuff_offset (dispatch L m st) = mavbuff_offset st"
  "mavbuf (dispatch L m st) = mavbuf st"
  "mavpckts_count (dispatch L m st) = mavpckts_count st"
  "diag_log (dispatch L m st) = diag_log st"
  "mavlink_status (dispatch L m st) = mavlink_status st"
  "msg_file (dispatch L m st) = msg_file st"
  "wfb_file (dispatch L m st) = wfb_file st"
  "temp_file (dispatch L m st) = temp_file st"
  "monitor_wfb (dispatch L m st) = monitor_wfb st"
  "last_board_temp (dispatch L m st) = last_board_temp st"
  "temp (dispatch L m st) = temp st"
  "mavpckts_ttl (dispatch L m st) = mavpckts_ttl st"
  "system_id (dispatch L m st) = system_id st"
  "clock (dispatch L m st) = clock st"
  "ch_count (dispatch L m st) = ch_count st"
  "LastWfbSent (dispatch L m st) = LastWfbSent st"
  "LastTempSent (dispatch L m st) = LastTempSent st"
  "serial_out (dispatch L m st) = serial_out st"
  "stack (dispatch L m st) = stack st"
  "frames (dispatch L m st) = frames st"
  by (simp_all add: dispatch_def handle_msg_id_rc_channels_raw_def
      handle_msg_id_rc_channels_override_def handle_msg_id_rc_channels_def handle_heartbeat_def
      ProcessChannels_keeps)

lemma send_msg_keeps:
  "mavbuf (send_msg_to_groundstation L t st) = mavbuf st"
  "mavbuff_offset (send_msg_to_groundstation L t st) = mavbuff_offset st"
  "mavpckts_count (send_msg_to_groundstation L t st) = mavpckts_count st"
  "aggregate (send_msg_to_groundstation L t st) = aggregate st"
  "diag_log (send_msg_to_groundstation L t st) = diag_log st"
  "clock (send_msg_to_groundstation L t st) = clock st"
  "system_id (send_msg_to_groundstation L t st) = system_id st"
  "stack (send_msg_to_groundstation L t st) = stack st"
  "udp_out (send_msg_to_groundstation L t st) =
     udp_out st @ [snd (statustext_pack L (mavlink_status st) (system_id st) t)]"
  by (simp_all add: send_msg_to_groundstation_def split: prod.splits)

lemma SendInfo_keeps:
  "mavbuf (snd (SendInfoToGround L st)) = mavbuf st"
  "mavbuff_offset (snd (SendInfoToGround L st)) = mavbuff_offset st"
  "mavpckts_count (snd (SendInfoToGround L st)) = mavpckts_count st"
  "aggregate (snd (SendInfoToGround L st)) = aggregate st"
  "clock (snd (SendInfoToGround L st)) = clock st"
  "system_id (snd (SendInfoToGround L st)) = system_id st"
  "stack (snd (SendInfoToGround L st)) = stack st"
  by (simp_all add: SendInfoToGround_def Check4MavlinkMsg_def local_array_def send_msg_keeps Let_def
      split: option.splits)

lemma SendInfo_udp:
  "\<exists>ds. udp_out (snd (SendInfoToGround L st)) = udp_out st @ ds \<and> length ds \<le> 1 \<and>
        (length ds = 1 \<longleftrightarrow> fst (SendInfoToGround L st))"
  by (simp add: SendInfoToGround_def Check4MavlinkMsg_def local_array_def send_msg_keeps Let_def
      split: option.splits)

lemma SendWfb_keeps:
  "mavbuf (snd (SendWfbLogToGround L st)) = mavbuf st"
  "mavbuff_offset (snd (SendWfbLogToGround L st)) = mavbuff_offset st"
  "mavpckts_count (snd (SendWfbLogToGround L st)) = mavpckts_count st"
  "aggregate (snd (SendWfbLogToGround L st)) = aggregate st"
  "clock (snd (SendWfbLogToGround L st)) = clock st"
  by (simp_all add: SendWfbLogToGround_def get_current_time_ms_def local_array_def send_msg_keeps
      Let_def split: option.splits prod.splits)

lemma SendWfb_udp:
  "\<exists>ds. udp_out (snd (SendWfbLogToGround L st)) = udp_out st @ ds \<and> length ds \<le> 1 \<and>
        (length ds = 1 \<longleftrightarrow> fst (SendWfbLogToGround L st))"
  by (simp add: SendWfbLogToGround_def get_current_time_ms_def local_array_def send_msg_keeps
      Let_def split: option.splits prod.splits)

lemma GetTemp_keeps:
  "udp_out (snd (GetTempSigmaStar st)) = udp_out st"
  "mavbuf (snd (GetTempSigmaStar st)) = mavbuf st"
  "mavpckts_count (snd (GetTempSigmaStar st)) = mavpckts_count st"
  "aggregate (snd (GetTempSigmaStar st)) = aggregate st"
  "mavlink_status (snd (GetTempSigmaStar st)) = mavlink_status st"
  "system_id (snd (GetTempSigmaStar st)) = system_id st"
  "clock (snd (GetTempSigmaStar st)) = clock st"
  by (simp_all add: GetTempSigmaStar_def Let_def split: option.splits)

lemma SendTemp_keeps:
  "udp_out (snd (SendTempToGround L st)) = udp_out st"
  "mavpckts_count (snd (SendTempToGround L st)) = mavpckts_count st"
  "aggregate (snd (SendTempToGround L st)) = aggregate st"
  "clock (snd (SendTempToGround L st)) = clock st"
  by (simp_all add: SendTempToGround_def get_current_time_ms_def Let_def GetTemp_keeps
      case_prod_beta)

lemma SendTemp_buf:
  assumes "\<And>p s t. length (snd (raw_imu_pack L p s t)) \<le> 280" "length (mavbuf st) = 2048"
  shows "fst (SendTempToGround L st) \<le> 280" "length (mavbuf (snd (SendTempToGround L st))) = 2048"
  using assms
  by (simp_all add: SendTempToGround_def get_current_time_ms_def Let_def GetTemp_keeps
      case_prod_beta le_trans[OF assms(1)])

lemma flush_udp:
  "\<exists>ds. udp_out (flush_and_send L st) =
          udp_out st @ pending st # ds \<and> length ds \<le> 2"
proof -
  let ?s2 = "st\<lparr>udp_out := udp_out st @ [take (unat (mavbuff_offset st)) (mavbuf st)],
               mavbuff_offset := 0, mavpckts_count := 0\<rparr>"
  obtain d1 where d1: "udp_out (snd (SendInfoToGround L ?s2)) = udp_out ?s2 @ d1" "length d1 \<le> 1"
    using SendInfo_udp by blast
  obtain d2 where d2: "udp_out (snd (SendWfbLogToGround L (snd (SendInfoToGround L ?s2)))) =
       udp_out (snd (SendInfoToGround L ?s2)) @ d2" "length d2 \<le> 1"
    using SendWfb_udp by blast
  have "udp_out (flush_and_send L st) = udp_out st @ pending st # (d1 @ d2)"
    by (simp add: flush_and_send_def Let_def case_prod_beta SendTemp_keeps d1 d2 pending_def)
  moreover have "length (d1 @ d2) \<le> 2" using d1 d2 by simp
  ultimately show ?thesis by blast
qed

lemma flush_count: "unat (mavpckts_count (flush_and_send L st)) \<le> 1"
  by (simp add: flush_and_send_def Let_def case_prod_beta SendTemp_keeps SendWfb_keeps SendInfo_keeps)

lemma flush_keeps:
  "aggregate (flush_and_send L st) = aggregate st"
  "clock (flush_and_send L st) = clock st"
  by (simp_all add: flush_and_send_def Let_def case_prod_beta SendTemp_keeps SendWfb_keeps
      SendInfo_keeps)

lemma flush_buf:
  assumes "\<And>p s t. length (snd (raw_imu_pack L p s t)) \<le> 280" "length (mavbuf st) = 2048"
  shows "unat (mavbuff_offset (flush_and_send L st)) \<le> 280" "length (mavbuf (flush_and_send L st)) = 2048"
proof -
  let ?s4 = "snd (SendWfbLogToGround L (snd (SendInfoToGround L
      (st\<lparr>udp_out := udp_out st @ [take (unat (mavbuff_offset st)) (mavbuf st)],
               mavbuff_offset := 0, mavpckts_count := 0\<rparr>))))"
  have a: "length (mavbuf ?s4) = 2048" "mavbuff_offset ?s4 = 0"
    using assms(2) by (simp_all add: SendWfb_keeps SendInfo_keeps)
  have b: "fst (SendTempToGround L ?s4) \<le> 280" "length (mavbuf (snd (SendTempToGround L ?s4))) = 2048"
    using SendTemp_buf[OF assms(1) a(1)] by simp_all
  have c: "unat (of_nat (fst (SendTempToGround L ?s4)) :: 32 word) \<le> 280"
    using b(1) by (simp add: unat_of_nat)
  show "unat (mavbuff_offset (flush_and_send L st)) \<le> 280"
    using a c by (simp add: flush_and_send_def Let_def case_prod_beta)
  show "length (mavbuf (flush_and_send L st)) = 2048"
    using a b by (simp add: flush_and_send_def Let_def case_prod_beta)
qed

section \<open>The RC debounce engine\<close>

text \<open>
  C7: \<^verbatim>\<open>ChannelCmds\<close> is 0 at process start. When the commit conditions hold,
  \<^verbatim>\<open>ProcessChannels\<close> increments \<^verbatim>\<open>ChannelCmds\<close>, records the value in \<^verbatim>\<open>LastValue\<close> and
  \<^verbatim>\<open>NewValue\<close> and the time in \<^verbatim>\<open>LastStart\<close>; it executes no command when \<^verbatim>\<open>ChannelCmds\<close>
  was 0 (the first commit), and executes \<^verbatim>\<open>/usr/bin/channels.sh\<close> with the channel index
  and the value when it was not (every later commit). When the conditions do not hold,
  nothing is counted, recorded or executed.
\<close>

theorem ProcessChannels_first_commit_suppressed:
  fixes st :: "'p state"
  defines "val \<equiv> channels st ! (unat (ch_count st) - 1)"
  shows "(commit_conditions st \<longrightarrow>
            ChannelCmds (ProcessChannels st) = ChannelCmds st + 1 \<and>
            LastValue (ProcessChannels st) = ucast val \<and>
            NewValue (ProcessChannels st) = val \<and>
            LastStart (ProcessChannels st) = clock st (ticks st + 2) \<and>
            (ChannelCmds st = 0 \<longrightarrow> commands (ProcessChannels st) = commands st) \<and>
            (ChannelCmds st \<noteq> 0 \<longrightarrow> commands (ProcessChannels st) =
               commands st @ [Command ''/usr/bin/channels.sh'' (uint (ch_count st)) (uint val)])) \<and>
         (\<not> commit_conditions st \<longrightarrow>
            ChannelCmds (ProcessChannels st) = ChannelCmds st \<and>
            LastValue (ProcessChannels st) = LastValue st \<and>
            commands (ProcessChannels st) = commands st) \<and>
         ChannelCmds (initial_state p0 clk mfile wfile tfile stk :: 'p state) = 0"
proof -
  have w: "\<And>x :: 8 word. (1 \<le> x) = (x \<noteq> 0)" "\<And>x :: 8 word. (x > 16) = (\<not> x \<le> 16)"
    "\<And>x :: 32 word. (0 < x) = (x \<noteq> 0)"
    by (auto simp: word_less_nat_alt word_le_nat_alt unat_gt_0 Suc_le_eq)
  show ?thesis
    unfolding val_def
    by (auto simp: ProcessChannels_def commit_conditions_def get_current_time_ms_def Let_def w
        initial_state_def split: prod.splits)
qed

text \<open>
  Instances: the first commit (counter 0, value 1500) is counted and recorded and runs
  nothing; a commit at counter 1 (value 1900) runs the command; the value 20, within 32 of
  the last committed value 0, does not meet the conditions and runs nothing.
\<close>

theorem ProcessChannels_first_commit_suppressed_witness:
  "commit_conditions (settled 1500 0) \<and> ChannelCmds (settled 1500 0) = 0 \<and>
   ChannelCmds (ProcessChannels (settled 1500 0)) = 1 \<and>
   LastValue (ProcessChannels (settled 1500 0)) = 1500 \<and>
   commands (ProcessChannels (settled 1500 0)) = [] \<and>
   commit_conditions (settled 1900 1) \<and> ChannelCmds (settled 1900 1) \<noteq> 0 \<and>
   ChannelCmds (ProcessChannels (settled 1900 1)) = 2 \<and>
   commands (ProcessChannels (settled 1900 1)) = [Command ''/usr/bin/channels.sh'' 1 1900] \<and>
   \<not> commit_conditions (settled 20 1) \<and>
   commands (ProcessChannels (settled 20 1)) = []"
proof -
  have c: "commit_conditions (settled 1500 0)" "commit_conditions (settled 1900 1)"
    "\<not> commit_conditions (settled 20 1)"
    by (simp_all add: commit_conditions_def settled_def start_def initial_state_def abs_diff_def
        c_abs_def)
  have v: "ChannelCmds (settled 1500 0) = 0" "ChannelCmds (settled 1900 1) = 1"
    "commands (settled v n) = []" "ch_count (settled v n) = 1"
    "channels (settled v n) ! 0 = v" for v n
    by (simp_all add: settled_def start_def initial_state_def)
  show ?thesis
    using c ProcessChannels_first_commit_suppressed [of "settled 1500 0"]
      ProcessChannels_first_commit_suppressed [of "settled 1900 1"]
      ProcessChannels_first_commit_suppressed [of "settled 20 1"]
    by (simp add: v)
qed

section \<open>The attitude override\<close>

lemma guard_append_keeps:
  "udp_out (append_byte b (overflow_guard st)) = udp_out st"
  "aggregate (append_byte b (overflow_guard st)) = aggregate st"
  "mavpckts_count (append_byte b (overflow_guard st)) = mavpckts_count st"
  "mavlink_status (append_byte b (overflow_guard st)) = mavlink_status st"
  by (simp_all add: append_byte_def overflow_guard_def)

lemma ShowVersionOnce_keeps:
  "udp_out (ShowVersionOnce st) = udp_out st"
  "aggregate (ShowVersionOnce st) = aggregate st"
  "mavbuff_offset (ShowVersionOnce st) = mavbuff_offset st"
  "mavbuf (ShowVersionOnce st) = mavbuf st"
  "mavpckts_count (ShowVersionOnce st) = mavpckts_count st"
  "diag_log (ShowVersionOnce st) = diag_log st"
  "mavlink_status (ShowVersionOnce st) = mavlink_status st"
  "msg_file (ShowVersionOnce st) = msg_file st"
  "wfb_file (ShowVersionOnce st) = wfb_file st"
  "temp_file (ShowVersionOnce st) = temp_file st"
  "monitor_wfb (ShowVersionOnce st) = monitor_wfb st"
  "last_board_temp (ShowVersionOnce st) = last_board_temp st"
  "temp (ShowVersionOnce st) = temp st"
  "mavpckts_ttl (ShowVersionOnce st) = mavpckts_ttl st"
  "system_id (ShowVersionOnce st) = system_id st"
  "clock (ShowVersionOnce st) = clock st"
  "ch_count (ShowVersionOnce st) = ch_count st"
  "LastWfbSent (ShowVersionOnce st) = LastWfbSent st"
  "LastTempSent (ShowVersionOnce st) = LastTempSent st"
  "serial_out (ShowVersionOnce st) = serial_out st"
  "ticks (ShowVersionOnce st) = ticks st"
  "LastStart (ShowVersionOnce st) = LastStart st"
  "NewValue (ShowVersionOnce st) = NewValue st"
  "wait_after_bash (ShowVersionOnce st) = wait_after_bash st"
  "ChannelPersistPeriodmMS (ShowVersionOnce st) = ChannelPersistPeriodmMS st"
  "channels (ShowVersionOnce st) = channels st"
  "NewValueStart (ShowVersionOnce st) = NewValueStart st"
  "LastValue (ShowVersionOnce st) = LastValue st"
  "ChannelCmds (ShowVersionOnce st) = ChannelCmds st"
  "commands (ShowVersionOnce st) = commands st"
  "stack (ShowVersionOnce st) = stack st"
  "frames (ShowVersionOnce st) = frames st"
  by (simp_all add: ShowVersionOnce_def)

lemma append_in_range:
  assumes "unat (mavbuff_offset st) \<le> 2000" "length (mavbuf st) = 2048"
  shows "pending (append_byte b (overflow_guard st)) = pending st @ [b]"
proof -
  have g: "overflow_guard st = st"
    using assms(1) by (simp add: overflow_guard_def word_less_nat_alt)
  have u: "unat (mavbuff_offset st + 1) = Suc (unat (mavbuff_offset st))"
    using assms(1) by (simp add: unat_word_ariths)
  show ?thesis
    using assms unfolding g append_byte_def pending_def
    by (simp add: u take_Suc_conv_app_nth)
qed

text \<open>
  C8: whatever positive value \<^verbatim>\<open>aggregate\<close> has, when at least 3 packets are counted
  (and the 32-bit counter is not at its maximum) and the byte that arrives completes a
  message with id 30 (\<^verbatim>\<open>ATTITUDE\<close>), \<^verbatim>\<open>process_mavlink\<close> flushes at that byte: the pending
  buffer including the byte is sent as the next datagram, followed by at most the two
  status texts, and the packet counter restarts at 0 or 1. No condition on the count or
  byte threshold is needed. While the buffer is within its bounds the datagram is the
  bytes accumulated so far followed by the new byte.
\<close>

theorem attitude_forces_flush:
  assumes agg: "aggregate st > 0"
    and cnt: "3 \<le> unat (mavpckts_count st)" "unat (mavpckts_count st) < 2 ^ 32 - 1"
    and parse: "parse_char L (mavlink_status st) b = (p, Some m)" and att: "msgid m = 30"
  shows "(\<exists>ds. udp_out (process_byte L st b) =
            udp_out st @ pending (append_byte b (overflow_guard st)) # ds \<and> length ds \<le> 2) \<and>
         unat (mavpckts_count (process_byte L st b)) \<le> 1 \<and>
         (unat (mavbuff_offset st) \<le> 2000 \<longrightarrow> length (mavbuf st) = 2048 \<longrightarrow>
            pending (append_byte b (overflow_guard st)) = pending st @ [b])"
proof -
  let ?s2 = "append_byte b (overflow_guard st)"
  let ?s3 = "(dispatch L m (ShowVersionOnce (?s2\<lparr>mavlink_status := p,
               mavpckts_ttl := mavpckts_ttl ?s2 + 1, system_id := sysid m\<rparr>)))"
  let ?s4 = "?s3\<lparr>mavpckts_count := mavpckts_count ?s3 + 1\<rparr>"
  have c1: "mavpckts_count ?s4 = mavpckts_count st + 1"
    by (simp add: dispatch_keeps ShowVersionOnce_keeps guard_append_keeps)
  have "unat (mavpckts_count st + 1) = Suc (unat (mavpckts_count st))"
    using cnt(2) by (simp add: unat_word_ariths)
  with cnt(1) have c2: "mavpckts_count ?s4 \<ge> 3"
    unfolding c1 by (simp add: word_le_nat_alt)
  have due: "aggregate ?s4 > 0 \<and> flush_due ?s4 m"
    using agg c2 att by (simp add: flush_due_def dispatch_keeps ShowVersionOnce_keeps guard_append_keeps)
  have pb: "process_byte L st b = flush_and_send L ?s4"
    using due parse by (simp add: process_byte_def on_message_def Let_def guard_append_keeps)
  have u: "udp_out ?s4 = udp_out st" "mavbuff_offset ?s4 = mavbuff_offset ?s2" "mavbuf ?s4 = mavbuf ?s2"
    by (simp_all add: dispatch_keeps ShowVersionOnce_keeps guard_append_keeps)
  show ?thesis
    unfolding pb using flush_udp[of L ?s4] flush_count[of L ?s4] append_in_range[of st b]
    unfolding u pending_def by blast
qed

lemma before_attitude_fields:
  "aggregate before_attitude = 2000" "mavpckts_count before_attitude = 3"
  "mavbuff_offset before_attitude = 86" "udp_out before_attitude = []"
  "mavlink_status before_attitude = butlast attitude_packet"
  "mavbuf before_attitude = heartbeat_packet @ heartbeat_packet @ heartbeat_packet @ butlast attitude_packet
                  @ replicate 1962 0"
  by (simp_all add: before_attitude_def option_aggregate_def start_def initial_state_def Let_def)

text \<open>
  An instance: with \<^verbatim>\<open>-a 2000\<close>, three heartbeats and an attitude packet short of its last byte
  are pending (86 bytes); the last byte completes the attitude message and the 87 bytes
  leave as one datagram.
\<close>

theorem attitude_forces_flush_witness:
  "0 < aggregate before_attitude \<and> unat (mavpckts_count before_attitude) = 3 \<and>
   parse_char ref_lib (mavlink_status before_attitude) 0x97 = ([], Some attitude_msg) \<and>
   msgid attitude_msg = 30 \<and>
   (\<exists>ds. udp_out (process_byte ref_lib before_attitude 0x97) =
      (heartbeat_packet @ heartbeat_packet @ heartbeat_packet @ attitude_packet) # ds \<and> length ds \<le> 2)"
proof -
  have p: "parse_char ref_lib (mavlink_status before_attitude) 0x97 = ([], Some attitude_msg)"
    unfolding before_attitude_fields
    by (simp add: ref_lib_def frame_char_def attitude_packet_def attitude_msg_def Let_def)
  have m: "msgid attitude_msg = 30" by (simp add: attitude_msg_def)
  have a: "0 < aggregate before_attitude" "3 \<le> unat (mavpckts_count before_attitude)"
    "unat (mavpckts_count before_attitude) < 2 ^ 32 - 1"
    by (simp_all add: before_attitude_fields)
  have l: "unat (mavbuff_offset before_attitude) \<le> 2000" "length (mavbuf before_attitude) = 2048"
    by (simp_all add: before_attitude_fields heartbeat_packet_def attitude_packet_def)
  have q: "pending before_attitude @ [0x97] =
      heartbeat_packet @ heartbeat_packet @ heartbeat_packet @ attitude_packet"
    by (simp add: pending_def before_attitude_fields heartbeat_packet_def attitude_packet_def)
  show ?thesis
    using attitude_forces_flush [OF a p m] l p m a
    by (auto simp: before_attitude_fields(2,4) q)
qed

section \<open>The bound on the pending buffer\<close>

lemma guard_bound: "unat (mavbuff_offset (overflow_guard st)) \<le> 2000"
  by (simp add: overflow_guard_def word_less_nat_alt)

lemma guard_length: "length (mavbuf (overflow_guard st)) = length (mavbuf st)"
  by (simp add: overflow_guard_def)

lemma append_bound:
  assumes "unat (mavbuff_offset st) \<le> 2000"
  shows "unat (mavbuff_offset (append_byte b st)) \<le> 2001"
    "length (mavbuf (append_byte b st)) = length (mavbuf st)"
  using assms by (simp_all add: append_byte_def unat_word_ariths)

lemma on_message_bound:
  assumes "unat (mavbuff_offset st) \<le> 2001" "length (mavbuf st) = 2048"
    and "\<forall>p s t. length (snd (raw_imu_pack L p s t)) \<le> 280"
  shows "unat (mavbuff_offset (on_message L m st)) \<le> 2001 \<and> length (mavbuf (on_message L m st)) = 2048"
proof -
  let ?s1 = "dispatch L m (ShowVersionOnce
      (st\<lparr>mavpckts_ttl := mavpckts_ttl st + 1, system_id := sysid m\<rparr>))"
  let ?s3 = "?s1\<lparr>mavpckts_count := mavpckts_count ?s1 + 1\<rparr>"
  have k: "mavbuff_offset ?s3 = mavbuff_offset st" "mavbuf ?s3 = mavbuf st"
    by (simp_all add: dispatch_keeps ShowVersionOnce_keeps)
  have lib: "\<And>p s t. length (snd (raw_imu_pack L p s t)) \<le> 280"
    using assms(3) by blast
  have len: "length (mavbuf ?s3) = 2048"
    using assms(2) k by simp
  have "unat (mavbuff_offset (flush_and_send L ?s3)) \<le> 280"
    "length (mavbuf (flush_and_send L ?s3)) = 2048"
    using flush_buf[OF lib len] by simp_all
  then show ?thesis
    using assms(1,2) k by (simp add: on_message_def Let_def)
qed

lemma process_byte_bound:
  assumes "length (mavbuf st) = 2048"
    and "\<forall>p s t. length (snd (raw_imu_pack L p s t)) \<le> 280"
  shows "unat (mavbuff_offset (process_byte L st b)) \<le> 2001 \<and>
         length (mavbuf (process_byte L st b)) = 2048"
proof -
  let ?s2 = "append_byte b (overflow_guard st)"
  have a: "unat (mavbuff_offset ?s2) \<le> 2001" "length (mavbuf ?s2) = 2048"
    using append_bound[OF guard_bound, of b st] assms(1) by (simp_all add: guard_length)
  obtain p r where pr: "parse_char L (mavlink_status ?s2) b = (p, r)"
    by (cases "parse_char L (mavlink_status ?s2) b")
  show ?thesis
  proof (cases r)
    case None
    with pr a show ?thesis by (simp add: process_byte_def Let_def)
  next
    case (Some m)
    have "unat (mavbuff_offset (?s2\<lparr>mavlink_status := p\<rparr>)) \<le> 2001"
      "length (mavbuf (?s2\<lparr>mavlink_status := p\<rparr>)) = 2048"
      using a by simp_all
    from on_message_bound[OF this assms(2), of m] pr Some show ?thesis
      by (simp add: process_byte_def Let_def)
  qed
qed

lemma process_mavlink_snoc:
  "process_mavlink L st (bs @ [b]) = process_byte L (process_mavlink L st bs) b"
  by (simp add: process_mavlink_def)

lemma process_mavlink_bound:
  assumes "unat (mavbuff_offset st) \<le> 2001" "length (mavbuf st) = 2048"
    and "\<forall>p s t. length (snd (raw_imu_pack L p s t)) \<le> 280"
  shows "unat (mavbuff_offset (process_mavlink L st bs)) \<le> 2001 \<and>
         length (mavbuf (process_mavlink L st bs)) = 2048"
proof (induction bs rule: rev_induct)
  case Nil
  with assms show ?case by (simp add: process_mavlink_def)
next
  case (snoc b bs)
  then show ?case
    unfolding process_mavlink_snoc using process_byte_bound[OF _ assms(3)] by blast
qed

text \<open>
  C2: from a state in which \<^verbatim>\<open>mavbuff_offset\<close> is at most 2001 and \<^verbatim>\<open>mavbuf\<close> has its 2048
  bytes (as at process start), and with a library whose packed messages are at most
  \<^verbatim>\<open>MAVLINK_MAX_PACKET_LEN\<close> = 280 bytes long, after every prefix of every input
  \<^verbatim>\<open>mavbuff_offset\<close> is at most 2001 and the array keeps its size; the index at which the
  next byte is stored (the offset after the overflow test) is at most 2000, inside the
  array.
\<close>

theorem pending_buffer_within_capacity:
  assumes "unat (mavbuff_offset st) \<le> 2001" and "length (mavbuf st) = 2048"
    and "\<forall>p s t. length (snd (raw_imu_pack L p s t)) \<le> 280"
  shows "\<forall>k \<le> length buffer.
           unat (mavbuff_offset (process_mavlink L st (take k buffer))) \<le> 2001 \<and>
           length (mavbuf (process_mavlink L st (take k buffer))) = 2048 \<and>
           unat (mavbuff_offset (overflow_guard (process_mavlink L st (take k buffer)))) \<le> 2000 \<and>
           unat (mavbuff_offset (overflow_guard (process_mavlink L st (take k buffer))))
             < length (mavbuf (process_mavlink L st (take k buffer)))"
proof (intro allI impI)
  fix k
  have "unat (mavbuff_offset (process_mavlink L st (take k buffer))) \<le> 2001 \<and>
        length (mavbuf (process_mavlink L st (take k buffer))) = 2048"
    by (rule process_mavlink_bound[OF assms])
  moreover have "unat (mavbuff_offset (overflow_guard (process_mavlink L st (take k buffer)))) \<le> 2000"
    by (rule guard_bound)
  ultimately show "unat (mavbuff_offset (process_mavlink L st (take k buffer))) \<le> 2001 \<and>
           length (mavbuf (process_mavlink L st (take k buffer))) = 2048 \<and>
           unat (mavbuff_offset (overflow_guard (process_mavlink L st (take k buffer)))) \<le> 2000 \<and>
           unat (mavbuff_offset (overflow_guard (process_mavlink L st (take k buffer))))
             < length (mavbuf (process_mavlink L st (take k buffer)))"
    by simp
qed

text \<open>
  An instance: the process at start and the first 12 bytes of a heartbeat.
\<close>

theorem pending_buffer_within_capacity_witness:
  "unat (mavbuff_offset (start (\<lambda>n. 5000))) \<le> 2001 \<and>
   length (mavbuf (start (\<lambda>n. 5000))) = 2048 \<and>
   (\<forall>p s t. length (snd (raw_imu_pack ref_lib p s t)) \<le> 280) \<and>
   (12::nat) \<le> length heartbeat_packet \<and>
   unat (mavbuff_offset (process_mavlink ref_lib (start (\<lambda>n. 5000)) (take 12 heartbeat_packet)))
     \<le> 2001 \<and>
   length (mavbuf (process_mavlink ref_lib (start (\<lambda>n. 5000)) (take 12 heartbeat_packet))) = 2048 \<and>
   unat (mavbuff_offset (overflow_guard
     (process_mavlink ref_lib (start (\<lambda>n. 5000)) (take 12 heartbeat_packet)))) \<le> 2000 \<and>
   unat (mavbuff_offset (overflow_guard
     (process_mavlink ref_lib (start (\<lambda>n. 5000)) (take 12 heartbeat_packet))))
     < length (mavbuf (process_mavlink ref_lib (start (\<lambda>n. 5000)) (take 12 heartbeat_packet)))"
proof -
  have a: "unat (mavbuff_offset (start (\<lambda>n. 5000))) \<le> 2001"
    "length (mavbuf (start (\<lambda>n. 5000))) = 2048"
    by (simp_all add: start_def initial_state_def)
  have b: "\<forall>p s t. length (snd (raw_imu_pack ref_lib p s t)) \<le> 280"
    by (simp add: ref_lib_def ref_raw_imu_pack_def)
  have c: "(12::nat) \<le> length heartbeat_packet"
    by (simp add: heartbeat_packet_def)
  show ?thesis
    using a b c pending_buffer_within_capacity [OF a b, of heartbeat_packet] by blast
qed

section \<open>Runs of process_mavlink\<close>

lemma process_mavlink_Cons:
  "process_mavlink L st (b # bs) = process_mavlink L (process_byte L st b) bs"
  by (simp add: process_mavlink_def)

lemma process_mavlink_append:
  "process_mavlink L st (xs @ ys) = process_mavlink L (process_mavlink L st xs) ys"
  by (simp add: process_mavlink_def)

lemma quiet_run:
  assumes "parse_quiet L (mavlink_status st) bs = Some p'"
    and "unat (mavbuff_offset st) + length bs \<le> 2001" and "length (mavbuf st) = 2048"
  shows "process_mavlink L st bs =
     st\<lparr>mavbuf := take (unat (mavbuff_offset st)) (mavbuf st) @ bs
                   @ drop (unat (mavbuff_offset st) + length bs) (mavbuf st),
        mavbuff_offset := mavbuff_offset st + of_nat (length bs),
        mavlink_status := p'\<rparr>"
  using assms
proof (induction bs arbitrary: st)
  case Nil
  then show ?case by (simp add: process_mavlink_def)
next
  case (Cons b bs)
  let ?k = "unat (mavbuff_offset st)"
  obtain p1 where p1: "parse_char L (mavlink_status st) b = (p1, None)"
    and q: "parse_quiet L p1 bs = Some p'"
    using Cons.prems(1) by (auto split: prod.splits option.splits)
  have k: "?k \<le> 2000" using Cons.prems(2) by simp
  then have g: "overflow_guard st = st"
    by (simp add: overflow_guard_def word_less_nat_alt)
  let ?s1 = "st\<lparr>mavbuf := (mavbuf st)[?k := b], mavbuff_offset := mavbuff_offset st + 1,
                 mavlink_status := p1\<rparr>"
  have pb: "process_byte L st b = ?s1"
    using p1 unfolding process_byte_def g by (simp add: append_byte_def Let_def)
  have u: "unat (mavbuff_offset st + 1) = Suc ?k"
    using k by (simp add: unat_word_ariths)
  have pre: "parse_quiet L (mavlink_status ?s1) bs = Some p'"
    "unat (mavbuff_offset ?s1) + length bs \<le> 2001" "length (mavbuf ?s1) = 2048"
    using q Cons.prems(2,3) u by simp_all
  have t: "take (Suc ?k) ((mavbuf st)[?k := b]) = take ?k (mavbuf st) @ [b]"
    using k Cons.prems(3) by (simp add: take_Suc_conv_app_nth)
  show ?case
    unfolding process_mavlink_Cons pb Cons.IH[OF pre]
    by (simp add: u t)
qed

lemma quiet_zeros: "parse_quiet ref_lib [] (replicate n 0) = Some []"
  by (induction n) (simp_all add: ref_lib_def frame_char_def)

lemma packet_run:
  assumes "parse_quiet L (mavlink_status st) bs = Some p'" and "parse_char L p' b = (p'', Some m)"
    and "unat (mavbuff_offset st) + length bs \<le> 2000" and "length (mavbuf st) = 2048"
  shows "process_mavlink L st (bs @ [b]) =
     on_message L m
       (st\<lparr>mavbuf := take (unat (mavbuff_offset st)) (mavbuf st) @ bs @ [b]
                     @ drop (unat (mavbuff_offset st) + length bs + 1) (mavbuf st),
          mavbuff_offset := mavbuff_offset st + of_nat (length bs) + 1,
          mavlink_status := p''\<rparr>)"
proof -
  let ?k = "unat (mavbuff_offset st)"
  let ?n = "length bs"
  let ?s1 = "st\<lparr>mavbuf := take ?k (mavbuf st) @ bs @ drop (?k + ?n) (mavbuf st),
        mavbuff_offset := mavbuff_offset st + of_nat ?n, mavlink_status := p'\<rparr>"
  have q: "process_mavlink L st bs = ?s1"
    using assms by (intro quiet_run) simp_all
  have u: "unat (mavbuff_offset st + of_nat ?n) = ?k + ?n"
    using assms(3) by (simp add: unat_word_ariths unat_of_nat)
  then have g: "overflow_guard ?s1 = ?s1"
    using assms(3) by (simp add: overflow_guard_def word_less_nat_alt)
  have l: "length (take ?k (mavbuf st) @ bs) = ?k + ?n"
    using assms(3,4) by simp
  have upd: "(take ?k (mavbuf st) @ bs @ drop (?k + ?n) (mavbuf st))[?k + ?n := b]
      = take ?k (mavbuf st) @ bs @ [b] @ drop (?k + ?n + 1) (mavbuf st)"
  proof -
    have "drop (?k + ?n) (mavbuf st) = (mavbuf st ! (?k + ?n)) # drop (?k + ?n + 1) (mavbuf st)"
      using assms(3,4) by (simp add: Cons_nth_drop_Suc)
    then have "((take ?k (mavbuf st) @ bs) @ drop (?k + ?n) (mavbuf st))[length (take ?k (mavbuf st) @ bs) := b]
       = (take ?k (mavbuf st) @ bs) @ b # drop (?k + ?n + 1) (mavbuf st)"
      by (simp only: list_update_length)
    then show ?thesis unfolding l by simp
  qed
  show ?thesis
    unfolding process_mavlink_snoc q process_byte_def g
    using assms(2) by (simp add: append_byte_def Let_def u upd)
qed

lemma on_message_flush_due:
  "flush_due ((dispatch L m (ShowVersionOnce (st\<lparr>mavpckts_ttl := t, system_id := i\<rparr>)))
               \<lparr>mavpckts_count := mavpckts_count
                  (dispatch L m (ShowVersionOnce (st\<lparr>mavpckts_ttl := t, system_id := i\<rparr>))) + 1\<rparr>) m
   = flush_due (st\<lparr>mavpckts_count := mavpckts_count st + 1\<rparr>) m"
  by (simp add: flush_due_def dispatch_keeps ShowVersionOnce_keeps)

lemma on_message_cases:
  "on_message L m st =
     (let s = (dispatch L m (ShowVersionOnce
                 (st\<lparr>mavpckts_ttl := mavpckts_ttl st + 1, system_id := sysid m\<rparr>)))
      in if will_flush st m
         then flush_and_send L (s\<lparr>mavpckts_count := mavpckts_count s + 1\<rparr>)
         else s\<lparr>mavpckts_count := mavpckts_count s + 1\<rparr>)"
  unfolding on_message_def will_flush_def Let_def on_message_flush_due
  by (simp add: dispatch_keeps ShowVersionOnce_keeps)

lemma on_message_noflush:
  assumes "\<not> will_flush st m"
  shows "udp_out (on_message L m st) = udp_out st"
    "diag_log (on_message L m st) = diag_log st"
    "mavbuf (on_message L m st) = mavbuf st"
    "mavbuff_offset (on_message L m st) = mavbuff_offset st"
    "mavlink_status (on_message L m st) = mavlink_status st"
    "aggregate (on_message L m st) = aggregate st"
    "msg_file (on_message L m st) = msg_file st"
    "monitor_wfb (on_message L m st) = monitor_wfb st"
    "last_board_temp (on_message L m st) = last_board_temp st"
    "mavpckts_count (on_message L m st) = mavpckts_count st + 1"
    "mavpckts_ttl (on_message L m st) = mavpckts_ttl st + 1"
  using assms by (simp_all add: on_message_cases Let_def dispatch_keeps ShowVersionOnce_keeps)

text \<open>A packet that arrives whole and does not cause a flush.\<close>

lemma packet_noflush:
  assumes q: "parse_quiet L (mavlink_status st) bs = Some p'"
    and p: "parse_char L p' b = (p'', Some m)"
    and k: "unat (mavbuff_offset st) + length bs \<le> 2000" and l: "length (mavbuf st) = 2048"
    and nf: "\<not> will_flush (st\<lparr>mavbuff_offset := mavbuff_offset st + of_nat (length bs) + 1\<rparr>) m"
  shows "udp_out (process_mavlink L st (bs @ [b])) = udp_out st"
    "diag_log (process_mavlink L st (bs @ [b])) = diag_log st"
    "aggregate (process_mavlink L st (bs @ [b])) = aggregate st"
    "msg_file (process_mavlink L st (bs @ [b])) = msg_file st"
    "monitor_wfb (process_mavlink L st (bs @ [b])) = monitor_wfb st"
    "last_board_temp (process_mavlink L st (bs @ [b])) = last_board_temp st"
    "mavlink_status (process_mavlink L st (bs @ [b])) = p''"
    "mavpckts_count (process_mavlink L st (bs @ [b])) = mavpckts_count st + 1"
    "mavbuff_offset (process_mavlink L st (bs @ [b])) = mavbuff_offset st + of_nat (length bs) + 1"
    "length (mavbuf (process_mavlink L st (bs @ [b]))) = 2048"
    "pending (process_mavlink L st (bs @ [b])) = pending st @ bs @ [b]"
proof -
  let ?S = "st\<lparr>mavbuf := take (unat (mavbuff_offset st)) (mavbuf st) @ bs @ [b]
                     @ drop (unat (mavbuff_offset st) + length bs + 1) (mavbuf st),
          mavbuff_offset := mavbuff_offset st + of_nat (length bs) + 1,
          mavlink_status := p''\<rparr>"
  have r: "process_mavlink L st (bs @ [b]) = on_message L m ?S"
    by (rule packet_run[OF q p k l])
  have nf': "\<not> will_flush ?S m"
    using nf by (auto simp: will_flush_def flush_due_def)
  have u: "unat (mavbuff_offset st + of_nat (length bs) + 1) = unat (mavbuff_offset st) + length bs + 1"
    using k by (simp add: unat_word_ariths unat_of_nat)
  show "udp_out (process_mavlink L st (bs @ [b])) = udp_out st"
    "diag_log (process_mavlink L st (bs @ [b])) = diag_log st"
    "aggregate (process_mavlink L st (bs @ [b])) = aggregate st"
    "msg_file (process_mavlink L st (bs @ [b])) = msg_file st"
    "monitor_wfb (process_mavlink L st (bs @ [b])) = monitor_wfb st"
    "last_board_temp (process_mavlink L st (bs @ [b])) = last_board_temp st"
    "mavlink_status (process_mavlink L st (bs @ [b])) = p''"
    "mavpckts_count (process_mavlink L st (bs @ [b])) = mavpckts_count st + 1"
    "mavbuff_offset (process_mavlink L st (bs @ [b])) = mavbuff_offset st + of_nat (length bs) + 1"
    unfolding r on_message_noflush[OF nf'] by simp_all
  show "length (mavbuf (process_mavlink L st (bs @ [b]))) = 2048"
    unfolding r on_message_noflush[OF nf'] using k l by simp
  show "pending (process_mavlink L st (bs @ [b])) = pending st @ bs @ [b]"
    unfolding r pending_def on_message_noflush[OF nf'] using k l by (simp add: u)
qed

text \<open>A packet that arrives whole and causes a flush.\<close>

lemma packet_flush:
  assumes q: "parse_quiet L (mavlink_status st) bs = Some p'"
    and p: "parse_char L p' b = (p'', Some m)"
    and k: "unat (mavbuff_offset st) + length bs \<le> 2000" and l: "length (mavbuf st) = 2048"
    and fl: "will_flush (st\<lparr>mavbuff_offset := mavbuff_offset st + of_nat (length bs) + 1\<rparr>) m"
  shows "\<exists>s. process_mavlink L st (bs @ [b]) = flush_and_send L s \<and>
            udp_out s = udp_out st \<and> pending s = pending st @ bs @ [b] \<and>
            msg_file s = msg_file st \<and> monitor_wfb s = monitor_wfb st \<and>
            last_board_temp s = last_board_temp st \<and> mavlink_status s = p'' \<and>
            system_id s = sysid m \<and> diag_log s = diag_log st \<and>
            aggregate s = aggregate st \<and> length (mavbuf s) = 2048 \<and>
            stack s = stack st \<and> frames s = frames st"
proof -
  let ?S = "st\<lparr>mavbuf := take (unat (mavbuff_offset st)) (mavbuf st) @ bs @ [b]
                     @ drop (unat (mavbuff_offset st) + length bs + 1) (mavbuf st),
          mavbuff_offset := mavbuff_offset st + of_nat (length bs) + 1,
          mavlink_status := p''\<rparr>"
  let ?s = "dispatch L m (ShowVersionOnce
                 (?S\<lparr>mavpckts_ttl := mavpckts_ttl ?S + 1, system_id := sysid m\<rparr>))"
  have r: "process_mavlink L st (bs @ [b]) = on_message L m ?S"
    by (rule packet_run[OF q p k l])
  have fl': "will_flush ?S m"
    using fl by (auto simp: will_flush_def flush_due_def)
  have u: "unat (mavbuff_offset st + of_nat (length bs) + 1) = unat (mavbuff_offset st) + length bs + 1"
    using k by (simp add: unat_word_ariths unat_of_nat)
  have "process_mavlink L st (bs @ [b]) = flush_and_send L (?s\<lparr>mavpckts_count := mavpckts_count ?s + 1\<rparr>)"
    unfolding r on_message_cases Let_def using fl' by simp
  moreover have "pending (?s\<lparr>mavpckts_count := mavpckts_count ?s + 1\<rparr>) = pending st @ bs @ [b]"
    unfolding pending_def using k l by (simp add: dispatch_keeps ShowVersionOnce_keeps u)
  moreover have "length (mavbuf (?s\<lparr>mavpckts_count := mavpckts_count ?s + 1\<rparr>)) = 2048"
    using k l by (simp add: dispatch_keeps ShowVersionOnce_keeps)
  ultimately show ?thesis
    by (intro exI[of _ "?s\<lparr>mavpckts_count := mavpckts_count ?s + 1\<rparr>"])
      (simp add: dispatch_keeps ShowVersionOnce_keeps)
qed

section \<open>The overflow guard\<close>

lemma overflow_step:
  assumes "mavbuff_offset st > 2000" and "parse_char L (mavlink_status st) b = (p, r)"
  shows "process_byte L st b =
     (case r of None \<Rightarrow> after_overflow st b p | Some m \<Rightarrow> on_message L m (after_overflow st b p))"
  using assms
  by (cases r)
    (simp_all add: process_byte_def overflow_guard_def append_byte_def after_overflow_def Let_def)

lemma lossy_fields:
  "mavlink_status lossy = []" "mavbuff_offset lossy = 0" "mavbuf lossy = replicate 2048 0"
  "aggregate lossy = 5" "udp_out lossy = []" "diag_log lossy = [AggregatePacks 5]"
  "mavpckts_count lossy = 0"
  by (simp_all add: lossy_def option_aggregate_def start_def initial_state_def)

lemma heartbeat_parse:
  "parse_quiet ref_lib [] (butlast heartbeat_packet) = Some (butlast heartbeat_packet)"
  "parse_char ref_lib (butlast heartbeat_packet) (last heartbeat_packet) = ([], Some heartbeat_msg)"
  "butlast heartbeat_packet @ [last heartbeat_packet] = heartbeat_packet"
  "length (butlast heartbeat_packet) = 16"
  "length heartbeat_packet = 17"
  by (simp_all add: heartbeat_packet_def ref_lib_def frame_char_def heartbeat_msg_def Let_def)

lemma zero_parse: "parse_char ref_lib [] 0 = ([], None)"
  by (simp add: ref_lib_def frame_char_def)

text \<open>
  C1 (as the code has it): when the next byte arrives while \<^verbatim>\<open>mavbuff_offset\<close> is above
  2000, the diagnostic is recorded and the write index is reset to the start without
  anything being sent; the byte becomes the first and only byte of the pending buffer,
  so the bytes accumulated before are dropped. The parser then sees the byte as usual.
\<close>

theorem overflow_discards_pending:
  assumes "mavbuff_offset st > 2000" and "parse_char L (mavlink_status st) b = (p, r)"
  shows "process_byte L st b =
           (case r of None \<Rightarrow> after_overflow st b p
                    | Some m \<Rightarrow> on_message L m (after_overflow st b p)) \<and>
         diag_log (after_overflow st b p) = diag_log st @ [BufferOverflowed] \<and>
         udp_out (after_overflow st b p) = udp_out st \<and>
         pending (after_overflow st b p) = take 1 ((mavbuf st)[0 := b])"
  using overflow_step[OF assms] by (simp add: after_overflow_def pending_def)

text \<open>
  An instance: a buffer of 2001 bytes (a heartbeat and 1984 zero bytes) and one more zero
  byte.
\<close>

theorem overflow_discards_pending_witness:
  "mavbuff_offset full > 2000 \<and> parse_char ref_lib (mavlink_status full) 0 = ([], None) \<and>
   pending full = heartbeat_packet @ replicate 1984 0 \<and>
   process_byte ref_lib full 0 = after_overflow full 0 [] \<and>
   diag_log (process_byte ref_lib full 0) = [AggregatePacks 5, BufferOverflowed] \<and>
   udp_out (process_byte ref_lib full 0) = [] \<and>
   pending (process_byte ref_lib full 0) = [0]"
proof -
  have f: "mavbuff_offset full = 2001" "mavlink_status full = []" "udp_out full = []"
    "diag_log full = [AggregatePacks 5]" "mavbuf full = heartbeat_packet @ replicate 2031 0"
    by (simp_all add: full_def lossy_fields)
  have a: "mavbuff_offset full > 2000" unfolding f by simp
  have b: "parse_char ref_lib (mavlink_status full) 0 = ([], None)"
    unfolding f by (rule zero_parse)
  have c: "pending full = heartbeat_packet @ replicate 1984 0"
    by (simp add: pending_def f heartbeat_parse(5))
  have d: "take (Suc 0) ((heartbeat_packet @ replicate 2031 0)[0 := 0]) = [0]"
    by (simp add: heartbeat_packet_def)
  show ?thesis
    using a b c overflow_discards_pending [OF a b] by (simp add: f d)
qed

text \<open>
  The same on a whole run from process start with \<^verbatim>\<open>-a 5\<close>: a heartbeat and 1985 zero bytes
  are received, no datagram leaves, and of the 2001 bytes that were pending only the last
  byte received remains.
\<close>

theorem overflow_loses_bytes_counterexample:
  "udp_out (process_mavlink ref_lib lossy (heartbeat_packet @ replicate 1984 0 @ [0])) = [] \<and>
   diag_log (process_mavlink ref_lib lossy (heartbeat_packet @ replicate 1984 0 @ [0]))
     = [AggregatePacks 5, BufferOverflowed] \<and>
   pending (process_mavlink ref_lib lossy (heartbeat_packet @ replicate 1984 0 @ [0])) = [0] \<and>
   pending (process_mavlink ref_lib lossy (heartbeat_packet @ replicate 1984 0))
     = heartbeat_packet @ replicate 1984 0"
proof -
  let ?s1 = "process_mavlink ref_lib lossy (butlast heartbeat_packet @ [last heartbeat_packet])"
  have q: "parse_quiet ref_lib (mavlink_status lossy) (butlast heartbeat_packet) = Some (butlast heartbeat_packet)"
    unfolding lossy_fields by (rule heartbeat_parse)
  have k: "unat (mavbuff_offset lossy) + length (butlast heartbeat_packet) \<le> 2000"
    unfolding lossy_fields heartbeat_parse by simp
  have l: "length (mavbuf lossy) = 2048"
    unfolding lossy_fields by simp
  have nf: "\<not> will_flush (lossy\<lparr>mavbuff_offset := mavbuff_offset lossy
               + of_nat (length (butlast heartbeat_packet)) + 1\<rparr>) heartbeat_msg"
    by (simp add: will_flush_def flush_due_def lossy_fields heartbeat_msg_def)
  note f = packet_noflush[OF q heartbeat_parse(2) k l nf]
  have s1: "udp_out ?s1 = []" "diag_log ?s1 = [AggregatePacks 5]" "mavlink_status ?s1 = []"
    "mavbuff_offset ?s1 = 17" "length (mavbuf ?s1) = 2048" "pending ?s1 = heartbeat_packet"
    using f(1,2,7,9,10,11)
    by (simp_all add: lossy_fields heartbeat_parse(3,4,5) pending_def)
  let ?s2 = "process_mavlink ref_lib ?s1 (replicate 1984 0)"
  have s2: "?s2 = ?s1\<lparr>mavbuf := take (unat (mavbuff_offset ?s1)) (mavbuf ?s1) @ replicate 1984 0
                   @ drop (unat (mavbuff_offset ?s1) + length (replicate 1984 (0::byte))) (mavbuf ?s1),
        mavbuff_offset := mavbuff_offset ?s1 + of_nat (length (replicate 1984 (0::byte))),
        mavlink_status := []\<rparr>"
    by (rule quiet_run) (simp_all add: s1 quiet_zeros)
  have s2f: "udp_out ?s2 = []" "diag_log ?s2 = [AggregatePacks 5]" "mavlink_status ?s2 = []"
    "mavbuff_offset ?s2 = 2001" "pending ?s2 = heartbeat_packet @ replicate 1984 0"
      "length (mavbuf ?s2) = 2048"
    using s1(6) unfolding s2 pending_def s1(1-5) by (simp_all add: s1 heartbeat_parse(5))
  have gt: "mavbuff_offset ?s2 > 2000" unfolding s2f by simp
  have zp: "parse_char ref_lib (mavlink_status ?s2) 0 = ([], None)"
    unfolding s2f by (rule zero_parse)
  have s3: "process_byte ref_lib ?s2 0 = ?s2\<lparr>diag_log := diag_log ?s2 @ [BufferOverflowed],
        mavbuf := (mavbuf ?s2)[0 := 0], mavbuff_offset := 1, mavlink_status := []\<rparr>"
    using overflow_step[OF gt zp] by (simp add: after_overflow_def)
  have e: "process_mavlink ref_lib lossy (heartbeat_packet @ replicate 1984 0 @ [0])
       = process_byte ref_lib ?s2 0"
    "process_mavlink ref_lib lossy (heartbeat_packet @ replicate 1984 0) = ?s2"
    unfolding heartbeat_parse by (simp_all add: process_mavlink_def)
  have ne: "mavbuf ?s2 \<noteq> []" using s2f(6) by auto
  show ?thesis
    unfolding e s3 using ne by (simp add: s2f pending_def take_Suc_conv_app_nth
      flip: s2f(5)[unfolded pending_def])
qed

section \<open>The aggregation thresholds\<close>

lemma never_flush_50_2000:
  assumes "aggregate st = 50 \<or> aggregate st = 2000" and "msgid m \<noteq> 30"
  shows "\<not> will_flush st m"
  using assms by (auto simp: will_flush_def flush_due_def)

text \<open>
  Strictly between 50 and 2000 the byte threshold applies, and from 1 to 49 the packet
  threshold; the attitude test is added to either.
\<close>

lemma byte_threshold_interior:
  assumes "50 < aggregate st" and "aggregate st < 2000"
  shows "will_flush st m \<longleftrightarrow>
           aggregate st \<le> uint (mavbuff_offset st) \<or> (3 \<le> mavpckts_count st + 1 \<and> msgid m = 30)"
  using assms by (auto simp: will_flush_def flush_due_def)

lemma count_threshold_below_50:
  assumes "1 \<le> aggregate st" and "aggregate st < 50"
  shows "will_flush st m \<longleftrightarrow>
           aggregate st \<le> uint (mavpckts_count st + 1) \<or> (3 \<le> mavpckts_count st + 1 \<and> msgid m = 30)"
  using assms by (auto simp: will_flush_def flush_due_def)

text \<open>A heartbeat that arrives whole in an idle parser and does not cause a flush.\<close>

lemma heartbeat_noflush:
  assumes i: "mavlink_status st = []" and k: "unat (mavbuff_offset st) + 16 \<le> 2000"
    and l: "length (mavbuf st) = 2048"
    and nf: "\<not> will_flush (st\<lparr>mavbuff_offset := mavbuff_offset st + 17\<rparr>) heartbeat_msg"
  shows "udp_out (process_mavlink ref_lib st heartbeat_packet) = udp_out st"
    "diag_log (process_mavlink ref_lib st heartbeat_packet) = diag_log st"
    "aggregate (process_mavlink ref_lib st heartbeat_packet) = aggregate st"
    "msg_file (process_mavlink ref_lib st heartbeat_packet) = msg_file st"
    "monitor_wfb (process_mavlink ref_lib st heartbeat_packet) = monitor_wfb st"
    "last_board_temp (process_mavlink ref_lib st heartbeat_packet) = last_board_temp st"
    "mavlink_status (process_mavlink ref_lib st heartbeat_packet) = []"
    "mavpckts_count (process_mavlink ref_lib st heartbeat_packet) = mavpckts_count st + 1"
    "mavbuff_offset (process_mavlink ref_lib st heartbeat_packet) = mavbuff_offset st + 17"
    "length (mavbuf (process_mavlink ref_lib st heartbeat_packet)) = 2048"
    "pending (process_mavlink ref_lib st heartbeat_packet) = pending st @ heartbeat_packet"
proof -
  have q: "parse_quiet ref_lib (mavlink_status st) (butlast heartbeat_packet) = Some (butlast heartbeat_packet)"
    unfolding i by (rule heartbeat_parse)
  have k': "unat (mavbuff_offset st) + length (butlast heartbeat_packet) \<le> 2000"
    unfolding heartbeat_parse using k .
  have e17: "mavbuff_offset st + of_nat (length (butlast heartbeat_packet)) + 1 = mavbuff_offset st + 17"
    by (simp add: heartbeat_parse)
  have nf': "\<not> will_flush (st\<lparr>mavbuff_offset := mavbuff_offset st
               + of_nat (length (butlast heartbeat_packet)) + 1\<rparr>) heartbeat_msg"
    unfolding e17 by (rule nf)
  note f = packet_noflush[OF q heartbeat_parse(2) k' l nf', unfolded heartbeat_parse(3,4)]
  show "udp_out (process_mavlink ref_lib st heartbeat_packet) = udp_out st"
    "diag_log (process_mavlink ref_lib st heartbeat_packet) = diag_log st"
    "aggregate (process_mavlink ref_lib st heartbeat_packet) = aggregate st"
    "msg_file (process_mavlink ref_lib st heartbeat_packet) = msg_file st"
    "monitor_wfb (process_mavlink ref_lib st heartbeat_packet) = monitor_wfb st"
    "last_board_temp (process_mavlink ref_lib st heartbeat_packet) = last_board_temp st"
    "mavlink_status (process_mavlink ref_lib st heartbeat_packet) = []"
    "mavpckts_count (process_mavlink ref_lib st heartbeat_packet) = mavpckts_count st + 1"
    "mavbuff_offset (process_mavlink ref_lib st heartbeat_packet) = mavbuff_offset st + 17"
    "length (mavbuf (process_mavlink ref_lib st heartbeat_packet)) = 2048"
    "pending (process_mavlink ref_lib st heartbeat_packet) = pending st @ heartbeat_packet"
    using f by simp_all
qed

lemma SendInfo_none:
  "msg_file st = None \<Longrightarrow> SendInfoToGround L st = (False, st\<lparr>frames := Suc (frames st)\<rparr>)"
  by (simp add: SendInfoToGround_def Check4MavlinkMsg_def local_array_def)

lemma SendInfo_some:
  assumes "msg_file st = Some c" and "c \<noteq> []"
  shows "SendInfoToGround L st =
     (True, st\<lparr>frames := Suc (frames st), msg_file := None,
               mavlink_status :=
                 fst (statustext_pack L (mavlink_status st) (system_id st) (operator_text c st)),
               udp_out := udp_out st @
                 [snd (statustext_pack L (mavlink_status st) (system_id st) (operator_text c st))]\<rparr>)"
  using assms
  by (simp add: SendInfoToGround_def Check4MavlinkMsg_def send_msg_to_groundstation_def Let_def
      case_prod_beta local_array_def operator_text_def)

lemma SendWfb_off: "\<not> monitor_wfb st \<Longrightarrow> SendWfbLogToGround L st = (False, st)"
  by (simp add: SendWfbLogToGround_def)

lemma flush_plain:
  assumes "msg_file st = None" and "\<not> monitor_wfb st" and "last_board_temp st \<le> - 100"
  shows "flush_and_send L st =
     st\<lparr>udp_out := udp_out st @ [pending st], mavbuff_offset := 0, mavpckts_count := 0,
        frames := Suc (frames st)\<rparr>"
  using assms
  by (simp add: flush_and_send_def Let_def SendInfo_none SendWfb_off pending_def)

lemma flush_info:
  assumes "msg_file st = Some c" and "c \<noteq> []" and "\<not> monitor_wfb st"
    and "last_board_temp st \<le> - 100"
  shows "flush_and_send L st =
     st\<lparr>udp_out := udp_out st @
           [pending st, snd (statustext_pack L (mavlink_status st) (system_id st) (operator_text c st))],
        mavbuff_offset := 0, mavpckts_count := 0, msg_file := None, frames := Suc (frames st),
        mavlink_status :=
          fst (statustext_pack L (mavlink_status st) (system_id st) (operator_text c st))\<rparr>"
  using assms
  by (simp add: flush_and_send_def Let_def SendInfo_some[where c = c] SendWfb_off pending_def
      operator_text_def local_array_def)

text \<open>A heartbeat that arrives whole in an idle parser and causes a flush.\<close>

lemma heartbeat_flush:
  assumes i: "mavlink_status st = []" and k: "unat (mavbuff_offset st) + 16 \<le> 2000"
    and l: "length (mavbuf st) = 2048"
    and fl: "will_flush (st\<lparr>mavbuff_offset := mavbuff_offset st + 17\<rparr>) heartbeat_msg"
  shows "\<exists>s. process_mavlink ref_lib st heartbeat_packet = flush_and_send ref_lib s \<and>
            udp_out s = udp_out st \<and> pending s = pending st @ heartbeat_packet \<and>
            msg_file s = msg_file st \<and> monitor_wfb s = monitor_wfb st \<and>
            last_board_temp s = last_board_temp st \<and> mavlink_status s = [] \<and>
            system_id s = 1 \<and> diag_log s = diag_log st \<and>
            aggregate s = aggregate st \<and> length (mavbuf s) = 2048 \<and>
            stack s = stack st \<and> frames s = frames st"
proof -
  have q: "parse_quiet ref_lib (mavlink_status st) (butlast heartbeat_packet) = Some (butlast heartbeat_packet)"
    unfolding i by (rule heartbeat_parse)
  have k': "unat (mavbuff_offset st) + length (butlast heartbeat_packet) \<le> 2000"
    unfolding heartbeat_parse using k .
  have e17: "mavbuff_offset st + of_nat (length (butlast heartbeat_packet)) + 1 = mavbuff_offset st + 17"
    by (simp add: heartbeat_parse)
  have fl': "will_flush (st\<lparr>mavbuff_offset := mavbuff_offset st
               + of_nat (length (butlast heartbeat_packet)) + 1\<rparr>) heartbeat_msg"
    unfolding e17 by (rule fl)
  have s: "sysid heartbeat_msg = 1" by (simp add: heartbeat_msg_def)
  show ?thesis
    using packet_flush[OF q heartbeat_parse(2) k' l fl', unfolded heartbeat_parse(3,4) s]
    by simp
qed

lemma configured_fields:
  "mavlink_status (configured a) = []" "mavbuff_offset (configured a) = 0"
  "mavbuf (configured a) = replicate 2048 0" "udp_out (configured a) = []"
  "mavpckts_count (configured a) = 0" "msg_file (configured a) = None"
  "\<not> monitor_wfb (configured a)" "last_board_temp (configured a) = - 100"
  "aggregate (configured a) = (if a > 2000 then 2000 else a)"
  by (simp_all add: configured_def option_aggregate_def start_def initial_state_def Let_def)

lemma configured_pending: "pending (configured a) = []"
  by (simp add: pending_def configured_fields)

text \<open>
  C4 on the code: with \<^verbatim>\<open>-a 50\<close>, three heartbeats (51 bytes) are received and nothing is
  sent, the 51 bytes stay pending; with \<^verbatim>\<open>-a 51\<close> the same input is flushed as one
  datagram. \<^verbatim>\<open>-a 5000\<close> is clamped to 2000 and announced as a byte threshold of 2000, yet
  with 2000 bytes pending and 100 packets counted the flush test is false for a
  heartbeat.
\<close>

theorem byte_threshold_skips_50_and_2000:
  "aggregate (configured 50) = 50 \<and>
   udp_out (process_mavlink ref_lib (configured 50)
      (heartbeat_packet @ heartbeat_packet @ heartbeat_packet)) = [] \<and>
   pending (process_mavlink ref_lib (configured 50)
      (heartbeat_packet @ heartbeat_packet @ heartbeat_packet))
     = heartbeat_packet @ heartbeat_packet @ heartbeat_packet \<and>
   mavbuff_offset (process_mavlink ref_lib (configured 50)
      (heartbeat_packet @ heartbeat_packet @ heartbeat_packet)) = 51 \<and>
   udp_out (process_mavlink ref_lib (configured 51)
      (heartbeat_packet @ heartbeat_packet @ heartbeat_packet))
     = [heartbeat_packet @ heartbeat_packet @ heartbeat_packet] \<and>
   aggregate (configured 5000) = 2000 \<and>
   diag_log (configured 5000) = [AggregateBytes 2000] \<and>
   flush_due ((configured 5000)\<lparr>mavbuff_offset := 2000, mavpckts_count := 100\<rparr>) heartbeat_msg
     = False"
proof -
  have m: "msgid heartbeat_msg \<noteq> 30" by (simp add: heartbeat_msg_def)
  have ag: "aggregate (configured 50) = 50" "aggregate (configured 51) = 51"
    by (simp_all add: configured_fields)
  note cf = configured_fields(1-8) configured_pending
  \<comment> \<open>threshold 50\<close>
  let ?s1 = "process_mavlink ref_lib (configured 50) heartbeat_packet"
  let ?s2 = "process_mavlink ref_lib ?s1 heartbeat_packet"
  let ?s3 = "process_mavlink ref_lib ?s2 heartbeat_packet"
  have n0: "\<not> will_flush ((configured 50)\<lparr>mavbuff_offset := mavbuff_offset (configured 50) + 17\<rparr>)
      heartbeat_msg"
    by (rule never_flush_50_2000[OF _ m]) (simp add: ag)
  note f1 = heartbeat_noflush[OF cf(1) _ _ n0, unfolded cf ag, simplified]
  have n1: "\<not> will_flush (?s1\<lparr>mavbuff_offset := mavbuff_offset ?s1 + 17\<rparr>) heartbeat_msg"
    by (rule never_flush_50_2000[OF _ m]) (simp add: f1)
  have k1: "unat (mavbuff_offset ?s1) + 16 \<le> 2000" by (simp add: f1)
  note f2 = heartbeat_noflush[OF f1(7) k1 f1(10) n1, unfolded f1, simplified]
  have n2: "\<not> will_flush (?s2\<lparr>mavbuff_offset := mavbuff_offset ?s2 + 17\<rparr>) heartbeat_msg"
    by (rule never_flush_50_2000[OF _ m]) (simp add: f2)
  have k2: "unat (mavbuff_offset ?s2) + 16 \<le> 2000" by (simp add: f2)
  note f3 = heartbeat_noflush[OF f2(7) k2 f2(10) n2, unfolded f2, simplified]
  have e: "process_mavlink ref_lib (configured 50)
      (heartbeat_packet @ heartbeat_packet @ heartbeat_packet) = ?s3"
    by (simp add: process_mavlink_append)
  \<comment> \<open>threshold 51\<close>
  let ?t1 = "process_mavlink ref_lib (configured 51) heartbeat_packet"
  let ?t2 = "process_mavlink ref_lib ?t1 heartbeat_packet"
  let ?t3 = "process_mavlink ref_lib ?t2 heartbeat_packet"
  have o0: "\<not> will_flush ((configured 51)\<lparr>mavbuff_offset := mavbuff_offset (configured 51) + 17\<rparr>)
      heartbeat_msg"
    by (simp add: will_flush_def flush_due_def cf ag heartbeat_msg_def)
  note g1 = heartbeat_noflush[OF cf(1) _ _ o0, unfolded cf ag, simplified]
  have o1: "\<not> will_flush (?t1\<lparr>mavbuff_offset := mavbuff_offset ?t1 + 17\<rparr>) heartbeat_msg"
    by (simp add: will_flush_def flush_due_def g1 heartbeat_msg_def)
  have j1: "unat (mavbuff_offset ?t1) + 16 \<le> 2000" by (simp add: g1)
  note g2 = heartbeat_noflush[OF g1(7) j1 g1(10) o1, unfolded g1, simplified]
  have o2: "will_flush (?t2\<lparr>mavbuff_offset := mavbuff_offset ?t2 + 17\<rparr>) heartbeat_msg"
    by (simp add: will_flush_def flush_due_def g2)
  have j2: "unat (mavbuff_offset ?t2) + 16 \<le> 2000" by (simp add: g2)
  from heartbeat_flush[OF g2(7) j2 g2(10) o2] obtain s where
    s: "?t3 = flush_and_send ref_lib s" "udp_out s = []"
      "pending s = heartbeat_packet @ heartbeat_packet @ heartbeat_packet"
      "msg_file s = None" "\<not> monitor_wfb s" "last_board_temp s \<le> - 100"
    by (auto simp: g2 cf)
  have t3: "udp_out ?t3 = [heartbeat_packet @ heartbeat_packet @ heartbeat_packet]"
    unfolding s(1) flush_plain[OF s(4,5,6)] by (simp add: s)
  have e': "process_mavlink ref_lib (configured 51)
      (heartbeat_packet @ heartbeat_packet @ heartbeat_packet) = ?t3"
    by (simp add: process_mavlink_append)
  \<comment> \<open>threshold 2000\<close>
  have a: "aggregate (configured 5000) = 2000"
    "diag_log (configured 5000) = [AggregateBytes 2000]"
    "flush_due ((configured 5000)\<lparr>mavbuff_offset := 2000, mavpckts_count := 100\<rparr>)
       heartbeat_msg = False"
    by (simp_all add: configured_def option_aggregate_def flush_due_def start_def
        initial_state_def heartbeat_msg_def)
  show ?thesis
    unfolding e e' a t3 by (simp add: f3 ag)
qed

section \<open>Telemetry injection\<close>

lemma inbox_fields:
  "mavlink_status inbox = []" "mavbuff_offset inbox = 0" "mavbuf inbox = replicate 2048 0"
  "aggregate inbox = 1" "udp_out inbox = []" "mavpckts_count inbox = 0"
  "msg_file inbox = Some ''hi''" "\<not> monitor_wfb inbox" "last_board_temp inbox = - 100"
  "stack inbox = (\<lambda>k i. CHR ''#'')"
  by (simp_all add: inbox_def initial_state_def)

lemma inbox_pending: "pending inbox = []"
  by (simp add: pending_def inbox_fields)

text \<open>The arrays on a stack that holds \<open>#\<close> everywhere.\<close>

lemma hash_array:
  "stack st = (\<lambda>k i. CHR ''#'') \<Longrightarrow> fst (local_array n st) = replicate n (CHR ''#'')"
  by (simp add: local_array_def map_replicate_const)

lemma hash_operator_text:
  assumes "stack st = (\<lambda>k i. CHR ''#'')"
  shows "operator_text ''hi'' st = ''hi'' @ replicate 48 (CHR ''#'')"
    "operator_text ''again'' st = ''again'' @ replicate 45 (CHR ''#'')"
  by (simp_all add: operator_text_def hash_array[OF assms])

text \<open>The clock belongs to the environment: no function of the program writes it.\<close>

lemma process_byte_clock: "clock (process_byte L st b) = clock st"
  by (simp add: process_byte_def on_message_cases Let_def overflow_guard_def append_byte_def
      flush_keeps dispatch_keeps ShowVersionOnce_keeps split: prod.splits option.splits)

lemma process_mavlink_clock: "clock (process_mavlink L st bs) = clock st"
  by (induction bs rule: rev_induct) (simp_all add: process_mavlink_def process_byte_clock)

text \<open>A byte that neither overflows nor flushes is appended to the pending buffer.\<close>

lemma will_flush_status: "will_flush (st\<lparr>mavlink_status := p\<rparr>) m = will_flush st m"
  by (simp add: will_flush_def flush_due_def)

lemma steady_step:
  assumes o: "\<not> mavbuff_offset st > 2000" and f: "\<not> flushes L st b"
    and l: "length (mavbuf st) = 2048"
  shows "pending (process_byte L st b) = pending st @ [b]"
    "udp_out (process_byte L st b) = udp_out st"
    "length (mavbuf (process_byte L st b)) = 2048"
proof -
  let ?s2 = "append_byte b (overflow_guard st)"
  have k: "unat (mavbuff_offset st) \<le> 2000"
    using o by (simp add: word_less_nat_alt)
  have g: "overflow_guard st = st"
    using o by (simp add: overflow_guard_def)
  have a: "pending ?s2 = pending st @ [b]"
    by (rule append_in_range[OF k l])
  have b: "udp_out ?s2 = udp_out st" "length (mavbuf ?s2) = 2048"
    "mavlink_status ?s2 = mavlink_status st"
    using l by (simp_all add: g append_byte_def)
  obtain p r where pr: "parse_char L (mavlink_status st) b = (p, r)"
    by (cases "parse_char L (mavlink_status st) b")
  have "pending (process_byte L st b) = pending st @ [b] \<and>
        udp_out (process_byte L st b) = udp_out st \<and>
        length (mavbuf (process_byte L st b)) = 2048"
  proof (cases r)
    case None
    then have "process_byte L st b = ?s2\<lparr>mavlink_status := p\<rparr>"
      using pr by (simp add: process_byte_def Let_def b)
    then show ?thesis
      using a b by (simp add: pending_def)
  next
    case (Some m)
    have nf: "\<not> will_flush (?s2\<lparr>mavlink_status := p\<rparr>) m"
      using f pr Some by (simp add: flushes_def will_flush_status)
    have e: "process_byte L st b = on_message L m (?s2\<lparr>mavlink_status := p\<rparr>)"
      using pr Some by (simp add: process_byte_def Let_def b)
    show ?thesis
      unfolding e pending_def on_message_noflush[OF nf]
      using a b by (simp add: pending_def)
  qed
  then show "pending (process_byte L st b) = pending st @ [b]"
    "udp_out (process_byte L st b) = udp_out st"
    "length (mavbuf (process_byte L st b)) = 2048"
    by simp_all
qed

lemma steady_run:
  assumes "steady L st bs" and "length (mavbuf st) = 2048"
  shows "pending (process_mavlink L st bs) = pending st @ bs \<and>
         udp_out (process_mavlink L st bs) = udp_out st \<and>
         length (mavbuf (process_mavlink L st bs)) = 2048"
  using assms
proof (induction bs arbitrary: st)
  case Nil
  then show ?case by (simp add: process_mavlink_def)
next
  case (Cons b bs)
  have s: "\<not> mavbuff_offset st > 2000" "\<not> flushes L st b" "steady L (process_byte L st b) bs"
    using Cons.prems(1) by simp_all
  note t = steady_step[OF s(1,2) Cons.prems(2)]
  from Cons.IH[OF s(3) t(3)] show ?case
    unfolding process_mavlink_Cons t by simp
qed

text \<open>A byte that flushes sends the pending buffer, the byte included, as the next datagram.\<close>

lemma flush_step:
  assumes o: "\<not> mavbuff_offset st > 2000" and f: "flushes L st b"
    and l: "length (mavbuf st) = 2048"
  shows "\<exists>ds. udp_out (process_byte L st b) = udp_out st @ (pending st @ [b]) # ds \<and> length ds \<le> 2"
proof -
  let ?s2 = "append_byte b (overflow_guard st)"
  have k: "unat (mavbuff_offset st) \<le> 2000"
    using o by (simp add: word_less_nat_alt)
  have g: "overflow_guard st = st"
    using o by (simp add: overflow_guard_def)
  have a: "pending ?s2 = pending st @ [b]"
    by (rule append_in_range[OF k l])
  have b: "udp_out ?s2 = udp_out st" "mavlink_status ?s2 = mavlink_status st"
    by (simp_all add: g append_byte_def)
  obtain p m where pr: "parse_char L (mavlink_status st) b = (p, Some m)"
    and wf: "will_flush ?s2 m"
    using f by (auto simp: flushes_def split: prod.splits option.splits)
  let ?s = "dispatch L m (ShowVersionOnce
      (?s2\<lparr>mavlink_status := p, mavpckts_ttl := mavpckts_ttl ?s2 + 1, system_id := sysid m\<rparr>))"
  let ?s' = "?s\<lparr>mavpckts_count := mavpckts_count ?s + 1\<rparr>"
  have e: "process_byte L st b = flush_and_send L ?s'"
    using pr wf by (simp add: process_byte_def Let_def b on_message_cases will_flush_status)
  have u: "udp_out ?s' = udp_out st" "pending ?s' = pending st @ [b]"
    using a b by (simp_all add: pending_def dispatch_keeps ShowVersionOnce_keeps)
  show ?thesis
    unfolding e using flush_udp[of L ?s'] unfolding u .
qed

lemma next_batch:
  assumes "steady L st bs" and "\<not> mavbuff_offset (process_mavlink L st bs) > 2000"
    and "flushes L (process_mavlink L st bs) b" and "length (mavbuf st) = 2048"
  shows "\<exists>ds. udp_out (process_mavlink L st (bs @ [b])) = udp_out st @ (pending st @ bs @ [b]) # ds \<and>
              length ds \<le> 2"
proof -
  note r = steady_run[OF assms(1,4)]
  from flush_step[OF assms(2,3)] r show ?thesis
    unfolding process_mavlink_snoc by simp
qed

lemma quiet_steady:
  assumes "parse_quiet L (mavlink_status st) bs = Some p'"
    and "unat (mavbuff_offset st) + length bs \<le> 2001" and "length (mavbuf st) = 2048"
  shows "steady L st bs"
  using assms
proof (induction bs arbitrary: st)
  case Nil
  then show ?case by simp
next
  case (Cons b bs)
  obtain p1 where p1: "parse_char L (mavlink_status st) b = (p1, None)"
    and q: "parse_quiet L p1 bs = Some p'"
    using Cons.prems(1) by (auto split: prod.splits option.splits)
  have k: "unat (mavbuff_offset st) \<le> 2000" using Cons.prems(2) by simp
  then have o: "\<not> mavbuff_offset st > 2000"
    by (simp add: word_less_nat_alt)
  have f: "\<not> flushes L st b"
    using p1 by (simp add: flushes_def)
  have q1: "parse_quiet L (mavlink_status st) [b] = Some p1"
    using p1 by simp
  have r: "process_byte L st b =
      st\<lparr>mavbuf := take (unat (mavbuff_offset st)) (mavbuf st) @ [b]
                   @ drop (unat (mavbuff_offset st) + length [b]) (mavbuf st),
        mavbuff_offset := mavbuff_offset st + of_nat (length [b]),
        mavlink_status := p1\<rparr>"
    using quiet_run[OF q1 _ Cons.prems(3)] k by (simp add: process_mavlink_def)
  have u: "unat (mavbuff_offset st + 1) = Suc (unat (mavbuff_offset st))"
    using k by (simp add: unat_word_ariths)
  have "steady L (process_byte L st b) bs"
  proof (rule Cons.IH)
    show "parse_quiet L (mavlink_status (process_byte L st b)) bs = Some p'"
      unfolding r using q by simp
    show "unat (mavbuff_offset (process_byte L st b)) + length bs \<le> 2001"
      unfolding r using Cons.prems(2) u by simp
    show "length (mavbuf (process_byte L st b)) = 2048"
      unfolding r using Cons.prems(3) k by simp
  qed
  with o f show ?case by simp
qed

text \<open>\<^verbatim>\<open>abs\<close> on clock readings below \<open>2 ^ 31\<close> ms.\<close>

lemma sint_ucast_small:
  fixes d :: "64 word"
  assumes "uint d < 2 ^ 31"
  shows "sint (ucast d :: 32 word) = uint d"
proof -
  have "sint (ucast d :: 32 word) = signed_take_bit 31 (uint d)"
    by (simp add: signed_ucast_eq)
  also have "\<dots> = uint d"
  proof (rule signed_take_bit_int_eq_self)
    have "(- (2 ^ 31) :: int) \<le> 0" by simp
    also have "0 \<le> uint d" by simp
    finally show "- (2 ^ 31) \<le> uint d" .
    show "uint d < 2 ^ 31" by (rule assms)
  qed
  finally show ?thesis .
qed

lemma abs_diff_exact:
  assumes "l \<le> t" and "uint t < 2 ^ 31"
  shows "abs_diff t l = uint t - uint l"
proof -
  have le: "uint l \<le> uint t" using assms(1) by (simp add: word_le_def)
  then have d: "uint (t - l) = uint t - uint l"
    by (simp add: uint_sub_lem)
  have "0 \<le> uint l" by simp
  with d assms(2) have small: "uint (t - l) < 2 ^ 31" by linarith
  have s: "sint (ucast (t - l) :: 32 word) = uint (t - l)"
    by (rule sint_ucast_small[OF small])
  have nn: "0 \<le> uint (t - l)" by simp
  show ?thesis
    unfolding abs_diff_def c_abs_def using s nn d by simp
qed

lemma abs_u64_exact:
  assumes "uint t < 2 ^ 31"
  shows "abs_u64 t = t"
proof -
  have s: "sint (ucast t :: 32 word) = uint t"
    by (rule sint_ucast_small[OF assms])
  have nn: "0 \<le> uint t" by simp
  have "scast (ucast t :: 32 word) = (word_of_int (sint (ucast t :: 32 word)) :: 64 word)"
    by simp
  then show ?thesis
    unfolding abs_u64_def c_abs_def using s nn by simp
qed

lemma abs_diff_5000: "abs_diff 5000 0 = 5000" "abs_u64 5000 = 5000" "abs_diff 5000 4500 = 500"
  by (simp_all add: abs_diff_def c_abs_def abs_u64_def)

text \<open>The producers when they emit.\<close>

lemma SendInfo_iff:
  "fst (SendInfoToGround L st) \<longleftrightarrow> (\<exists>c. msg_file st = Some c \<and> c \<noteq> [])"
  "ticks (snd (SendInfoToGround L st)) = ticks st"
  "clock (snd (SendInfoToGround L st)) = clock st"
  by (auto simp: SendInfoToGround_def Check4MavlinkMsg_def Let_def send_msg_to_groundstation_def
      local_array_def case_prod_beta split: option.splits)

lemma SendWfb_emits:
  assumes "monitor_wfb st" and "\<not> abs_diff (clock st (ticks st)) (LastWfbSent st) < 1000"
    and "wfb_file st = Some lines" and "wfb_lines lines 0 0 = (n, dropped)"
    and "\<not> (n = 0 \<and> dropped = 0)"
  shows "SendWfbLogToGround L st =
     (True, send_msg_to_groundstation L (report_text dropped st)
        (st\<lparr>ticks := Suc (Suc (ticks st)), LastWfbSent := abs_u64 (clock st (Suc (ticks st))),
            frames := Suc (frames st),
            wfb_file := Some [], diag_log := diag_log st @ [DroppedReported dropped]\<rparr>))"
  using assms
  by (simp add: SendWfbLogToGround_def get_current_time_ms_def Let_def local_array_def
      report_text_def)

lemma SendWfb_report:
  assumes "fst (SendWfbLogToGround L st)"
  shows "\<exists>dropped. udp_out (snd (SendWfbLogToGround L st)) =
      udp_out st @ [snd (statustext_pack L (mavlink_status st) (system_id st) (report_text dropped st))]"
proof -
  from assms obtain lines where
    m: "monitor_wfb st" "\<not> abs_diff (clock st (ticks st)) (LastWfbSent st) < 1000"
      "wfb_file st = Some lines"
      "\<not> (fst (wfb_lines lines 0 0) = 0 \<and> snd (wfb_lines lines 0 0) = 0)"
    by (auto simp: SendWfbLogToGround_def get_current_time_ms_def Let_def local_array_def
        case_prod_beta split: if_splits option.splits)
  have w: "wfb_lines lines 0 0 = (fst (wfb_lines lines 0 0), snd (wfb_lines lines 0 0))"
    by simp
  show ?thesis
    unfolding SendWfb_emits[OF m(1,2,3) w m(4)]
    by (intro exI[of _ "snd (wfb_lines lines 0 0)"]) (simp add: send_msg_keeps)
qed

lemma SendTemp_emits:
  assumes "\<not> abs_diff (clock st (ticks st)) (LastTempSent st) < 1000" and "temp st \<noteq> 2"
    and "raw_imu_pack L (mavlink_status st) (system_id st) (last_board_temp st * 100) = (p, packet)"
  shows "SendTempToGround L st =
     (length packet,
      st\<lparr>ticks := Suc (Suc (ticks st)), LastTempSent := abs_u64 (clock st (Suc (ticks st))),
         mavlink_status := p, mavbuf := packet @ drop (length packet) (mavbuf st)\<rparr>)"
  using assms
  by (simp add: SendTempToGround_def get_current_time_ms_def Let_def)

lemma SendTemp_sample:
  assumes "0 < fst (SendTempToGround L st)"
  shows "\<exists>p s t. take (fst (SendTempToGround L st)) (mavbuf (snd (SendTempToGround L st)))
                 = snd (raw_imu_pack L p s t) \<and>
               fst (SendTempToGround L st) = length (snd (raw_imu_pack L p s t))"
  using assms
  by (auto simp: SendTempToGround_def get_current_time_ms_def Let_def case_prod_beta
      split: if_splits)

lemma SendTemp_offset: "mavbuff_offset (snd (SendTempToGround L st)) = mavbuff_offset st"
  by (simp add: SendTempToGround_def get_current_time_ms_def Let_def GetTempSigmaStar_def
      case_prod_beta split: option.splits)

text \<open>The flush branch in terms of its intermediate states.\<close>

lemma flush_via:
  "flush_and_send L st =
     (let s2 = after_report L st;
          s3 = (if last_board_temp s2 > - 100
                then (case SendTempToGround L s2 of (len, s) \<Rightarrow> s\<lparr>mavbuff_offset := of_nat len\<rparr>)
                else s2)
      in if mavbuff_offset s3 > 0 then s3\<lparr>mavpckts_count := mavpckts_count s3 + 1\<rparr> else s3)"
  by (simp add: flush_and_send_def after_report_def after_info_def after_send_def pending_def Let_def)

lemma after_report_keeps:
  "mavbuf (after_report L st) = mavbuf st" "mavbuff_offset (after_report L st) = 0"
  "mavpckts_count (after_report L st) = 0"
  by (simp_all add: after_report_def after_info_def after_send_def SendWfb_keeps SendInfo_keeps)

lemma flush_pending:
  assumes lib: "\<forall>p s t. length (snd (raw_imu_pack L p s t)) \<le> 280"
    and len: "length (mavbuf st) = 2048"
  shows "last_board_temp (after_report L st) > - 100 \<and>
           0 < fst (SendTempToGround L (after_report L st)) \<Longrightarrow>
         (\<exists>p s t. pending (flush_and_send L st) = snd (raw_imu_pack L p s t)) \<and>
         mavpckts_count (flush_and_send L st) = 1"
    "\<not> (last_board_temp (after_report L st) > - 100 \<and>
           0 < fst (SendTempToGround L (after_report L st))) \<Longrightarrow>
         pending (flush_and_send L st) = [] \<and> mavpckts_count (flush_and_send L st) = 0"
proof -
  let ?s2 = "after_report L st"
  let ?n = "fst (SendTempToGround L ?s2)"
  let ?s = "snd (SendTempToGround L ?s2)"
  have lib': "\<And>p s t. length (snd (raw_imu_pack L p s t)) \<le> 280"
    using lib by blast
  have l2: "length (mavbuf ?s2) = 2048"
    using len by (simp add: after_report_keeps)
  have n: "?n \<le> 280"
    by (rule SendTemp_buf(1)[OF lib' l2])
  then have u: "unat (of_nat ?n :: 32 word) = ?n"
    by (simp add: unat_of_nat)
  have z: "(0 < (of_nat ?n :: 32 word)) = (0 < ?n)"
    using u by (simp add: word_less_nat_alt)
  {
    assume a: "last_board_temp ?s2 > - 100 \<and> 0 < ?n"
    then have f: "flush_and_send L st = ?s\<lparr>mavbuff_offset := of_nat ?n,
        mavpckts_count := mavpckts_count ?s + 1\<rparr>"
      unfolding flush_via Let_def by (simp add: case_prod_beta z)
    from a SendTemp_sample[of L ?s2] obtain p s t where
      p: "take ?n (mavbuf ?s) = snd (raw_imu_pack L p s t)"
      by blast
    have "pending (flush_and_send L st) = snd (raw_imu_pack L p s t)"
      unfolding f pending_def using p by (simp add: u)
    moreover have "mavpckts_count (flush_and_send L st) = 1"
      unfolding f by (simp add: SendTemp_keeps after_report_keeps)
    ultimately show "(\<exists>p s t. pending (flush_and_send L st) = snd (raw_imu_pack L p s t)) \<and>
         mavpckts_count (flush_and_send L st) = 1"
      by blast
  }
  {
    assume a: "\<not> (last_board_temp ?s2 > - 100 \<and> 0 < ?n)"
    show "pending (flush_and_send L st) = [] \<and> mavpckts_count (flush_and_send L st) = 0"
    proof (cases "last_board_temp ?s2 > - 100")
      case True
      with a have n0: "?n = 0" by simp
      have f: "flush_and_send L st = ?s\<lparr>mavbuff_offset := 0\<rparr>"
        unfolding flush_via Let_def using True by (simp add: case_prod_beta n0)
      show ?thesis
        unfolding f pending_def by (simp add: SendTemp_keeps after_report_keeps)
    next
      case False
      then have f: "flush_and_send L st = ?s2"
        unfolding flush_via Let_def by (simp add: after_report_keeps)
      show ?thesis
        unfolding f pending_def by (simp add: after_report_keeps)
    qed
  }
qed

text \<open>
  C5 (as the code has it): at a flush the pending buffer is handed to \<^verbatim>\<open>sendto\<close> as one
  datagram. \<^verbatim>\<open>SendInfoToGround\<close> then sends the operator message, if the inbox file holds
  one, as a datagram of its own (the status text packed from the 50 bytes of its array:
  the bytes of the file followed by what the stack held), and \<^verbatim>\<open>SendWfbLogToGround\<close> the
  link-health report, if one is due, as a datagram of its own. These are all the
  datagrams of the flush, neither message is written to \<^verbatim>\<open>mavbuf\<close>, and the pending buffer
  is empty after them. The temperature sample, when one is produced, is not sent: it is
  written to the start of \<^verbatim>\<open>mavbuf\<close> and is the whole pending buffer after the flush, counted
  as one packet; otherwise the pending buffer stays empty. Whatever the pending buffer
  holds after the flush is the beginning of the next datagram flushed: when the bytes
  \<open>bs\<close> are received without an overflow or a flush and the byte \<open>b\<close> then flushes, the
  datagram sent is the pending buffer followed by \<open>bs\<close> and \<open>b\<close>. This is stated for a
  library whose packed messages are at most \<^verbatim>\<open>MAVLINK_MAX_PACKET_LEN\<close> = 280 bytes long.
\<close>

theorem telemetry_paths:
  assumes lib: "\<forall>p s t. length (snd (raw_imu_pack L p s t)) \<le> 280"
    and len: "length (mavbuf st) = 2048"
  shows "udp_out (after_send st) = udp_out st @ [pending st] \<and>
    (fst (SendInfoToGround L (after_send st)) \<longrightarrow>
       (\<exists>c. msg_file st = Some c \<and> c \<noteq> [] \<and>
            udp_out (after_info L st) = udp_out (after_send st) @
              [snd (statustext_pack L (mavlink_status st) (system_id st) (operator_text c st))])) \<and>
    (\<not> fst (SendInfoToGround L (after_send st)) \<longrightarrow>
       udp_out (after_info L st) = udp_out (after_send st)) \<and>
    (fst (SendWfbLogToGround L (after_info L st)) \<longrightarrow>
       (\<exists>dropped. udp_out (after_report L st) = udp_out (after_info L st) @
              [snd (statustext_pack L (mavlink_status (after_info L st)) (system_id st)
                     (report_text dropped (after_info L st)))])) \<and>
    (\<not> fst (SendWfbLogToGround L (after_info L st)) \<longrightarrow>
       udp_out (after_report L st) = udp_out (after_info L st)) \<and>
    udp_out (flush_and_send L st) = udp_out (after_report L st) \<and>
    mavbuf (after_report L st) = mavbuf st \<and> pending (after_report L st) = [] \<and>
    (last_board_temp (after_report L st) > - 100 \<and>
       0 < fst (SendTempToGround L (after_report L st)) \<longrightarrow>
         (\<exists>p s t. pending (flush_and_send L st) = snd (raw_imu_pack L p s t)) \<and>
         mavpckts_count (flush_and_send L st) = 1) \<and>
    (\<not> (last_board_temp (after_report L st) > - 100 \<and>
       0 < fst (SendTempToGround L (after_report L st))) \<longrightarrow>
         pending (flush_and_send L st) = [] \<and> mavpckts_count (flush_and_send L st) = 0) \<and>
    (\<forall>bs b. steady L (flush_and_send L st) bs \<and>
            \<not> mavbuff_offset (process_mavlink L (flush_and_send L st) bs) > 2000 \<and>
            flushes L (process_mavlink L (flush_and_send L st) bs) b \<longrightarrow>
       (\<exists>ds. udp_out (process_mavlink L (flush_and_send L st) (bs @ [b])) =
               udp_out (flush_and_send L st) @ (pending (flush_and_send L st) @ bs @ [b]) # ds \<and>
             length ds \<le> 2))"
proof -
  let ?s0 = "after_send st"
  have k0: "msg_file ?s0 = msg_file st" "mavlink_status ?s0 = mavlink_status st"
    "system_id ?s0 = system_id st" "operator_text c ?s0 = operator_text c st" for c
    by (simp_all add: after_send_def operator_text_def local_array_def)
  have c1: "udp_out ?s0 = udp_out st @ [pending st]"
    by (simp add: after_send_def)
  have c2: "fst (SendInfoToGround L ?s0) \<longrightarrow>
       (\<exists>c. msg_file st = Some c \<and> c \<noteq> [] \<and>
            udp_out (after_info L st) = udp_out ?s0 @
              [snd (statustext_pack L (mavlink_status st) (system_id st) (operator_text c st))])"
  proof
    assume "fst (SendInfoToGround L ?s0)"
    then obtain c where c: "msg_file ?s0 = Some c" "c \<noteq> []"
      unfolding SendInfo_iff by blast
    show "\<exists>c. msg_file st = Some c \<and> c \<noteq> [] \<and>
            udp_out (after_info L st) = udp_out ?s0 @
              [snd (statustext_pack L (mavlink_status st) (system_id st) (operator_text c st))]"
      using c unfolding after_info_def SendInfo_some[OF c] k0
      by (intro exI[of _ c]) simp
  qed
  have c3: "\<not> fst (SendInfoToGround L ?s0) \<longrightarrow> udp_out (after_info L st) = udp_out ?s0"
    using SendInfo_udp[of L ?s0] unfolding after_info_def by (auto simp: le_Suc_eq)
  have c4: "fst (SendWfbLogToGround L (after_info L st)) \<longrightarrow>
       (\<exists>dropped. udp_out (after_report L st) = udp_out (after_info L st) @
              [snd (statustext_pack L (mavlink_status (after_info L st)) (system_id st)
                     (report_text dropped (after_info L st)))])"
    using SendWfb_report[of L "after_info L st"]
    unfolding after_report_def by (simp add: after_info_def SendInfo_keeps k0)
  have c5: "\<not> fst (SendWfbLogToGround L (after_info L st)) \<longrightarrow>
       udp_out (after_report L st) = udp_out (after_info L st)"
    using SendWfb_udp[of L "after_info L st"] unfolding after_report_def by (auto simp: le_Suc_eq)
  have c6: "udp_out (flush_and_send L st) = udp_out (after_report L st)"
    unfolding flush_via Let_def by (simp add: case_prod_beta SendTemp_keeps)
  have c7: "mavbuf (after_report L st) = mavbuf st" "pending (after_report L st) = []"
    by (simp_all add: pending_def after_report_keeps)
  note c8 = flush_pending[OF lib len]
  have lib': "\<And>p s t. length (snd (raw_imu_pack L p s t)) \<le> 280"
    using lib by blast
  have lf: "length (mavbuf (flush_and_send L st)) = 2048"
    by (rule flush_buf(2)[OF lib' len])
  have c9: "\<forall>bs b. steady L (flush_and_send L st) bs \<and>
            \<not> mavbuff_offset (process_mavlink L (flush_and_send L st) bs) > 2000 \<and>
            flushes L (process_mavlink L (flush_and_send L st) bs) b \<longrightarrow>
       (\<exists>ds. udp_out (process_mavlink L (flush_and_send L st) (bs @ [b])) =
               udp_out (flush_and_send L st) @ (pending (flush_and_send L st) @ bs @ [b]) # ds \<and>
             length ds \<le> 2)"
    using next_batch[OF _ _ _ lf] by blast
  show ?thesis
    using c1 c2 c3 c4 c5 c6 c7 c8 c9 by blast
qed

lemma telemetry_fields:
  "msg_file telemetry = Some ''hi''" "monitor_wfb telemetry" "udp_out telemetry = []"
  "mavlink_status telemetry = []" "system_id telemetry = 1" "LastWfbSent telemetry = 0"
  "LastTempSent telemetry = 0" "clock telemetry = (\<lambda>n. 5000)" "ticks telemetry = 0"
  "wfb_file telemetry = Some [''UDP rxq overflow: 2 packets dropped'']"
  "last_board_temp telemetry = 45" "temp telemetry = 0" "mavbuf telemetry = replicate 2048 0"
  "stack telemetry = (\<lambda>k i. CHR ''#'')" "frames telemetry = 0" "aggregate telemetry = 1"
  by (simp_all add: telemetry_def initial_state_def)

lemma wfb_sample: "wfb_lines [''UDP rxq overflow: 2 packets dropped''] 0 0 = (1, 2)"
  by (simp add: isdigit_def atoi_def isspace_def)

lemma show_2: "show_int 2 = ''2''"
  by (simp add: show_int_def digits_of.simps)

lemma hash_report_text:
  assumes "stack st = (\<lambda>k i. CHR ''#'')"
  shows "report_text 2 st = ''2 video pckts dropped!'' @ [CHR 0x0A, CHR 0x00] @ replicate 176 (CHR ''#'')"
  by (simp add: report_text_def show_2 hash_array[OF assms])

lemma ref_pack_state:
  "fst (statustext_pack ref_lib p s t) = p" "fst (raw_imu_pack ref_lib p s x) = p"
  "statustext_pack ref_lib = ref_statustext_pack" "raw_imu_pack ref_lib = ref_raw_imu_pack"
  "parse_char ref_lib = frame_char"
  "fst (ref_statustext_pack p s t) = p" "fst (ref_raw_imu_pack p s x) = p"
  by (simp_all add: ref_lib_def ref_statustext_pack_def ref_raw_imu_pack_def)

lemma ref_raw_imu_length: "length (snd (ref_raw_imu_pack p s t)) = 41"
  by (simp add: ref_raw_imu_pack_def)

lemma telemetry_info:
  "SendInfoToGround ref_lib telemetry =
     (True, telemetry\<lparr>frames := 1, msg_file := None, mavlink_status := [],
              udp_out := [snd (ref_statustext_pack [] 1 (''hi'' @ replicate 48 (CHR ''#'')))]\<rparr>)"
proof -
  have c: "''hi'' \<noteq> []" by simp
  show ?thesis
    unfolding SendInfo_some[OF telemetry_fields(1) c]
    by (simp add: telemetry_fields ref_pack_state hash_operator_text)
qed

lemma telemetry_wfb:
  "fst (SendWfbLogToGround ref_lib telemetry)"
  "udp_out (snd (SendWfbLogToGround ref_lib telemetry)) =
     [snd (ref_statustext_pack [] 1
        (''2 video pckts dropped!'' @ [CHR 0x0A, CHR 0x00] @ replicate 176 (CHR ''#'')))]"
  "LastWfbSent (snd (SendWfbLogToGround ref_lib telemetry)) = 5000"
proof -
  have a: "\<not> abs_diff (clock telemetry (ticks telemetry)) (LastWfbSent telemetry) < 1000"
    by (simp add: telemetry_fields abs_diff_5000)
  have b: "\<not> ((1::int) = 0 \<and> (2::int) = 0)" by simp
  note e = SendWfb_emits[OF telemetry_fields(2) a telemetry_fields(10) wfb_sample b]
  show "fst (SendWfbLogToGround ref_lib telemetry)"
    "udp_out (snd (SendWfbLogToGround ref_lib telemetry)) =
     [snd (ref_statustext_pack [] 1
        (''2 video pckts dropped!'' @ [CHR 0x0A, CHR 0x00] @ replicate 176 (CHR ''#'')))]"
    "LastWfbSent (snd (SendWfbLogToGround ref_lib telemetry)) = 5000"
    unfolding e hash_report_text[OF telemetry_fields(14)]
    by (simp_all add: send_msg_to_groundstation_def telemetry_fields ref_pack_state
        abs_diff_5000 case_prod_beta)
qed

lemma telemetry_temp:
  "fst (SendTempToGround ref_lib telemetry) = 41"
  "take 41 (mavbuf (snd (SendTempToGround ref_lib telemetry))) = snd (ref_raw_imu_pack [] 1 4500)"
  "udp_out (snd (SendTempToGround ref_lib telemetry)) = []"
  "LastTempSent (snd (SendTempToGround ref_lib telemetry)) = 5000"
proof -
  have a: "\<not> abs_diff (clock telemetry (ticks telemetry)) (LastTempSent telemetry) < 1000"
    by (simp add: telemetry_fields abs_diff_5000)
  have b: "temp telemetry \<noteq> 2" by (simp add: telemetry_fields)
  have c: "raw_imu_pack ref_lib (mavlink_status telemetry) (system_id telemetry)
             (last_board_temp telemetry * 100) = ([], snd (ref_raw_imu_pack [] 1 4500))"
    by (simp add: telemetry_fields ref_lib_def ref_raw_imu_pack_def)
  have l: "length (snd (ref_raw_imu_pack [] 1 4500)) = 41"
    by (simp add: ref_raw_imu_pack_def)
  note e = SendTemp_emits[OF a b c]
  show "fst (SendTempToGround ref_lib telemetry) = 41"
    "take 41 (mavbuf (snd (SendTempToGround ref_lib telemetry))) = snd (ref_raw_imu_pack [] 1 4500)"
    "udp_out (snd (SendTempToGround ref_lib telemetry)) = []"
    "LastTempSent (snd (SendTempToGround ref_lib telemetry)) = 5000"
    unfolding e by (simp_all add: l telemetry_fields abs_diff_5000)
qed

text \<open>The flush of the state \<open>due\<close>, step by step.\<close>

lemma due_fields:
  "msg_file due = Some ''hi''" "monitor_wfb due" "udp_out due = []"
  "mavlink_status due = []" "system_id due = 1" "LastWfbSent due = 0"
  "LastTempSent due = 0" "clock due = (\<lambda>n. 5000)" "ticks due = 0"
  "wfb_file due = Some [''UDP rxq overflow: 2 packets dropped'']"
  "last_board_temp due = 45" "temp due = 0" "length (mavbuf due) = 2048"
  "stack due = (\<lambda>k i. CHR ''#'')" "frames due = 0" "aggregate due = 1"
  "pending due = heartbeat_packet"
  by (simp_all add: due_def telemetry_fields pending_def heartbeat_packet_def)

lemma due_after_send:
  "msg_file (after_send due) = Some ''hi''" "monitor_wfb (after_send due)"
  "udp_out (after_send due) = [heartbeat_packet]"
  "mavlink_status (after_send due) = []" "system_id (after_send due) = 1"
  "LastWfbSent (after_send due) = 0" "LastTempSent (after_send due) = 0"
  "clock (after_send due) = (\<lambda>n. 5000)" "ticks (after_send due) = 0"
  "wfb_file (after_send due) = Some [''UDP rxq overflow: 2 packets dropped'']"
  "last_board_temp (after_send due) = 45" "temp (after_send due) = 0"
  "stack (after_send due) = (\<lambda>k i. CHR ''#'')" "aggregate (after_send due) = 1"
  by (simp_all add: after_send_def due_fields)

lemma due_after_info:
  "fst (SendInfoToGround ref_lib (after_send due))"
  "monitor_wfb (after_info ref_lib due)"
  "udp_out (after_info ref_lib due) =
     [heartbeat_packet, snd (ref_statustext_pack [] 1 (''hi'' @ replicate 48 (CHR ''#'')))]"
  "mavlink_status (after_info ref_lib due) = []" "system_id (after_info ref_lib due) = 1"
  "LastWfbSent (after_info ref_lib due) = 0" "LastTempSent (after_info ref_lib due) = 0"
  "clock (after_info ref_lib due) = (\<lambda>n. 5000)" "ticks (after_info ref_lib due) = 0"
  "wfb_file (after_info ref_lib due) = Some [''UDP rxq overflow: 2 packets dropped'']"
  "last_board_temp (after_info ref_lib due) = 45" "temp (after_info ref_lib due) = 0"
  "stack (after_info ref_lib due) = (\<lambda>k i. CHR ''#'')" "aggregate (after_info ref_lib due) = 1"
proof -
  have c: "''hi'' \<noteq> []" by simp
  note e = SendInfo_some[OF due_after_send(1) c, of ref_lib]
  show "fst (SendInfoToGround ref_lib (after_send due))"
    "monitor_wfb (after_info ref_lib due)"
    "udp_out (after_info ref_lib due) =
       [heartbeat_packet, snd (ref_statustext_pack [] 1 (''hi'' @ replicate 48 (CHR ''#'')))]"
    "mavlink_status (after_info ref_lib due) = []" "system_id (after_info ref_lib due) = 1"
    "LastWfbSent (after_info ref_lib due) = 0" "LastTempSent (after_info ref_lib due) = 0"
    "clock (after_info ref_lib due) = (\<lambda>n. 5000)" "ticks (after_info ref_lib due) = 0"
    "wfb_file (after_info ref_lib due) = Some [''UDP rxq overflow: 2 packets dropped'']"
    "last_board_temp (after_info ref_lib due) = 45" "temp (after_info ref_lib due) = 0"
    "stack (after_info ref_lib due) = (\<lambda>k i. CHR ''#'')" "aggregate (after_info ref_lib due) = 1"
    unfolding after_info_def e
    by (simp_all add: due_after_send ref_pack_state hash_operator_text)
qed

lemma due_after_report:
  "fst (SendWfbLogToGround ref_lib (after_info ref_lib due))"
  "udp_out (after_report ref_lib due) =
     [heartbeat_packet, snd (ref_statustext_pack [] 1 (''hi'' @ replicate 48 (CHR ''#''))),
      snd (ref_statustext_pack [] 1
        (''2 video pckts dropped!'' @ [CHR 0x0A, CHR 0x00] @ replicate 176 (CHR ''#'')))]"
  "mavlink_status (after_report ref_lib due) = []" "system_id (after_report ref_lib due) = 1"
  "LastTempSent (after_report ref_lib due) = 0"
  "clock (after_report ref_lib due) = (\<lambda>n. 5000)"
  "last_board_temp (after_report ref_lib due) = 45" "temp (after_report ref_lib due) = 0"
  "aggregate (after_report ref_lib due) = 1"
proof -
  let ?s1 = "after_info ref_lib due"
  have a: "\<not> abs_diff (clock ?s1 (ticks ?s1)) (LastWfbSent ?s1) < 1000"
    by (simp add: due_after_info abs_diff_5000)
  have b: "\<not> ((1::int) = 0 \<and> (2::int) = 0)" by simp
  note e = SendWfb_emits[OF due_after_info(2) a due_after_info(10) wfb_sample b, of ref_lib]
  show "fst (SendWfbLogToGround ref_lib (after_info ref_lib due))"
    "udp_out (after_report ref_lib due) =
     [heartbeat_packet, snd (ref_statustext_pack [] 1 (''hi'' @ replicate 48 (CHR ''#''))),
      snd (ref_statustext_pack [] 1
        (''2 video pckts dropped!'' @ [CHR 0x0A, CHR 0x00] @ replicate 176 (CHR ''#'')))]"
    "mavlink_status (after_report ref_lib due) = []" "system_id (after_report ref_lib due) = 1"
    "LastTempSent (after_report ref_lib due) = 0"
    "clock (after_report ref_lib due) = (\<lambda>n. 5000)"
    "last_board_temp (after_report ref_lib due) = 45" "temp (after_report ref_lib due) = 0"
    "aggregate (after_report ref_lib due) = 1"
    unfolding after_report_def e hash_report_text[OF due_after_info(13)]
    by (simp_all add: send_msg_to_groundstation_def due_after_info ref_pack_state case_prod_beta)
qed

lemma due_flush:
  "fst (SendTempToGround ref_lib (after_report ref_lib due)) = 41"
  "pending (flush_and_send ref_lib due) = snd (ref_raw_imu_pack [] 1 4500)"
  "mavbuff_offset (flush_and_send ref_lib due) = 41"
  "mavlink_status (flush_and_send ref_lib due) = []"
  "aggregate (flush_and_send ref_lib due) = 1"
  "mavpckts_count (flush_and_send ref_lib due) = 1"
proof -
  let ?s2 = "after_report ref_lib due"
  have a: "\<not> abs_diff (clock ?s2 (ticks ?s2)) (LastTempSent ?s2) < 1000"
    by (simp add: due_after_report abs_diff_5000)
  have b: "temp ?s2 \<noteq> 2" by (simp add: due_after_report)
  have c: "raw_imu_pack ref_lib (mavlink_status ?s2) (system_id ?s2) (last_board_temp ?s2 * 100)
      = ([], snd (ref_raw_imu_pack [] 1 4500))"
    by (simp add: due_after_report ref_pack_state(4) ref_raw_imu_pack_def)
  note e = SendTemp_emits[OF a b c]
  have t: "- 100 < last_board_temp ?s2"
    by (simp add: due_after_report)
  have f: "flush_and_send ref_lib due =
      (snd (SendTempToGround ref_lib ?s2))\<lparr>mavbuff_offset := 41,
         mavpckts_count := mavpckts_count (snd (SendTempToGround ref_lib ?s2)) + 1\<rparr>"
    unfolding flush_via Let_def using t by (simp add: e ref_raw_imu_length)
  show "fst (SendTempToGround ref_lib (after_report ref_lib due)) = 41"
    by (simp add: e ref_raw_imu_length)
  show "pending (flush_and_send ref_lib due) = snd (ref_raw_imu_pack [] 1 4500)"
    unfolding f pending_def by (simp add: e ref_raw_imu_length)
  show "mavbuff_offset (flush_and_send ref_lib due) = 41"
    "mavlink_status (flush_and_send ref_lib due) = []"
    "aggregate (flush_and_send ref_lib due) = 1"
    "mavpckts_count (flush_and_send ref_lib due) = 1"
    unfolding f by (simp_all add: e due_after_report after_report_keeps)
qed

text \<open>
  An instance: in the state \<open>due\<close> (a heartbeat pending, an operator message, a drop report
  and a temperature to send) the flush sends three datagrams, the heartbeat and the two
  status texts, and leaves the temperature sample pending; the heartbeat received next
  flushes again, and the datagram sent is the temperature sample followed by that
  heartbeat.
\<close>

theorem telemetry_paths_witness:
  "(\<forall>p s t. length (snd (raw_imu_pack ref_lib p s t)) \<le> 280) \<and>
   length (mavbuf due) = 2048 \<and> pending due = heartbeat_packet \<and>
   fst (SendInfoToGround ref_lib (after_send due)) \<and>
   fst (SendWfbLogToGround ref_lib (after_info ref_lib due)) \<and>
   last_board_temp (after_report ref_lib due) > - 100 \<and>
   0 < fst (SendTempToGround ref_lib (after_report ref_lib due)) \<and>
   udp_out (flush_and_send ref_lib due) =
     [heartbeat_packet, snd (ref_statustext_pack [] 1 (''hi'' @ replicate 48 (CHR ''#''))),
      snd (ref_statustext_pack [] 1
        (''2 video pckts dropped!'' @ [CHR 0x0A, CHR 0x00] @ replicate 176 (CHR ''#'')))] \<and>
   pending (flush_and_send ref_lib due) = snd (ref_raw_imu_pack [] 1 4500) \<and>
   mavpckts_count (flush_and_send ref_lib due) = 1 \<and>
   steady ref_lib (flush_and_send ref_lib due) (butlast heartbeat_packet) \<and>
   mavbuff_offset (process_mavlink ref_lib (flush_and_send ref_lib due) (butlast heartbeat_packet))
     = 57 \<and>
   flushes ref_lib (process_mavlink ref_lib (flush_and_send ref_lib due) (butlast heartbeat_packet))
     (last heartbeat_packet) \<and>
   (\<exists>ds. udp_out (process_mavlink ref_lib (flush_and_send ref_lib due) heartbeat_packet) =
      udp_out (flush_and_send ref_lib due) @
        (snd (ref_raw_imu_pack [] 1 4500) @ heartbeat_packet) # ds \<and> length ds \<le> 2)"
proof -
  let ?F = "flush_and_send ref_lib due"
  let ?bs = "butlast heartbeat_packet"
  let ?b = "last heartbeat_packet"
  have lib: "\<forall>p s t. length (snd (raw_imu_pack ref_lib p s t)) \<le> 280"
    by (simp add: ref_pack_state ref_raw_imu_length)
  have lib': "\<And>p s t. length (snd (raw_imu_pack ref_lib p s t)) \<le> 280"
    using lib by blast
  note len = due_fields(13)
  note T = telemetry_paths [OF lib len]
  have h: "fst (SendInfoToGround ref_lib (after_send due))"
    "fst (SendWfbLogToGround ref_lib (after_info ref_lib due))"
    "last_board_temp (after_report ref_lib due) > - 100"
    "0 < fst (SendTempToGround ref_lib (after_report ref_lib due))"
    by (simp_all add: due_after_info due_after_report due_flush)
  have u: "udp_out ?F = udp_out (after_report ref_lib due)"
    using T by blast
  have n: "mavpckts_count ?F = 1"
    using T h by blast
  have lf: "length (mavbuf ?F) = 2048"
    by (rule flush_buf(2)[OF lib' len])
  have q: "parse_quiet ref_lib (mavlink_status ?F) ?bs = Some ?bs"
    unfolding due_flush by (rule heartbeat_parse)
  have k: "unat (mavbuff_offset ?F) + length ?bs \<le> 2001"
    by (simp add: due_flush heartbeat_parse)
  have s: "steady ref_lib ?F ?bs"
    by (rule quiet_steady[OF q k lf])
  have r: "process_mavlink ref_lib ?F ?bs =
      ?F\<lparr>mavbuf := take (unat (mavbuff_offset ?F)) (mavbuf ?F) @ ?bs
                   @ drop (unat (mavbuff_offset ?F) + length ?bs) (mavbuf ?F),
        mavbuff_offset := mavbuff_offset ?F + of_nat (length ?bs),
        mavlink_status := ?bs\<rparr>"
    by (rule quiet_run[OF q k lf])
  have o: "mavbuff_offset (process_mavlink ref_lib ?F ?bs) = 57"
    unfolding r by (simp add: due_flush heartbeat_parse)
  have o': "\<not> mavbuff_offset (process_mavlink ref_lib ?F ?bs) > 2000"
    unfolding o by simp
  have f: "flushes ref_lib (process_mavlink ref_lib ?F ?bs) ?b"
    unfolding r
    by (simp add: flushes_def heartbeat_parse will_flush_def flush_due_def append_byte_def
        overflow_guard_def due_flush)
  from T s o' f have "\<exists>ds. udp_out (process_mavlink ref_lib ?F (?bs @ [?b])) =
      udp_out ?F @ (pending ?F @ ?bs @ [?b]) # ds \<and> length ds \<le> 2"
    by blast
  then have e: "\<exists>ds. udp_out (process_mavlink ref_lib ?F heartbeat_packet) =
      udp_out ?F @ (snd (ref_raw_imu_pack [] 1 4500) @ heartbeat_packet) # ds \<and> length ds \<le> 2"
    unfolding heartbeat_parse due_flush .
  show ?thesis
    using lib len h s o f e n unfolding u
    by (simp add: due_fields due_after_report due_flush)
qed

text \<open>
  With a message waiting in the inbox file and the default \<^verbatim>\<open>-a 1\<close>, one heartbeat gives two
  datagrams, the heartbeat and the status text, and leaves the pending buffer empty.
\<close>

theorem operator_message_sent_directly_counterexample:
  "udp_out (process_mavlink ref_lib inbox heartbeat_packet) =
     [heartbeat_packet, snd (ref_statustext_pack [] 1 (''hi'' @ replicate 48 (CHR ''#'')))] \<and>
   pending (process_mavlink ref_lib inbox heartbeat_packet) = []"
proof -
  have fl: "will_flush (inbox\<lparr>mavbuff_offset := mavbuff_offset inbox + 17\<rparr>) heartbeat_msg"
    by (simp add: will_flush_def flush_due_def inbox_fields)
  have k: "unat (mavbuff_offset inbox) + 16 \<le> 2000" "length (mavbuf inbox) = 2048"
    by (simp_all add: inbox_fields)
  from heartbeat_flush[OF inbox_fields(1) k fl] obtain s where
    s: "process_mavlink ref_lib inbox heartbeat_packet = flush_and_send ref_lib s"
    "udp_out s = []" "pending s = heartbeat_packet" "msg_file s = Some ''hi''"
    "\<not> monitor_wfb s" "last_board_temp s \<le> - 100" "mavlink_status s = []" "system_id s = 1"
    "stack s = (\<lambda>k i. CHR ''#'')"
    by (auto simp: inbox_fields inbox_pending)
  have c: "''hi'' \<noteq> []" by simp
  show ?thesis
    unfolding s(1) flush_info[OF s(4) c s(5,6)]
    by (simp add: s s(3)[unfolded pending_def] pending_def ref_pack_state
        hash_operator_text[OF s(9)])
qed

section \<open>Rate limits of the telemetry producers\<close>

lemma rate_wfb_blocked:
  assumes "monitor_wfb st" and "LastWfbSent st \<le> clock st (ticks st)"
    and "uint (clock st (ticks st)) < 2 ^ 31"
    and "uint (clock st (ticks st)) - uint (LastWfbSent st) < 1000"
  shows "SendWfbLogToGround L st = (False, st\<lparr>ticks := Suc (ticks st)\<rparr>)"
  using assms abs_diff_exact[OF assms(2,3)]
  by (simp add: SendWfbLogToGround_def get_current_time_ms_def Let_def)

lemma rate_wfb_stamp:
  assumes "fst (SendWfbLogToGround L st)" and "uint (clock st (ticks st + 1)) < 2 ^ 31"
  shows "LastWfbSent (snd (SendWfbLogToGround L st)) = clock st (ticks st + 1)"
  using assms abs_u64_exact[OF assms(2)]
  by (auto simp: SendWfbLogToGround_def get_current_time_ms_def Let_def send_msg_to_groundstation_def
      local_array_def case_prod_beta split: if_splits option.splits)

lemma rate_temp_blocked:
  assumes "LastTempSent st \<le> clock st (ticks st)"
    and "uint (clock st (ticks st)) < 2 ^ 31"
    and "uint (clock st (ticks st)) - uint (LastTempSent st) < 1000"
  shows "SendTempToGround L st = (0, st\<lparr>ticks := Suc (ticks st)\<rparr>)"
  using assms abs_diff_exact[OF assms(1,2)]
  by (simp add: SendTempToGround_def get_current_time_ms_def Let_def)

lemma GetTemp_LastTempSent: "LastTempSent (snd (GetTempSigmaStar st)) = LastTempSent st"
  by (simp add: GetTempSigmaStar_def Let_def split: option.splits)

lemma rate_temp_stamp:
  assumes "0 < fst (SendTempToGround L st)" and "uint (clock st (ticks st + 1)) < 2 ^ 31"
  shows "LastTempSent (snd (SendTempToGround L st)) = clock st (ticks st + 1)"
  using assms abs_u64_exact[OF assms(2)]
  by (auto simp: SendTempToGround_def get_current_time_ms_def Let_def GetTemp_LastTempSent
      case_prod_beta split: if_splits)

text \<open>
  C6 (as the code has it): the link-health and the temperature producer emit nothing when
  called with a clock reading less than 1000 ms after their stored stamp, and an emission
  stores the clock reading taken for it as the new stamp (for readings below \<open>2 ^ 31\<close> ms,
  where \<^verbatim>\<open>abs\<close> of the 64-bit difference is exact). The operator-message producer reads
  no clock: it emits exactly when the inbox file holds a non-empty message.
\<close>

theorem telemetry_rate_limits:
  "(monitor_wfb st \<and> LastWfbSent st \<le> clock st (ticks st) \<and>
    uint (clock st (ticks st)) < 2 ^ 31 \<and>
    uint (clock st (ticks st)) - uint (LastWfbSent st) < 1000 \<longrightarrow>
      \<not> fst (SendWfbLogToGround L st) \<and>
      udp_out (snd (SendWfbLogToGround L st)) = udp_out st \<and>
      LastWfbSent (snd (SendWfbLogToGround L st)) = LastWfbSent st) \<and>
   (fst (SendWfbLogToGround L st) \<and> uint (clock st (ticks st + 1)) < 2 ^ 31 \<longrightarrow>
      LastWfbSent (snd (SendWfbLogToGround L st)) = clock st (ticks st + 1)) \<and>
   (LastTempSent st \<le> clock st (ticks st) \<and>
    uint (clock st (ticks st)) < 2 ^ 31 \<and>
    uint (clock st (ticks st)) - uint (LastTempSent st) < 1000 \<longrightarrow>
      fst (SendTempToGround L st) = 0 \<and>
      mavbuf (snd (SendTempToGround L st)) = mavbuf st \<and>
      LastTempSent (snd (SendTempToGround L st)) = LastTempSent st) \<and>
   (0 < fst (SendTempToGround L st) \<and> uint (clock st (ticks st + 1)) < 2 ^ 31 \<longrightarrow>
      LastTempSent (snd (SendTempToGround L st)) = clock st (ticks st + 1)) \<and>
   (fst (SendInfoToGround L st) \<longleftrightarrow> (\<exists>c. msg_file st = Some c \<and> c \<noteq> [])) \<and>
   ticks (snd (SendInfoToGround L st)) = ticks st"
  using rate_wfb_blocked[of st L] rate_wfb_stamp[of L st] rate_temp_blocked[of st L]
    rate_temp_stamp[of L st] SendInfo_iff(1,2)[of L st]
  by simp

lemma recent_fields:
  "monitor_wfb recent" "LastWfbSent recent = 4500" "LastTempSent recent = 4500"
  "clock recent = (\<lambda>n. 5000)" "udp_out recent = []"
  by (simp_all add: recent_def telemetry_fields)

text \<open>
  Instances: both rate-limited producers, stamped at 4500 ms, stay silent at 5000 ms;
  stamped at 0 they emit and store 5000; the operator message is sent without the clock
  being read.
\<close>

theorem telemetry_rate_limits_witness:
  "monitor_wfb recent \<and> LastWfbSent recent \<le> clock recent (ticks recent) \<and>
   uint (clock recent (ticks recent)) < 2 ^ 31 \<and>
   uint (clock recent (ticks recent)) - uint (LastWfbSent recent) < 1000 \<and>
   LastTempSent recent \<le> clock recent (ticks recent) \<and>
   uint (clock recent (ticks recent)) - uint (LastTempSent recent) < 1000 \<and>
   \<not> fst (SendWfbLogToGround ref_lib recent) \<and>
   udp_out (snd (SendWfbLogToGround ref_lib recent)) = [] \<and>
   fst (SendTempToGround ref_lib recent) = 0 \<and>
   fst (SendWfbLogToGround ref_lib telemetry) \<and>
   uint (clock telemetry (ticks telemetry + 1)) < 2 ^ 31 \<and>
   LastWfbSent (snd (SendWfbLogToGround ref_lib telemetry)) = 5000 \<and>
   0 < fst (SendTempToGround ref_lib telemetry) \<and>
   LastTempSent (snd (SendTempToGround ref_lib telemetry)) = 5000 \<and>
   fst (SendInfoToGround ref_lib telemetry) \<and>
   ticks (snd (SendInfoToGround ref_lib telemetry)) = 0"
proof -
  have a: "monitor_wfb recent" "LastWfbSent recent \<le> clock recent (ticks recent)"
    "uint (clock recent (ticks recent)) < 2 ^ 31"
    "uint (clock recent (ticks recent)) - uint (LastWfbSent recent) < 1000"
    "LastTempSent recent \<le> clock recent (ticks recent)"
    "uint (clock recent (ticks recent)) - uint (LastTempSent recent) < 1000"
    by (simp_all add: recent_fields)
  have b: "fst (SendWfbLogToGround ref_lib telemetry)"
    "uint (clock telemetry (ticks telemetry + 1)) < 2 ^ 31"
    "0 < fst (SendTempToGround ref_lib telemetry)"
    "fst (SendInfoToGround ref_lib telemetry)"
    by (simp_all add: telemetry_wfb telemetry_temp telemetry_info telemetry_fields)
  show ?thesis
    using a b telemetry_rate_limits [of recent ref_lib] telemetry_rate_limits [of telemetry ref_lib]
    by (simp add: recent_fields telemetry_fields)
qed

text \<open>
  Two flushes while the clock stands at 5000 ms, the inbox file written again in between:
  both operator messages are sent.
\<close>

theorem operator_messages_unlimited_counterexample:
  "udp_out (process_mavlink ref_lib
      ((process_mavlink ref_lib inbox heartbeat_packet)\<lparr>msg_file := Some ''again''\<rparr>)
      heartbeat_packet)
    = [heartbeat_packet, snd (ref_statustext_pack [] 1 (''hi'' @ replicate 48 (CHR ''#''))),
       heartbeat_packet, snd (ref_statustext_pack [] 1 (''again'' @ replicate 45 (CHR ''#'')))] \<and>
   clock inbox = (\<lambda>n. 5000) \<and>
   clock (process_mavlink ref_lib
      ((process_mavlink ref_lib inbox heartbeat_packet)\<lparr>msg_file := Some ''again''\<rparr>)
      heartbeat_packet) = (\<lambda>n. 5000)"
proof -
  have fl: "will_flush (inbox\<lparr>mavbuff_offset := mavbuff_offset inbox + 17\<rparr>) heartbeat_msg"
    by (simp add: will_flush_def flush_due_def inbox_fields)
  have k: "unat (mavbuff_offset inbox) + 16 \<le> 2000" "length (mavbuf inbox) = 2048"
    by (simp_all add: inbox_fields)
  from heartbeat_flush[OF inbox_fields(1) k fl] obtain s where
    s: "process_mavlink ref_lib inbox heartbeat_packet = flush_and_send ref_lib s"
    "udp_out s = []" "pending s = heartbeat_packet" "msg_file s = Some ''hi''"
    "\<not> monitor_wfb s" "last_board_temp s \<le> - 100" "mavlink_status s = []" "system_id s = 1"
    "aggregate s = 1" "length (mavbuf s) = 2048" "stack s = (\<lambda>k i. CHR ''#'')"
    by (auto simp: inbox_fields inbox_pending)
  have c: "''hi'' \<noteq> []" by simp
  let ?x = "process_mavlink ref_lib inbox heartbeat_packet"
  let ?s1 = "?x\<lparr>msg_file := Some ''again''\<rparr>"
  have x: "udp_out ?x = [heartbeat_packet, snd (ref_statustext_pack [] 1 (''hi'' @ replicate 48 (CHR ''#'')))]"
    "mavlink_status ?x = []" "mavbuff_offset ?x = 0" "length (mavbuf ?x) = 2048"
    "aggregate ?x = 1" "mavpckts_count ?x = 0"
    "\<not> monitor_wfb ?x" "last_board_temp ?x \<le> - 100" "pending ?x = []"
    "stack ?x = (\<lambda>k i. CHR ''#'')"
    unfolding s(1) flush_info[OF s(4) c s(5,6)]
    using s(5,6) by (simp_all add: s(2,3,7,8,9,10,11) s(3)[unfolded pending_def] ref_pack_state
        pending_def hash_operator_text[OF s(11)])
  have s1: "mavlink_status ?s1 = []" "length (mavbuf ?s1) = 2048" "pending ?s1 = []"
    using x(9) by (simp_all add: x pending_def)
  have fl2: "will_flush (?s1\<lparr>mavbuff_offset := mavbuff_offset ?s1 + 17\<rparr>) heartbeat_msg"
    by (simp add: will_flush_def flush_due_def x)
  have k2: "unat (mavbuff_offset ?s1) + 16 \<le> 2000"
    by (simp add: x)
  from heartbeat_flush[OF s1(1) k2 s1(2) fl2] obtain t where
    t: "process_mavlink ref_lib ?s1 heartbeat_packet = flush_and_send ref_lib t"
    "udp_out t = [heartbeat_packet, snd (ref_statustext_pack [] 1 (''hi'' @ replicate 48 (CHR ''#'')))]"
    "pending t = heartbeat_packet" "msg_file t = Some ''again''"
    "\<not> monitor_wfb t" "last_board_temp t \<le> - 100" "mavlink_status t = []" "system_id t = 1"
    "stack t = (\<lambda>k i. CHR ''#'')"
    unfolding s1(3) using x by auto
  have c2: "''again'' \<noteq> []" by simp
  have u: "udp_out (process_mavlink ref_lib ?s1 heartbeat_packet)
    = [heartbeat_packet, snd (ref_statustext_pack [] 1 (''hi'' @ replicate 48 (CHR ''#''))),
       heartbeat_packet, snd (ref_statustext_pack [] 1 (''again'' @ replicate 45 (CHR ''#'')))]"
    unfolding t(1) flush_info[OF t(4) c2 t(5,6)]
    by (simp add: t ref_pack_state hash_operator_text[OF t(9)])
  have "clock inbox = (\<lambda>n. 5000)"
    by (simp add: inbox_def initial_state_def)
  then show ?thesis
    using u by (simp add: process_mavlink_clock)
qed

section \<open>Raw pass-through\<close>

lemma raw_process_byte:
  assumes "aggregate st \<le> 0"
  shows "udp_out (process_byte L st b) = udp_out st" "aggregate (process_byte L st b) = aggregate st"
proof -
  let ?s2 = "append_byte b (overflow_guard st)"
  have nf: "\<not> will_flush (?s2\<lparr>mavlink_status := p\<rparr>) m" for p m
    using assms by (simp add: will_flush_def guard_append_keeps)
  show "udp_out (process_byte L st b) = udp_out st" "aggregate (process_byte L st b) = aggregate st"
    by (simp_all add: process_byte_def Let_def on_message_noflush[OF nf] guard_append_keeps
        split: prod.splits option.splits)
qed

lemma raw_process_mavlink:
  assumes "aggregate st \<le> 0"
  shows "udp_out (process_mavlink L st bs) = udp_out st \<and>
         aggregate (process_mavlink L st bs) = aggregate st"
proof (induction bs rule: rev_induct)
  case Nil
  show ?case by (simp add: process_mavlink_def)
next
  case (snoc b bs)
  with assms have "aggregate (process_mavlink L st bs) \<le> 0" by simp
  from raw_process_byte[OF this] snoc show ?case
    unfolding process_mavlink_snoc by simp
qed

text \<open>
  C3 (as the code has it): with \<^verbatim>\<open>aggregate\<close> = 0 every non-empty serial read goes out
  unmodified as exactly one datagram, and nothing else is sent. When no channel is
  monitored (\<^verbatim>\<open>ch_count\<close> = 0) that is all: apart from the two read counters the state,
  parser and debounce variables included, is unchanged. When a channel is monitored the
  same bytes are in addition run through \<^verbatim>\<open>process_mavlink\<close>, parser and RC handlers
  included.
\<close>

theorem raw_mode_forwarding:
  assumes "aggregate st = 0" and "data \<noteq> []"
  shows "udp_out (serial_read_cb L data st) = udp_out st @ [data] \<and>
         (ch_count st = 0 \<longrightarrow>
            serial_read_cb L data st =
              st\<lparr>ttl_packets := ttl_packets st + 1, ttl_bytes := ttl_bytes st + int (length data),
                 udp_out := udp_out st @ [data]\<rparr>) \<and>
         (ch_count st \<noteq> 0 \<longrightarrow>
            serial_read_cb L data st =
              process_mavlink L
                (st\<lparr>ttl_packets := ttl_packets st + 1, ttl_bytes := ttl_bytes st + int (length data),
                    udp_out := udp_out st @ [data]\<rparr>) data)"
proof -
  let ?s = "st\<lparr>ttl_packets := ttl_packets st + 1, ttl_bytes := ttl_bytes st + int (length data),
                 udp_out := udp_out st @ [data]\<rparr>"
  have a: "aggregate ?s \<le> 0" using assms(1) by simp
  have w: "(0 < ch_count st) = (ch_count st \<noteq> 0)"
    by (simp add: word_neq_0_conv)
  have e: "serial_read_cb L data st = (if ch_count st \<noteq> 0 then process_mavlink L ?s data else ?s)"
    using assms by (simp add: serial_read_cb_def Let_def w)
  show ?thesis
    unfolding e using raw_process_mavlink[OF a, of L data] by simp
qed

lemma ProcessChannels_candidate:
  assumes "1 \<le> ch_count st" and "ch_count st \<le> 16"
    and "\<not> abs_diff (clock st (ticks st)) (LastStart st) < wait_after_bash st"
    and "\<bar>uint (channels st ! (unat (ch_count st) - 1)) - uint (NewValue st)\<bar> > 32"
    and "ChannelPersistPeriodmMS st > 0"
  shows "ProcessChannels st =
     st\<lparr>ticks := Suc (Suc (ticks st)), NewValue := channels st ! (unat (ch_count st) - 1),
        NewValueStart := clock st (Suc (ticks st))\<rparr>"
proof -
  have w: "\<not> ch_count st < 1" "\<not> ch_count st > 16"
    using assms(1,2) by (simp_all add: word_less_nat_alt word_le_nat_alt)
  show ?thesis
    using assms(3-5) w
    by (simp add: ProcessChannels_def get_current_time_ms_def Let_def)
qed

lemma dispatch_rc_raw:
  "msgid m = 35 \<Longrightarrow> dispatch L m st =
     ProcessChannels (st\<lparr>channels := memcpy_channels (channels st) (rc_channels_raw_decode L m) 8\<rparr>)"
  by (simp add: dispatch_def handle_msg_id_rc_channels_raw_def)

lemma rc_raw_parse:
  "parse_quiet ref_lib [] (butlast rc_raw_packet) = Some (butlast rc_raw_packet)"
  "parse_char ref_lib (butlast rc_raw_packet) (last rc_raw_packet) = ([], Some rc_raw_msg)"
  "butlast rc_raw_packet @ [last rc_raw_packet] = rc_raw_packet"
  "length (butlast rc_raw_packet) = 29"
  "length rc_raw_packet = 30"
  by (simp_all add: rc_raw_packet_def ref_lib_def frame_char_def rc_raw_msg_def Let_def)

lemma rc_raw_first_channel:
  "memcpy_channels (replicate 18 0) (rc_channels_raw_decode ref_lib rc_raw_msg) 8 ! 0 = 1500"
  by (simp add: memcpy_channels_def ref_lib_def payload_words_def rc_raw_msg_def le16_def
      upt_rec nth_append)

lemma watching_fields:
  "ch_count watching = 1" "aggregate watching = 0" "ticks watching = 1"
  "LastStart watching = 5000" "clock watching = (\<lambda>n. 5000 + 3000 * of_nat n)"
  "wait_after_bash watching = 2000" "ChannelPersistPeriodmMS watching = 2000"
  "NewValue watching = 0" "channels watching = replicate 18 0" "mavlink_status watching = []"
  "mavbuff_offset watching = 0" "udp_out watching = []" "mavbuf watching = replicate 2048 0"
  "mavpckts_ttl watching = 0" "ttl_packets watching = 0" "ttl_bytes watching = 0"
  by (simp_all add: watching_def option_channels_def option_aggregate_def get_current_time_ms_def
      start_def initial_state_def Let_def)

text \<open>
  With \<^verbatim>\<open>-a 0 -c 1\<close>, one \<^verbatim>\<open>RC_CHANNELS_RAW\<close> packet read from the serial port is also parsed:
  the packet is counted, and \<^verbatim>\<open>ProcessChannels\<close> takes the value 1500 of channel 1 as its new
  candidate.
\<close>

theorem raw_mode_parses_when_monitoring_counterexample:
  "aggregate watching = 0 \<and> mavpckts_ttl watching = 0 \<and> NewValue watching = 0 \<and>
   mavpckts_ttl (serial_read_cb ref_lib rc_raw_packet watching) = 1 \<and>
   NewValue (serial_read_cb ref_lib rc_raw_packet watching) = 1500 \<and>
   NewValueStart (serial_read_cb ref_lib rc_raw_packet watching) = 11000"
proof -
  define S0 where "S0 = watching\<lparr>ttl_packets := ttl_packets watching + 1,
      ttl_bytes := ttl_bytes watching + int (length rc_raw_packet),
      udp_out := udp_out watching @ [rc_raw_packet]\<rparr>"
  have ne: "rc_raw_packet \<noteq> []" by (simp add: rc_raw_packet_def)
  have e0: "serial_read_cb ref_lib rc_raw_packet watching = process_mavlink ref_lib S0 rc_raw_packet"
    using ne by (simp add: serial_read_cb_def Let_def watching_fields S0_def)
  have S0f: "mavlink_status S0 = []" "mavbuff_offset S0 = 0" "length (mavbuf S0) = 2048"
    by (simp_all add: S0_def watching_fields)
  define S1 where "S1 = S0\<lparr>mavbuf := take (unat (mavbuff_offset S0)) (mavbuf S0) @ butlast rc_raw_packet
                     @ [last rc_raw_packet]
                     @ drop (unat (mavbuff_offset S0) + length (butlast rc_raw_packet) + 1) (mavbuf S0),
          mavbuff_offset := mavbuff_offset S0 + of_nat (length (butlast rc_raw_packet)) + 1,
          mavlink_status := []\<rparr>"
  have e1: "process_mavlink ref_lib S0 (butlast rc_raw_packet @ [last rc_raw_packet])
      = on_message ref_lib rc_raw_msg S1"
    unfolding S1_def
  proof (rule packet_run)
    show "parse_quiet ref_lib (mavlink_status S0) (butlast rc_raw_packet) = Some (butlast rc_raw_packet)"
      unfolding S0f by (rule rc_raw_parse)
    show "parse_char ref_lib (butlast rc_raw_packet) (last rc_raw_packet) = ([], Some rc_raw_msg)"
      by (rule rc_raw_parse)
    show "unat (mavbuff_offset S0) + length (butlast rc_raw_packet) \<le> 2000"
      unfolding S0f rc_raw_parse by simp
    show "length (mavbuf S0) = 2048"
      by (rule S0f)
  qed
  have S1f: "aggregate S1 = 0" "ch_count S1 = 1" "clock S1 = (\<lambda>n. 5000 + 3000 * of_nat n)"
    "ticks S1 = 1" "LastStart S1 = 5000" "wait_after_bash S1 = 2000" "NewValue S1 = 0"
    "ChannelPersistPeriodmMS S1 = 2000" "mavpckts_ttl S1 = 0" "channels S1 = replicate 18 0"
    by (simp_all add: S1_def S0_def watching_fields)
  have nf: "\<not> will_flush S1 rc_raw_msg"
    by (simp add: will_flush_def S1f)
  define Y0 where "Y0 = ShowVersionOnce (S1\<lparr>mavpckts_ttl := mavpckts_ttl S1 + 1,
      system_id := sysid rc_raw_msg\<rparr>)"
  define Y where "Y = Y0\<lparr>channels :=
      memcpy_channels (channels Y0) (rc_channels_raw_decode ref_lib rc_raw_msg) 8\<rparr>"
  have m: "msgid rc_raw_msg = 35" by (simp add: rc_raw_msg_def)
  have d: "dispatch ref_lib rc_raw_msg Y0 = ProcessChannels Y"
    unfolding Y_def by (rule dispatch_rc_raw[OF m])
  have e2: "on_message ref_lib rc_raw_msg S1 =
      (ProcessChannels Y)\<lparr>mavpckts_count := mavpckts_count (ProcessChannels Y) + 1\<rparr>"
    unfolding on_message_cases Let_def Y0_def[symmetric] d using nf by simp
  have y: "ch_count Y = 1" "clock Y = (\<lambda>n. 5000 + 3000 * of_nat n)" "ticks Y = 1"
    "LastStart Y = 5000" "wait_after_bash Y = 2000" "NewValue Y = 0"
    "ChannelPersistPeriodmMS Y = 2000" "mavpckts_ttl Y = 1"
    "channels Y ! 0 = 1500"
    by (simp_all add: Y_def Y0_def ShowVersionOnce_keeps S1f rc_raw_first_channel)
  have pc: "ProcessChannels Y =
     Y\<lparr>ticks := Suc (Suc (ticks Y)), NewValue := channels Y ! (unat (ch_count Y) - 1),
        NewValueStart := clock Y (Suc (ticks Y))\<rparr>"
  proof (rule ProcessChannels_candidate)
    show "1 \<le> ch_count Y" "ch_count Y \<le> 16" unfolding y by simp_all
    show "\<not> abs_diff (clock Y (ticks Y)) (LastStart Y) < wait_after_bash Y"
      unfolding y by (simp add: abs_diff_def c_abs_def)
    show "\<bar>uint (channels Y ! (unat (ch_count Y) - 1)) - uint (NewValue Y)\<bar> > 32"
      unfolding y(1,6) using y(9) by simp
    show "ChannelPersistPeriodmMS Y > 0" unfolding y by simp
  qed
  have r: "mavpckts_ttl (ProcessChannels Y) = 1" "NewValue (ProcessChannels Y) = 1500"
    "NewValueStart (ProcessChannels Y) = 11000"
    unfolding pc using y by simp_all
  show ?thesis
    unfolding e0 e1[unfolded rc_raw_parse(3)] e2 using r by (simp add: watching_fields)
qed

text \<open>
  Instances: the sample packet read in raw mode without and with channel monitoring; in
  both, the one datagram sent is the packet itself.
\<close>

theorem raw_mode_forwarding_witness:
  "aggregate raw_only = 0 \<and> rc_raw_packet \<noteq> [] \<and> ch_count raw_only = 0 \<and>
   udp_out (serial_read_cb ref_lib rc_raw_packet raw_only) = [rc_raw_packet] \<and>
   serial_read_cb ref_lib rc_raw_packet raw_only =
     raw_only\<lparr>ttl_packets := 1, ttl_bytes := 30, udp_out := [rc_raw_packet]\<rparr> \<and>
   aggregate watching = 0 \<and> ch_count watching \<noteq> 0 \<and>
   udp_out (serial_read_cb ref_lib rc_raw_packet watching) = [rc_raw_packet]"
proof -
  have r: "aggregate raw_only = 0" "ch_count raw_only = 0" "udp_out raw_only = []"
    "ttl_packets raw_only = 0" "ttl_bytes raw_only = 0"
    by (simp_all add: raw_only_def option_aggregate_def start_def initial_state_def)
  have ne: "rc_raw_packet \<noteq> []" by (simp add: rc_raw_packet_def)
  have w: "aggregate watching = 0" "ch_count watching \<noteq> 0"
    by (simp_all add: watching_fields)
  have a: "udp_out (serial_read_cb ref_lib rc_raw_packet raw_only) = [rc_raw_packet]"
    "serial_read_cb ref_lib rc_raw_packet raw_only =
       raw_only\<lparr>ttl_packets := 1, ttl_bytes := 30, udp_out := [rc_raw_packet]\<rparr>"
    using raw_mode_forwarding [OF r(1) ne, of ref_lib]
    by (simp_all add: r rc_raw_parse(5))
  have b: "udp_out (serial_read_cb ref_lib rc_raw_packet watching) = [rc_raw_packet]"
    using raw_mode_forwarding [OF w(1) ne, of ref_lib, THEN conjunct1]
    by (simp add: watching_fields)
  show ?thesis
    using ne r(1,2) w a b by simp
qed

end
